theory Spec2Isabelle
  imports Complex_Main "HOL-Library.Sublist" "HOL-Library.Word"
begin

section \<open>The boundary to the blockchain SDK\<close>

text \<open>
  The storefront talks to the Solana network through \<^verbatim>\<open>@solana/web3.js\<close> and
  \<^verbatim>\<open>@solana/spl-token\<close>. Every awaited SDK call is an interaction with the outside
  world: it may reject (the \<^verbatim>\<open>catch\<close> branch of the caller runs) or resolve to a
  value. The model keeps the list of all interactions made so far, the \<^emph>\<open>trace\<close>, and
  lets the answer to a call depend on the call and on the whole trace before it. One
  request is followed at a time; awaits are not interleaved with other requests.

  Numbers of the program are JavaScript doubles; they are modelled as exact reals, so
  rounding is not part of the model.
\<close>

type_synonym endpoint = string
type_synonym address = string
type_synonym byte = "8 word"

text \<open>
  A JavaScript string is a sequence of UTF-16 code units. Text that a request supplies
  (an account, a token identifier, a signature) is modelled as such a sequence, since
  the handlers trim it or test it for emptiness. The text of the program itself and of
  the SDK (endpoints, keys in base58, block hashes) is written as HOL strings;
  \<open>codeUnits\<close> gives the code units of such a text.
\<close>

type_synonym jsstring = "16 word list"

definition codeUnits :: "string \<Rightarrow> jsstring" where
  "codeUnits t = map of_char t"

text \<open>A \<^verbatim>\<open>Connection\<close> object is determined by the endpoint it was built for.\<close>

datatype connection = Connection endpoint

fun endpointOf :: "connection \<Rightarrow> endpoint" where
  "endpointOf (Connection e) = e"

datatype call =
    NewConnection endpoint
  | GetSlot endpoint
  | GetVersion endpoint
  | GetParsedTransaction endpoint jsstring
  | GetAccount endpoint address
  | GetLatestBlockhash endpoint
  | GetAccountInfo endpoint address
  | GetTokenAccountBalance endpoint address
  | GetBalance endpoint address
  | GetTokenAccountsByOwner endpoint address
  | GetProgramAccounts endpoint address
  | GenerateImage string

datatype 'a outcome = Throws | Returns 'a

text \<open>The calls that ask for a transaction by its signature.\<close>

fun isFetch :: "call \<Rightarrow> bool" where
  "isFetch (GetParsedTransaction e g) = True"
| "isFetch c = False"

text \<open>
  The part of a parsed transaction the handlers read: the account keys (base58), the
  block time in seconds (\<^verbatim>\<open>null\<close> is \<open>None\<close>), the slot, and whether
  \<^verbatim>\<open>meta.err\<close> is set (the transaction failed on chain).
\<close>

record ParsedTransaction =
  accountKeys :: "address list"
  blockTime :: "nat option"
  slot :: nat
  metaErr :: bool

text \<open>What \<^verbatim>\<open>getAccount\<close> of spl-token does: it resolves, or rejects with one of the
  errors that \<^verbatim>\<open>tokenAccountExists\<close> tells apart.\<close>

datatype account_lookup =
    AccountFound
  | TokenAccountNotFoundError
  | TokenInvalidAccountOwnerError
  | CouldNotFindAccount
  | OtherError

text \<open>The unsigned transaction that the initiate-payment route assembles.\<close>

datatype instruction =
    CreateAssociatedTokenAccount address address address address
  | Transfer address address address real

record UnsignedTransaction =
  instructions :: "instruction list"
  recentBlockhash :: string
  feePayer :: address

text \<open>
  The environment. A field that takes a trace answers an awaited call made after that
  trace. A key is identified with its base58 text. \<open>validKey\<close> says whether
  \<^verbatim>\<open>new PublicKey\<close> accepts a text of the program (one of its constants), which then is
  the key; \<open>parseKey\<close> is \<^verbatim>\<open>new PublicKey\<close> on text from a request: the key, or \<open>None\<close>
  when the constructor throws. \<open>onCurve\<close> is \<^verbatim>\<open>PublicKey.isOnCurve\<close>,
  \<open>associatedTokenAddress mint owner\<close> is the derived holding address, \<open>toBase58\<close>
  prints key bytes, and \<open>serialize\<close> is \<^verbatim>\<open>Transaction.serialize\<close>, which may throw.
\<close>

record sdk =
  getSlot :: "call list \<Rightarrow> endpoint \<Rightarrow> nat outcome"
  getVersion :: "call list \<Rightarrow> endpoint \<Rightarrow> string outcome"
  getParsedTransaction :: "call list \<Rightarrow> endpoint \<Rightarrow> jsstring \<Rightarrow> ParsedTransaction option outcome"
  getAccount :: "call list \<Rightarrow> endpoint \<Rightarrow> address \<Rightarrow> account_lookup"
  getLatestBlockhash :: "call list \<Rightarrow> endpoint \<Rightarrow> (string \<times> nat) outcome"
  getAccountInfo :: "call list \<Rightarrow> endpoint \<Rightarrow> address \<Rightarrow> byte list option outcome"
  getTokenAccountBalance :: "call list \<Rightarrow> endpoint \<Rightarrow> address \<Rightarrow> real option outcome"
  getBalance :: "call list \<Rightarrow> endpoint \<Rightarrow> address \<Rightarrow> nat outcome"
  getTokenAccountsByOwner :: "call list \<Rightarrow> endpoint \<Rightarrow> address \<Rightarrow> address list outcome"
  getProgramAccounts :: "call list \<Rightarrow> endpoint \<Rightarrow> address \<Rightarrow> (address \<times> byte list) list outcome"
  generateImage :: "call list \<Rightarrow> string \<Rightarrow> string outcome"
  dateNow :: "call list \<Rightarrow> nat"
  validKey :: "string \<Rightarrow> bool"
  parseKey :: "jsstring \<Rightarrow> address option"
  onCurve :: "address \<Rightarrow> bool"
  associatedTokenAddress :: "address \<Rightarrow> address \<Rightarrow> address"
  toBase58 :: "byte list \<Rightarrow> address"
  serialize :: "UnsignedTransaction \<Rightarrow> string outcome"

section \<open>Endpoint selection in the API routes\<close>

text \<open>
  Each route module owns the two variables \<^verbatim>\<open>cachedConnection\<close> and
  \<^verbatim>\<open>cachedEndpoint\<close>. \<^verbatim>\<open>apiLog\<close> only writes to the console and is left out.
  Building a \<^verbatim>\<open>Connection\<close> does no I/O; it is recorded in the trace all the same.
  The candidates are http(s) URLs, which the constructor accepts.
\<close>

record module_state =
  cachedConnection :: "connection option"
  cachedEndpoint :: "endpoint option"
  trace :: "call list"

definition issue :: "call \<Rightarrow> module_state \<Rightarrow> module_state" where
  "issue c s = s\<lparr>trace := trace s @ [c]\<rparr>"

text \<open>JavaScript truthiness of a value that is a string or null.\<close>

definition truthy :: "'a list option \<Rightarrow> bool" where
  "truthy v = (case v of None \<Rightarrow> False | Some t \<Rightarrow> t \<noteq> [])"

definition invalidate :: "module_state \<Rightarrow> module_state" where
  "invalidate s = s\<lparr>cachedConnection := None, cachedEndpoint := None\<rparr>"

text \<open>
  \<^verbatim>\<open>solana-pay/route.ts\<close> lines 45-56 (the same text in \<^verbatim>\<open>confirm-payment/route.ts\<close>
  and in the get-transaction route): the probe of the cached connection. The result is
  the connection returned early, or \<open>None\<close> with the state in which the loop starts.
\<close>

definition probeCached :: "sdk \<Rightarrow> module_state \<Rightarrow> connection option \<times> module_state" where
  "probeCached env s =
     (case cachedConnection s of
        None \<Rightarrow> (None, s)
      | Some cached \<Rightarrow>
          if truthy (cachedEndpoint s) then
            (case getSlot env (trace s) (endpointOf cached) of
               Returns n \<Rightarrow> (Some cached, issue (GetSlot (endpointOf cached)) s)
             | Throws \<Rightarrow> (None, invalidate (issue (GetSlot (endpointOf cached)) s)))
          else (None, s))"

text \<open>
  \<^verbatim>\<open>solana-pay/route.ts\<close> lines 58-90 and \<^verbatim>\<open>confirm-payment/route.ts\<close> lines 40-72:
  \<^verbatim>\<open>Promise.all\<close> starts \<^verbatim>\<open>getSlot\<close> and \<^verbatim>\<open>getVersion\<close> before it awaits either, and
  rejects when one of them rejects.
\<close>

fun tryEndpoints :: "sdk \<Rightarrow> endpoint list \<Rightarrow> module_state \<Rightarrow> connection option \<times> module_state" where
  "tryEndpoints env [] s = (None, s)"
| "tryEndpoints env (endpoint # rest) s =
     (let s1 = issue (NewConnection endpoint) s;
          slot = getSlot env (trace s1) endpoint;
          s2 = issue (GetSlot endpoint) s1;
          version = getVersion env (trace s2) endpoint;
          s3 = issue (GetVersion endpoint) s2
      in if slot \<noteq> Throws \<and> version \<noteq> Throws
         then (Some (Connection endpoint),
               s3\<lparr>cachedConnection := Some (Connection endpoint), cachedEndpoint := Some endpoint\<rparr>)
         else tryEndpoints env rest s3)"

definition getWorkingConnection :: "sdk \<Rightarrow> endpoint list \<Rightarrow> module_state \<Rightarrow> connection option \<times> module_state" where
  "getWorkingConnection env endpoints s =
     (case probeCached env s of
        (Some cached, s1) \<Rightarrow> (Some cached, s1)
      | (None, s1) \<Rightarrow> tryEndpoints env endpoints s1)"

text \<open>
  The get-transaction route (\<^verbatim>\<open>unnamed/part_002\<close> lines 38-66) tests a candidate with
  \<^verbatim>\<open>getSlot\<close> alone.
\<close>

fun tryEndpoints_getTx :: "sdk \<Rightarrow> endpoint list \<Rightarrow> module_state \<Rightarrow> connection option \<times> module_state" where
  "tryEndpoints_getTx env [] s = (None, s)"
| "tryEndpoints_getTx env (endpoint # rest) s =
     (let s1 = issue (NewConnection endpoint) s;
          slot = getSlot env (trace s1) endpoint;
          s2 = issue (GetSlot endpoint) s1
      in if slot \<noteq> Throws
         then (Some (Connection endpoint),
               s2\<lparr>cachedConnection := Some (Connection endpoint), cachedEndpoint := Some endpoint\<rparr>)
         else tryEndpoints_getTx env rest s2)"

definition getWorkingConnection_getTx :: "sdk \<Rightarrow> endpoint list \<Rightarrow> module_state \<Rightarrow> connection option \<times> module_state" where
  "getWorkingConnection_getTx env endpoints s =
     (case probeCached env s of
        (Some cached, s1) \<Rightarrow> (Some cached, s1)
      | (None, s1) \<Rightarrow> tryEndpoints_getTx env endpoints s1)"

text \<open>The interactions of one candidate's test, in the order they are started.\<close>

definition probes :: "endpoint \<Rightarrow> call list" where
  "probes e = [NewConnection e, GetSlot e, GetVersion e]"

definition probes_getTx :: "endpoint \<Rightarrow> call list" where
  "probes_getTx e = [NewConnection e, GetSlot e]"

text \<open>Both probes of candidate \<open>e\<close> resolve when it is tested after the trace \<open>h\<close>.\<close>

definition alive :: "sdk \<Rightarrow> call list \<Rightarrow> endpoint \<Rightarrow> bool" where
  "alive env h e =
     (getSlot env (h @ [NewConnection e]) e \<noteq> Throws \<and>
      getVersion env (h @ [NewConnection e, GetSlot e]) e \<noteq> Throws)"

definition alive_getTx :: "sdk \<Rightarrow> call list \<Rightarrow> endpoint \<Rightarrow> bool" where
  "alive_getTx env h e = (getSlot env (h @ [NewConnection e]) e \<noteq> Throws)"

section \<open>The receipt ledger\<close>

text \<open>
  \<^verbatim>\<open>product.price\<close> as a request delivers it: a JSON number, or nothing at all
  (\<^verbatim>\<open>undefined\<close>). Prices of another JSON type (a string, a boolean, \<^verbatim>\<open>null\<close>, an
  array or an object) are outside the model: everything below speaks of requests whose
  price is a number or missing. The running total is a number or, once \<^verbatim>\<open>undefined\<close>
  has been added to it, \<^verbatim>\<open>NaN\<close>. The name of a product is only passed on by the
  handlers; it is written as a HOL string.
\<close>

datatype price = NoPrice | Price real

datatype jsnum = Num real | NaN

text \<open>JavaScript's \<^verbatim>\<open>total + price\<close> on these values.\<close>

fun plusPrice :: "jsnum \<Rightarrow> price \<Rightarrow> jsnum" where
  "plusPrice (Num t) (Price p) = Num (t + p)"
| "plusPrice (Num t) NoPrice = NaN"
| "plusPrice NaN p = NaN"

text \<open>JavaScript's \<^verbatim>\<open>===\<close> on these values: \<^verbatim>\<open>NaN\<close> equals nothing, not even itself.\<close>

fun strictEq :: "jsnum \<Rightarrow> jsnum \<Rightarrow> bool" where
  "strictEq (Num a) (Num b) = (a = b)"
| "strictEq NaN b = False"
| "strictEq (Num a) NaN = False"

record Product =
  name :: string
  price :: price

text \<open>\<^verbatim>\<open>unnamed/part_000\<close>: the interface \<^verbatim>\<open>Transaction\<close> and the object \<^verbatim>\<open>db\<close>.\<close>

record Transaction =
  buyer :: address
  product_name :: string
  amount :: price
  signature :: jsstring
  timestamp :: nat
  imageUrl :: "string option"

record ledger =
  transactions :: "Transaction list"
  totalSales :: jsnum
  nftReceiptsIssued :: nat

definition db_initial :: ledger where
  "db_initial = \<lparr>transactions = [], totalSales = Num 0, nftReceiptsIssued = 0\<rparr>"

text \<open>
  The invariant of the ledger: the running total equals the sum of the recorded amounts,
  added from zero in the order of the records with the program's own addition and
  compared with the program's own equality, and the counter is the number of records.
\<close>

definition ledger_inv :: "ledger \<Rightarrow> bool" where
  "ledger_inv db =
     (strictEq (totalSales db) (foldl plusPrice (Num 0) (map amount (transactions db))) \<and>
      nftReceiptsIssued db = length (transactions db))"

section \<open>The confirm-payment route\<close>

definition maxRetries :: nat where
  "maxRetries = 3"

text \<open>
  \<^verbatim>\<open>confirm-payment/route.ts\<close> lines 101-146. The loop always asks the connection it
  was given; the connection that \<^verbatim>\<open>getWorkingConnection\<close> returns after a failure is
  only tested for \<^verbatim>\<open>null\<close>. The variable \<^verbatim>\<open>tx\<close> is falsy until an attempt finds the
  transaction, which leaves the loop, so the result is the transaction found or \<open>None\<close>.
\<close>

function fetchLoop ::
  "sdk \<Rightarrow> endpoint list \<Rightarrow> connection \<Rightarrow> jsstring \<Rightarrow> nat \<Rightarrow> module_state
     \<Rightarrow> ParsedTransaction option \<times> module_state" where
  "fetchLoop env endpoints connection sig attempt s =
     (if attempt < maxRetries then
        (let s1 = issue (GetParsedTransaction (endpointOf connection) sig) s in
         case getParsedTransaction env (trace s) (endpointOf connection) sig of
           Returns (Some tx) \<Rightarrow> (Some tx, s1)
         | Returns None \<Rightarrow> fetchLoop env endpoints connection sig (attempt + 1) s1
         | Throws \<Rightarrow>
             if attempt < maxRetries - 1 then
               (case getWorkingConnection env endpoints (invalidate s1) of
                  (None, s2) \<Rightarrow> (None, s2)
                | (Some newConnection, s2) \<Rightarrow>
                    fetchLoop env endpoints connection sig (attempt + 1) s2)
             else fetchLoop env endpoints connection sig (attempt + 1) s1)
      else (None, s))"
  by pat_completeness auto
termination
  by (relation "measure (\<lambda>(env, eps, c, sig, attempt, s). maxRetries - attempt)") auto

declare fetchLoop.simps [simp del]

record confirm_body =
  confirm_signature :: "jsstring option"
  confirm_product :: "Product option"

text \<open>The responses of the handler; \<open>StatusOk\<close> carries \<^verbatim>\<open>details.rpcEndpoint\<close> and
  \<^verbatim>\<open>details.imageGenerated\<close>. The processing time is left out.\<close>

datatype confirm_response =
    MissingSignatureOrProduct
  | FailedToConnect
  | StatusOk "endpoint option" bool
  | TransactionNotValid
  | InternalServerError

fun confirm_status :: "confirm_response \<Rightarrow> nat" where
  "confirm_status MissingSignatureOrProduct = 400"
| "confirm_status FailedToConnect = 503"
| "confirm_status (StatusOk e i) = 200"
| "confirm_status TransactionNotValid = 400"
| "confirm_status InternalServerError = 500"

text \<open>
  Lines 148-228, for a transaction that the loop found. Reading \<^verbatim>\<open>accountKeys[0]\<close> of
  an empty list would throw into the outer \<^verbatim>\<open>catch\<close>.
\<close>

definition recordPayment ::
  "sdk \<Rightarrow> address \<Rightarrow> jsstring \<Rightarrow> Product \<Rightarrow> ParsedTransaction \<Rightarrow> ledger \<times> module_state
     \<Rightarrow> confirm_response \<times> ledger \<times> module_state" where
  "recordPayment env merchant sig product' tx st =
     (case st of (db, s) \<Rightarrow>
        if merchant \<in> set (accountKeys tx) then
          (let s1 = issue (GenerateImage (name product')) s;
               image = (case generateImage env (trace s) (name product') of
                          Returns dataUrl \<Rightarrow> Some dataUrl
                        | Throws \<Rightarrow> None)
           in case accountKeys tx of
                [] \<Rightarrow> (InternalServerError, db, s1)
              | key0 # keys \<Rightarrow>
                  (let newTransaction =
                         \<lparr>buyer = key0,
                          product_name = name product',
                          amount = price product',
                          signature = sig,
                          timestamp =
                            (case blockTime tx of
                               None \<Rightarrow> dateNow env (trace s1)
                             | Some t \<Rightarrow> if t \<noteq> 0 then t * 1000 else dateNow env (trace s1)),
                          imageUrl = image\<rparr>
                   in (StatusOk (cachedEndpoint s1) (truthy image),
                       db\<lparr>transactions := transactions db @ [newTransaction],
                          totalSales := plusPrice (totalSales db) (price product'),
                          nftReceiptsIssued := nftReceiptsIssued db + 1\<rparr>,
                       s1)))
        else (TransactionNotValid, db, s))"

text \<open>
  The handler \<^verbatim>\<open>POST\<close> of \<^verbatim>\<open>confirm-payment/route.ts\<close>. The body is \<open>None\<close> when
  \<^verbatim>\<open>req.json()\<close> rejects or yields \<^verbatim>\<open>null\<close>, which cannot be destructured; otherwise
  it is an object whose \<^verbatim>\<open>signature\<close> is a string or absent and whose \<^verbatim>\<open>product\<close> is
  an object with a string \<^verbatim>\<open>name\<close>, or absent.
\<close>

definition confirm_POST ::
  "sdk \<Rightarrow> endpoint list \<Rightarrow> address \<Rightarrow> confirm_body option \<Rightarrow> ledger \<times> module_state
     \<Rightarrow> confirm_response \<times> ledger \<times> module_state" where
  "confirm_POST env endpoints merchant body st =
     (case st of (db, s) \<Rightarrow>
        (case body of
          None \<Rightarrow> (InternalServerError, db, s)
        | Some b \<Rightarrow>
            (case (confirm_signature b, confirm_product b) of
               (Some sig, Some product') \<Rightarrow>
                 if sig = [] then (MissingSignatureOrProduct, db, s)
                 else
                   (case getWorkingConnection env endpoints s of
                      (None, s1) \<Rightarrow> (FailedToConnect, db, s1)
                    | (Some connection, s1) \<Rightarrow>
                        (case fetchLoop env endpoints connection sig 0 s1 of
                           (Some tx, s2) \<Rightarrow>
                             recordPayment env merchant sig product' tx (db, s2)
                         | (None, s2) \<Rightarrow> (TransactionNotValid, db, s2)))
             | _ \<Rightarrow> (MissingSignatureOrProduct, db, s))))"

text \<open>The dashboard route (\<^verbatim>\<open>GET\<close>, lines 351-363 of the same file): a snapshot.\<close>

datatype dashboard_response = DashboardData "Transaction list" jsnum nat

definition dashboard_GET :: "ledger \<Rightarrow> dashboard_response \<times> ledger" where
  "dashboard_GET db =
     (DashboardData (transactions db) (totalSales db) (nftReceiptsIssued db), db)"

section \<open>The get-transaction route\<close>

text \<open>
  \<^verbatim>\<open>String.prototype.trim\<close> removes the white space and the line terminators of
  ECMAScript from both ends: tab, line feed, vertical tab, form feed, carriage return,
  space, no-break space, U+1680, U+2000 to U+200A, the line and paragraph separators,
  U+202F, U+205F, U+3000 and the byte order mark.
\<close>

definition isSpace :: "16 word \<Rightarrow> bool" where
  "isSpace u =
     (u \<in> {0x9, 0xA, 0xB, 0xC, 0xD, 0x20, 0xA0, 0x1680, 0x2028, 0x2029, 0x202F, 0x205F,
           0x3000, 0xFEFF}
      \<or> (0x2000 \<le> u \<and> u \<le> 0x200A))"

definition trim :: "jsstring \<Rightarrow> jsstring" where
  "trim t = rev (dropWhile isSpace (rev (dropWhile isSpace t)))"

text \<open>\<^verbatim>\<open>unnamed/part_002\<close> lines 145-181: the same loop over this module's selector.\<close>

function fetchLoop_getTx ::
  "sdk \<Rightarrow> endpoint list \<Rightarrow> connection \<Rightarrow> jsstring \<Rightarrow> nat \<Rightarrow> module_state
     \<Rightarrow> ParsedTransaction option \<times> module_state" where
  "fetchLoop_getTx env endpoints connection sig attempt s =
     (if attempt < maxRetries then
        (let s1 = issue (GetParsedTransaction (endpointOf connection) sig) s in
         case getParsedTransaction env (trace s) (endpointOf connection) sig of
           Returns (Some tx) \<Rightarrow> (Some tx, s1)
         | Returns None \<Rightarrow> fetchLoop_getTx env endpoints connection sig (attempt + 1) s1
         | Throws \<Rightarrow>
             if attempt < maxRetries - 1 then
               (case getWorkingConnection_getTx env endpoints (invalidate s1) of
                  (None, s2) \<Rightarrow> (None, s2)
                | (Some newConnection, s2) \<Rightarrow>
                    fetchLoop_getTx env endpoints connection sig (attempt + 1) s2)
             else fetchLoop_getTx env endpoints connection sig (attempt + 1) s1)
      else (None, s))"
  by pat_completeness auto
termination
  by (relation "measure (\<lambda>(env, eps, c, sig, attempt, s). maxRetries - attempt)") auto

declare fetchLoop_getTx.simps [simp del]

record SimplifiedTransaction =
  simplified_signature :: jsstring
  simplified_buyer :: string
  simplified_amount :: real
  simplified_timestamp :: nat
  simplified_blockHeight :: nat
  simplified_status :: string
  simplified_rpcEndpoint :: "endpoint option"

datatype getTx_response =
    MissingSignatureParameter
  | InvalidSignatureParameter
  | FromLocalDatabase Transaction
  | FailedToConnect_getTx
  | FromSolanaNetwork SimplifiedTransaction
  | TransactionNotFound "endpoint option"

fun getTx_status :: "getTx_response \<Rightarrow> nat" where
  "getTx_status MissingSignatureParameter = 400"
| "getTx_status InvalidSignatureParameter = 400"
| "getTx_status (FromLocalDatabase t) = 200"
| "getTx_status FailedToConnect_getTx = 503"
| "getTx_status (FromSolanaNetwork t) = 200"
| "getTx_status (TransactionNotFound e) = 404"

text \<open>The handler \<^verbatim>\<open>GET\<close> of \<^verbatim>\<open>unnamed/part_002\<close>; the route parameter is a string or
  absent.\<close>

definition getTx_GET ::
  "sdk \<Rightarrow> endpoint list \<Rightarrow> jsstring option \<Rightarrow> ledger \<times> module_state
     \<Rightarrow> getTx_response \<times> ledger \<times> module_state" where
  "getTx_GET env endpoints param st =
     (case st of (db, s) \<Rightarrow>
        if \<not> truthy param then (MissingSignatureParameter, db, s)
        else if trim (the param) = [] then (InvalidSignatureParameter, db, s)
        else
          (let trimmedSignature = trim (the param) in
           case find (\<lambda>tx. signature tx = trimmedSignature) (transactions db) of
             Some localTransaction \<Rightarrow> (FromLocalDatabase localTransaction, db, s)
           | None \<Rightarrow>
               (case getWorkingConnection_getTx env endpoints s of
                  (None, s1) \<Rightarrow> (FailedToConnect_getTx, db, s1)
                | (Some connection, s1) \<Rightarrow>
                    (case fetchLoop_getTx env endpoints connection trimmedSignature 0 s1 of
                       (Some tx, s2) \<Rightarrow>
                         (FromSolanaNetwork
                            \<lparr>simplified_signature = trimmedSignature,
                             simplified_buyer =
                               (case accountKeys tx of
                                  [] \<Rightarrow> ''Unknown''
                                | key0 # keys \<Rightarrow> if key0 = [] then ''Unknown'' else key0),
                             simplified_amount = 0,
                             simplified_timestamp =
                               (case blockTime tx of
                                  None \<Rightarrow> dateNow env (trace s2)
                                | Some t \<Rightarrow> if t \<noteq> 0 then t * 1000 else dateNow env (trace s2)),
                             simplified_blockHeight = slot tx,
                             simplified_status = (if metaErr tx then ''failed'' else ''confirmed''),
                             simplified_rpcEndpoint = cachedEndpoint s2\<rparr>,
                          db, s2)
                     | (None, s2) \<Rightarrow> (TransactionNotFound (cachedEndpoint s2), db, s2)))))"

section \<open>The initiate-payment route\<close>

definition POTENTIAL_USDC_MINTS :: "address list" where
  "POTENTIAL_USDC_MINTS =
     [''4zMMC9srt5Ri5X14GAgXhaHii3GnPAEERYPJgZJDncDU'',
      ''Gh9ZwEmdLJ8DscKNTkTqPbNwLNNBjuSzaG9Vp2KGtKJr'',
      ''EPjFWdd5AufqSSqeM2qN1xzybapC8G4wEGGkZwyTDt1v'']"

text \<open>\<^verbatim>\<open>clusterApiUrl('devnet')\<close> is the first candidate; the SDK maps it to the public
  devnet address.\<close>

definition RPC_ENDPOINTS :: "endpoint list" where
  "RPC_ENDPOINTS =
     [''https://api.devnet.solana.com'',
      ''https://api.devnet.solana.com'',
      ''https://rpc.ankr.com/solana_devnet'',
      ''https://devnet.helius-rpc.com/?api-key=your-api-key'']"

definition MERCHANT_WALLET :: address where
  "MERCHANT_WALLET = ''86xCnPeV69n6t3DnyGkfpPEX4kuT3t6eJ5iAbPGYATcp''"

text \<open>\<^verbatim>\<open>solana-pay/route.ts\<close> lines 94-107.\<close>

definition tokenAccountExists ::
  "sdk \<Rightarrow> connection \<Rightarrow> address \<Rightarrow> module_state \<Rightarrow> bool outcome \<times> module_state" where
  "tokenAccountExists env connection addr s =
     (case getAccount env (trace s) (endpointOf connection) addr of
        AccountFound \<Rightarrow> Returns True
      | TokenAccountNotFoundError \<Rightarrow> Returns False
      | TokenInvalidAccountOwnerError \<Rightarrow> Returns False
      | CouldNotFindAccount \<Rightarrow> Returns False
      | OtherError \<Rightarrow> Throws,
      issue (GetAccount (endpointOf connection) addr) s)"

definition isValidSolanaAddress :: "sdk \<Rightarrow> jsstring \<Rightarrow> bool" where
  "isValidSolanaAddress env addr = (parseKey env addr \<noteq> None)"

text \<open>Lines 120-130. The three candidates are well-formed keys, so building the default
  key does not throw.\<close>

definition getUsdcMint :: "sdk \<Rightarrow> jsstring option \<Rightarrow> address" where
  "getUsdcMint env providedMint =
     (if truthy providedMint \<and> isValidSolanaAddress env (the providedMint)
      then the (parseKey env (the providedMint))
      else POTENTIAL_USDC_MINTS ! 0)"

text \<open>
  The request body: empty text, text that is not JSON, the JSON value \<^verbatim>\<open>null\<close>
  (destructuring it throws), or a JSON object. Its \<^verbatim>\<open>account\<close> is absent (or falsy), a
  string, or a truthy value of another type; its \<^verbatim>\<open>usdcMint\<close> is a string or absent.
\<close>

datatype account_field = AccountAbsent | AccountString jsstring | AccountOther

record pay_fields =
  pay_account :: account_field
  pay_product :: "Product option"
  pay_usdcMint :: "jsstring option"

datatype pay_body = EmptyBody | InvalidJson | JsonNull | Json pay_fields

record pay_details =
  userAccount :: address
  merchantAccount :: address
  rawAmount :: real
  userAccountExists :: bool
  merchantAccountExists :: bool
  blockhash :: string
  lastValidBlockHeight :: nat
  instructionCount :: nat
  usdcMint :: address
  rpcEndpoint :: "endpoint option"

datatype pay_response =
    EmptyRequestBody
  | InvalidJsonInRequestBody
  | MissingAccountOrProduct
  | InvalidProductPrice
  | InvalidAccountParameterType
  | EmptyAccountParameter
  | InvalidSolanaAddressFormat jsstring
  | FailedToConnectToSolana
  | ErrorCheckingUserTokenAccount address
  | ErrorCheckingMerchantTokenAccount address
  | FailedToGetLatestBlockhash
  | FailedToSerializeTransaction
  | TransactionCreated string pay_details
  | PayInternalServerError

fun pay_status :: "pay_response \<Rightarrow> nat" where
  "pay_status EmptyRequestBody = 400"
| "pay_status InvalidJsonInRequestBody = 400"
| "pay_status MissingAccountOrProduct = 400"
| "pay_status InvalidProductPrice = 400"
| "pay_status InvalidAccountParameterType = 400"
| "pay_status EmptyAccountParameter = 400"
| "pay_status (InvalidSolanaAddressFormat a) = 400"
| "pay_status FailedToConnectToSolana = 503"
| "pay_status (ErrorCheckingUserTokenAccount a) = 500"
| "pay_status (ErrorCheckingMerchantTokenAccount a) = 500"
| "pay_status FailedToGetLatestBlockhash = 503"
| "pay_status FailedToSerializeTransaction = 500"
| "pay_status (TransactionCreated t d) = 200"
| "pay_status PayInternalServerError = 500"

text \<open>
  Lines 238-467: everything after validation, for the user key, the chosen mint and
  the price. \<^verbatim>\<open>BigNumber\<close> shifts the price by six decimal places exactly;
  \<^verbatim>\<open>createTransferInstruction\<close> converts the amount with \<^verbatim>\<open>BigInt\<close>, which throws
  when the amount is not an integer, and the exception lands in the outermost
  \<^verbatim>\<open>catch\<close> of the handler (lines 469-489). Otherwise the instruction builders of the
  SDK are taken not to throw.
\<close>

definition buildTransaction ::
  "sdk \<Rightarrow> endpoint list \<Rightarrow> address \<Rightarrow> address \<Rightarrow> address \<Rightarrow> real \<Rightarrow> module_state
     \<Rightarrow> pay_response \<times> module_state" where
  "buildTransaction env endpoints merchant userPublicKey USDC_MINT productPrice s =
     (case getWorkingConnection env endpoints s of
        (None, s1) \<Rightarrow> (FailedToConnectToSolana, s1)
      | (Some connection, s1) \<Rightarrow>
          (let userUsdcAddress = associatedTokenAddress env USDC_MINT userPublicKey;
               merchantUsdcAddress = associatedTokenAddress env USDC_MINT merchant
           in case tokenAccountExists env connection userUsdcAddress s1 of
                (Throws, s2) \<Rightarrow> (ErrorCheckingUserTokenAccount userUsdcAddress, s2)
              | (Returns userExists, s2) \<Rightarrow>
                  (case tokenAccountExists env connection merchantUsdcAddress s2 of
                     (Throws, s3) \<Rightarrow> (ErrorCheckingMerchantTokenAccount merchantUsdcAddress, s3)
                   | (Returns merchantExists, s3) \<Rightarrow>
                       (let transferAmount = productPrice * 10 ^ 6 in
                        if of_int \<lfloor>transferAmount\<rfloor> \<noteq> transferAmount
                        then (PayInternalServerError, s3)
                        else
                        let instrs =
                              (if \<not> userExists
                               then [CreateAssociatedTokenAccount
                                       userPublicKey userUsdcAddress userPublicKey USDC_MINT]
                               else []) @
                              (if \<not> merchantExists
                               then [CreateAssociatedTokenAccount
                                       userPublicKey merchantUsdcAddress merchant USDC_MINT]
                               else []) @
                              [Transfer userUsdcAddress merchantUsdcAddress userPublicKey
                                 transferAmount];
                            s4 = issue (GetLatestBlockhash (endpointOf connection)) s3
                        in case getLatestBlockhash env (trace s3) (endpointOf connection) of
                             Throws \<Rightarrow> (FailedToGetLatestBlockhash, s4)
                           | Returns (hash, height) \<Rightarrow>
                               (case serialize env
                                       \<lparr>instructions = instrs, recentBlockhash = hash,
                                        feePayer = userPublicKey\<rparr> of
                                  Throws \<Rightarrow> (FailedToSerializeTransaction, s4)
                                | Returns serializedTransaction \<Rightarrow>
                                    (TransactionCreated serializedTransaction
                                       \<lparr>userAccount = userUsdcAddress,
                                        merchantAccount = merchantUsdcAddress,
                                        rawAmount = transferAmount,
                                        userAccountExists = userExists,
                                        merchantAccountExists = merchantExists,
                                        blockhash = take 12 hash @ ''...'',
                                        lastValidBlockHeight = height,
                                        instructionCount = length instrs,
                                        usdcMint = USDC_MINT,
                                        rpcEndpoint = cachedEndpoint s4\<rparr>,
                                     s4))))))"

text \<open>The handler \<^verbatim>\<open>POST\<close> of \<^verbatim>\<open>solana-pay/route.ts\<close>, lines 132-236, then
  \<open>buildTransaction\<close>.\<close>

definition pay_POST ::
  "sdk \<Rightarrow> endpoint list \<Rightarrow> address \<Rightarrow> pay_body \<Rightarrow> module_state \<Rightarrow> pay_response \<times> module_state" where
  "pay_POST env endpoints merchant body s =
     (case body of
        EmptyBody \<Rightarrow> (EmptyRequestBody, s)
      | InvalidJson \<Rightarrow> (InvalidJsonInRequestBody, s)
      | JsonNull \<Rightarrow> (PayInternalServerError, s)
      | Json b \<Rightarrow>
          (case pay_product b of
             None \<Rightarrow> (MissingAccountOrProduct, s)
           | Some product' \<Rightarrow>
               if pay_account b = AccountAbsent \<or> pay_account b = AccountString []
               then (MissingAccountOrProduct, s)
               else
                 (case price product' of
                    NoPrice \<Rightarrow> (InvalidProductPrice, s)
                  | Price p \<Rightarrow>
                      if p \<le> 0 then (InvalidProductPrice, s)
                      else
                        (case pay_account b of
                           AccountAbsent \<Rightarrow> (MissingAccountOrProduct, s)
                         | AccountOther \<Rightarrow> (InvalidAccountParameterType, s)
                         | AccountString account \<Rightarrow>
                             if trim account = [] then (EmptyAccountParameter, s)
                             else if \<not> isValidSolanaAddress env (trim account)
                             then (InvalidSolanaAddressFormat (trim account), s)
                             else buildTransaction env endpoints merchant
                                    (the (parseKey env (trim account)))
                                    (getUsdcMint env (pay_usdcMint b)) p s))))"

text \<open>The handler \<^verbatim>\<open>GET\<close> of \<^verbatim>\<open>solana-pay/route.ts\<close> (lines 493-527), the health
  check.\<close>

datatype health_response = HealthOk nat "endpoint option" | HealthError

fun health_status :: "health_response \<Rightarrow> nat" where
  "health_status (HealthOk n e) = 200"
| "health_status HealthError = 503"

definition health_GET :: "sdk \<Rightarrow> endpoint list \<Rightarrow> module_state \<Rightarrow> health_response \<times> module_state" where
  "health_GET env endpoints s =
     (case getWorkingConnection env endpoints s of
        (None, s1) \<Rightarrow> (HealthError, s1)
      | (Some connection, s1) \<Rightarrow>
          (case getSlot env (trace s1) (endpointOf connection) of
             Throws \<Rightarrow> (HealthError, issue (GetSlot (endpointOf connection)) s1)
           | Returns currentSlot \<Rightarrow>
               (HealthOk currentSlot (cachedEndpoint s1),
                issue (GetSlot (endpointOf connection)) s1)))"

section \<open>The API as a whole\<close>

text \<open>
  The server holds the one object \<^verbatim>\<open>db\<close>, which the confirm-payment, get-transaction
  and dashboard routes import, and the connection cache of each route module. A request
  is served by the handler of its route. The image route has no state and does not
  import \<^verbatim>\<open>db\<close>; it is not among the requests.
\<close>

datatype api_request =
    InitiatePayment pay_body
  | HealthCheck
  | ConfirmPayment "confirm_body option"
  | GetTransaction "jsstring option"
  | Dashboard

datatype api_response =
    PayResponse pay_response
  | HealthResponse health_response
  | ConfirmResponse confirm_response
  | GetTxResponse getTx_response
  | DashboardResponse dashboard_response

record server =
  shared_db :: ledger
  payRoute :: module_state
  confirmRoute :: module_state
  getTxRoute :: module_state

fun handle :: "sdk \<Rightarrow> endpoint list \<Rightarrow> address \<Rightarrow> api_request \<Rightarrow> server \<Rightarrow> api_response \<times> server" where
  "handle env endpoints merchant (InitiatePayment body) srv =
     (case pay_POST env endpoints merchant body (payRoute srv) of
        (r, s') \<Rightarrow> (PayResponse r, srv\<lparr>payRoute := s'\<rparr>))"
| "handle env endpoints merchant HealthCheck srv =
     (case health_GET env endpoints (payRoute srv) of
        (r, s') \<Rightarrow> (HealthResponse r, srv\<lparr>payRoute := s'\<rparr>))"
| "handle env endpoints merchant (ConfirmPayment body) srv =
     (case confirm_POST env endpoints merchant body (shared_db srv, confirmRoute srv) of
        (r, db', s') \<Rightarrow> (ConfirmResponse r, srv\<lparr>shared_db := db', confirmRoute := s'\<rparr>))"
| "handle env endpoints merchant (GetTransaction param) srv =
     (case getTx_GET env endpoints param (shared_db srv, getTxRoute srv) of
        (r, db', s') \<Rightarrow> (GetTxResponse r, srv\<lparr>shared_db := db', getTxRoute := s'\<rparr>))"
| "handle env endpoints merchant Dashboard srv =
     (case dashboard_GET (shared_db srv) of
        (r, db') \<Rightarrow> (DashboardResponse r, srv\<lparr>shared_db := db'\<rparr>))"

text \<open>Serving a list of requests one after the other.\<close>

definition serve :: "sdk \<Rightarrow> endpoint list \<Rightarrow> address \<Rightarrow> api_request list \<Rightarrow> server \<Rightarrow> server" where
  "serve env endpoints merchant reqs srv =
     foldl (\<lambda>state req. snd (handle env endpoints merchant req state)) srv reqs"

definition idle :: module_state where
  "idle = \<lparr>cachedConnection = None, cachedEndpoint = None, trace = []\<rparr>"

definition server_initial :: server where
  "server_initial =
     \<lparr>shared_db = db_initial, payRoute = idle, confirmRoute = idle, getTxRoute = idle\<rparr>"

text \<open>A request is \<open>priced\<close> unless it asks to confirm a product that has no numeric
  price.\<close>

fun priced :: "api_request \<Rightarrow> bool" where
  "priced (ConfirmPayment (Some b)) =
     (case confirm_product b of None \<Rightarrow> True | Some item \<Rightarrow> price item \<noteq> NoPrice)"
| "priced req = True"

section \<open>The storefront page: endpoint selection and balance detection\<close>

text \<open>
  \<^verbatim>\<open>page.tsx\<close> keeps the endpoint that worked in the React state \<^verbatim>\<open>workingRpc\<close>.
  Besides the trace, the state of the page holds what its \<^verbatim>\<open>catch\<close> handlers wrote to
  the console; informational output is left out.
\<close>

datatype console_entry =
    RpcFailed endpoint
  | ErrorWithMint address
  | ErrorGettingBalanceFor address
  | ErrorGettingBalance
  | CouldNotGetMintInfo
  | DebugWalletTokensFailed
  | ErrorCheckingProgramAccount address
  | ProgramAccountsMethodFailed

record page_state =
  workingRpc :: "endpoint option"
  calls :: "call list"
  console :: "console_entry list"

definition request :: "call \<Rightarrow> page_state \<Rightarrow> page_state" where
  "request c s = s\<lparr>calls := calls s @ [c]\<rparr>"

definition consoleLog :: "console_entry \<Rightarrow> page_state \<Rightarrow> page_state" where
  "consoleLog m s = s\<lparr>console := console s @ [m]\<rparr>"

text \<open>\<^verbatim>\<open>page.tsx\<close> lines 125-143.\<close>

fun tryEndpoints_page :: "sdk \<Rightarrow> endpoint list \<Rightarrow> page_state \<Rightarrow> connection option \<times> page_state" where
  "tryEndpoints_page env [] s = (None, s)"
| "tryEndpoints_page env (endpoint # rest) s =
     (let s1 = request (NewConnection endpoint) s;
          version = getVersion env (calls s1) endpoint;
          s2 = request (GetVersion endpoint) s1
      in if version \<noteq> Throws
         then (Some (Connection endpoint), s2\<lparr>workingRpc := Some endpoint\<rparr>)
         else tryEndpoints_page env rest (consoleLog (RpcFailed endpoint) s2))"

text \<open>\<^verbatim>\<open>page.tsx\<close> lines 120-144.\<close>

definition getWorkingConnection_page ::
  "sdk \<Rightarrow> endpoint list \<Rightarrow> page_state \<Rightarrow> connection option \<times> page_state" where
  "getWorkingConnection_page env endpoints s =
     (if truthy (workingRpc s)
      then (Some (Connection (the (workingRpc s))),
            request (NewConnection (the (workingRpc s))) s)
      else tryEndpoints_page env endpoints s)"

text \<open>The result of balance detection, and of the scan of \<^verbatim>\<open>debugWalletTokens\<close>.\<close>

record detected =
  balance :: real
  mint :: "address option"

record debug_result = detected +
  tokenAccount :: "address option"

definition notFound :: detected where
  "notFound = \<lparr>balance = 0, mint = None\<rparr>"

definition nothing :: debug_result where
  "nothing = \<lparr>balance = 0, mint = None, tokenAccount = None\<rparr>"

text \<open>
  \<^verbatim>\<open>page.tsx\<close> lines 217-250, the loop over the known mints. \<^verbatim>\<open>new PublicKey\<close> throws
  on a candidate that is no key, and \<^verbatim>\<open>getAssociatedTokenAddress\<close>, called with
  \<^verbatim>\<open>allowOwnerOffCurve = false\<close>, throws for an owner off the curve; both land in the
  outer \<^verbatim>\<open>catch\<close> of the loop body, as a rejected \<^verbatim>\<open>getAccountInfo\<close> does.
\<close>

fun knownMints ::
  "sdk \<Rightarrow> connection \<Rightarrow> address \<Rightarrow> address list \<Rightarrow> page_state \<Rightarrow> detected option \<times> page_state" where
  "knownMints env connection userPublicKey [] s = (None, s)"
| "knownMints env connection userPublicKey (mintAddress # rest) s =
     (if \<not> validKey env mintAddress \<or> \<not> onCurve env userPublicKey
      then knownMints env connection userPublicKey rest (consoleLog (ErrorWithMint mintAddress) s)
      else
        (let ata = associatedTokenAddress env mintAddress userPublicKey;
             s1 = request (GetAccountInfo (endpointOf connection) ata) s
         in case getAccountInfo env (calls s) (endpointOf connection) ata of
              Throws \<Rightarrow>
                knownMints env connection userPublicKey rest
                  (consoleLog (ErrorWithMint mintAddress) s1)
            | Returns None \<Rightarrow> knownMints env connection userPublicKey rest s1
            | Returns (Some accountData) \<Rightarrow>
                if accountData = [] then knownMints env connection userPublicKey rest s1
                else
                  (let s2 = request (GetTokenAccountBalance (endpointOf connection) ata) s1
                   in case getTokenAccountBalance env (calls s1) (endpointOf connection) ata of
                        Throws \<Rightarrow>
                          knownMints env connection userPublicKey rest
                            (consoleLog (ErrorGettingBalanceFor mintAddress) s2)
                      | Returns None \<Rightarrow> knownMints env connection userPublicKey rest s2
                      | Returns (Some uiAmount) \<Rightarrow>
                          if 0 < uiAmount
                          then (Some \<lparr>balance = uiAmount, mint = Some mintAddress\<rparr>, s2)
                          else knownMints env connection userPublicKey rest s2)))"

text \<open>\<^verbatim>\<open>page.tsx\<close> lines 164-200, the loop of \<^verbatim>\<open>debugWalletTokens\<close> over the token
  accounts of the owner.\<close>

fun scanTokenAccounts ::
  "sdk \<Rightarrow> connection \<Rightarrow> address list \<Rightarrow> page_state \<Rightarrow> debug_result option \<times> page_state" where
  "scanTokenAccounts env connection [] s = (None, s)"
| "scanTokenAccounts env connection (pubkey # rest) s =
     (let s1 = request (GetTokenAccountBalance (endpointOf connection) pubkey) s
      in case getTokenAccountBalance env (calls s) (endpointOf connection) pubkey of
           Throws \<Rightarrow> scanTokenAccounts env connection rest (consoleLog ErrorGettingBalance s1)
         | Returns None \<Rightarrow> scanTokenAccounts env connection rest s1
         | Returns (Some uiAmount) \<Rightarrow>
             if 0 < uiAmount then
               (let s2 = request (GetAccountInfo (endpointOf connection) pubkey) s1
                in case getAccountInfo env (calls s1) (endpointOf connection) pubkey of
                     Throws \<Rightarrow>
                       scanTokenAccounts env connection rest (consoleLog CouldNotGetMintInfo s2)
                   | Returns None \<Rightarrow> scanTokenAccounts env connection rest s2
                   | Returns (Some accountData) \<Rightarrow>
                       if 32 \<le> length accountData
                       then (Some \<lparr>balance = uiAmount,
                                   mint = Some (toBase58 env (take 32 accountData)),
                                   tokenAccount = Some pubkey\<rparr>, s2)
                       else scanTokenAccounts env connection rest s2)
             else scanTokenAccounts env connection rest s1)"

text \<open>\<^verbatim>\<open>page.tsx\<close> lines 147-208.\<close>

definition debugWalletTokens ::
  "sdk \<Rightarrow> address \<Rightarrow> connection \<Rightarrow> page_state \<Rightarrow> debug_result \<times> page_state" where
  "debugWalletTokens env userAddress connection s =
     (let s1 = request (GetBalance (endpointOf connection) userAddress) s
      in case getBalance env (calls s) (endpointOf connection) userAddress of
           Throws \<Rightarrow> (nothing, consoleLog DebugWalletTokensFailed s1)
         | Returns solBalance \<Rightarrow>
             (let s2 = request (GetTokenAccountsByOwner (endpointOf connection) userAddress) s1
              in case getTokenAccountsByOwner env (calls s1) (endpointOf connection) userAddress of
                   Throws \<Rightarrow> (nothing, consoleLog DebugWalletTokensFailed s2)
                 | Returns tokenAccounts \<Rightarrow>
                     (case scanTokenAccounts env connection tokenAccounts s2 of
                        (Some found, s3) \<Rightarrow> (found, s3)
                      | (None, s3) \<Rightarrow> (nothing, s3))))"

text \<open>\<^verbatim>\<open>page.tsx\<close> lines 283-297, the loop over the program accounts.\<close>

fun scanProgramAccounts ::
  "sdk \<Rightarrow> connection \<Rightarrow> (address \<times> byte list) list \<Rightarrow> page_state
     \<Rightarrow> detected option \<times> page_state" where
  "scanProgramAccounts env connection [] s = (None, s)"
| "scanProgramAccounts env connection ((pubkey, accountData) # rest) s =
     (let s1 = request (GetTokenAccountBalance (endpointOf connection) pubkey) s
      in case getTokenAccountBalance env (calls s) (endpointOf connection) pubkey of
           Throws \<Rightarrow>
             scanProgramAccounts env connection rest
               (consoleLog (ErrorCheckingProgramAccount pubkey) s1)
         | Returns None \<Rightarrow> scanProgramAccounts env connection rest s1
         | Returns (Some uiAmount) \<Rightarrow>
             if 0 < uiAmount
             then (Some \<lparr>balance = uiAmount,
                         mint = Some (toBase58 env (take 32 accountData))\<rparr>, s1)
             else scanProgramAccounts env connection rest s1)"

text \<open>\<^verbatim>\<open>page.tsx\<close> lines 262-303, the third method.\<close>

definition programAccountsMethod ::
  "sdk \<Rightarrow> connection \<Rightarrow> address \<Rightarrow> page_state \<Rightarrow> detected \<times> page_state" where
  "programAccountsMethod env connection userPublicKey s =
     (let s1 = request (GetProgramAccounts (endpointOf connection) userPublicKey) s
      in case getProgramAccounts env (calls s) (endpointOf connection) userPublicKey of
           Throws \<Rightarrow> (notFound, consoleLog ProgramAccountsMethodFailed s1)
         | Returns programAccounts \<Rightarrow>
             (case scanProgramAccounts env connection programAccounts s1 of
                (Some found, s2) \<Rightarrow> (found, s2)
              | (None, s2) \<Rightarrow> (notFound, s2)))"

text \<open>
  \<^verbatim>\<open>page.tsx\<close> lines 211-309. Every awaited call stands inside an inner
  \<^verbatim>\<open>try\<close>, so nothing reaches the outermost \<^verbatim>\<open>catch\<close> (lines 305-308), which would
  return \<open>notFound\<close> as well.
\<close>

definition detectUsdcBalanceAndMint ::
  "sdk \<Rightarrow> address list \<Rightarrow> connection \<Rightarrow> address \<Rightarrow> page_state \<Rightarrow> detected \<times> page_state" where
  "detectUsdcBalanceAndMint env mints connection userPublicKey s =
     (case knownMints env connection userPublicKey mints s of
        (Some found, s1) \<Rightarrow> (found, s1)
      | (None, s1) \<Rightarrow>
          (case debugWalletTokens env userPublicKey connection s1 of
             (debugResult, s2) \<Rightarrow>
               if 0 < balance debugResult \<and> truthy (mint debugResult)
               then (\<lparr>balance = balance debugResult, mint = mint debugResult\<rparr>, s2)
               else programAccountsMethod env connection userPublicKey s2))"

text \<open>
  What the claims about balance detection ask of a known mint \<open>m\<close>: the network, asked
  after the trace \<open>h\<close>, reports that the holding account of the owner for \<open>m\<close> exists
  with the positive balance \<open>u\<close>. The candidate must be a key and the owner on the
  curve, or there is no holding address to ask for.
\<close>

definition reportsHolding ::
  "sdk \<Rightarrow> connection \<Rightarrow> address \<Rightarrow> call list \<Rightarrow> address \<Rightarrow> real \<Rightarrow> bool" where
  "reportsHolding env c owner h m u =
     (validKey env m \<and> onCurve env owner \<and>
      (case getAccountInfo env h (endpointOf c) (associatedTokenAddress env m owner) of
         Returns (Some accountData) \<Rightarrow> accountData \<noteq> []
       | Returns None \<Rightarrow> False
       | Throws \<Rightarrow> False) \<and>
      getTokenAccountBalance env
        (h @ [GetAccountInfo (endpointOf c) (associatedTokenAddress env m owner)])
        (endpointOf c) (associatedTokenAddress env m owner) = Returns (Some u) \<and>
      0 < u)"

section \<open>Concrete environments and states\<close>

text \<open>
  In the examples a key is any text of 32 to 44 characters, and a text from a request
  is read as a key when it has that length and all its code units are ASCII.
\<close>

definition asciiText :: "jsstring \<Rightarrow> string" where
  "asciiText t = map (\<lambda>u. char_of (unat u)) t"

definition readKey :: "jsstring \<Rightarrow> address option" where
  "readKey t =
     (if 32 \<le> length t \<and> length t \<le> 44 \<and> list_all (\<lambda>u. u < 0x80) t
      then Some (asciiText t) else None)"

text \<open>
  A printer for unsigned transactions, which stands for \<^verbatim>\<open>Transaction.serialize\<close> in
  the examples: it shows every instruction with its accounts and amount.
\<close>

function decimal :: "nat \<Rightarrow> string" where
  "decimal n =
     (if n < 10 then [''0123456789'' ! n]
      else decimal (n div 10) @ [''0123456789'' ! (n mod 10)])"
  by pat_completeness auto
termination
  by (relation "measure id") auto

declare decimal.simps [simp del]

fun renderInstruction :: "instruction \<Rightarrow> string" where
  "renderInstruction (CreateAssociatedTokenAccount payer ata owner mintKey) =
     ''create('' @ payer @ '','' @ ata @ '','' @ owner @ '','' @ mintKey @ '')''"
| "renderInstruction (Transfer source destination owner n) =
     ''transfer('' @ source @ '','' @ destination @ '','' @ owner @ '',''
       @ decimal (nat \<lfloor>n\<rfloor>) @ '')''"

definition renderTransaction :: "UnsignedTransaction \<Rightarrow> string" where
  "renderTransaction t =
     concat (map renderInstruction (instructions t)) @ ''@'' @ recentBlockhash t
       @ ''/'' @ feePayer t"

text \<open>
  Networks and states on which the theorems below are run: \<open>offline\<close> rejects every
  call, \<open>ankrOnly\<close> has one live node, \<open>slotOnly\<close> answers \<^verbatim>\<open>getSlot\<close> alone.
\<close>

definition offline :: sdk where
  "offline =
     \<lparr>getSlot = (\<lambda>h e. Throws),
      getVersion = (\<lambda>h e. Throws),
      getParsedTransaction = (\<lambda>h e g. Throws),
      getAccount = (\<lambda>h e a. OtherError),
      getLatestBlockhash = (\<lambda>h e. Throws),
      getAccountInfo = (\<lambda>h e a. Throws),
      getTokenAccountBalance = (\<lambda>h e a. Throws),
      getBalance = (\<lambda>h e a. Throws),
      getTokenAccountsByOwner = (\<lambda>h e a. Throws),
      getProgramAccounts = (\<lambda>h e a. Throws),
      generateImage = (\<lambda>h n. Throws),
      dateNow = (\<lambda>h. 1700000000000 + length h),
      validKey = (\<lambda>a. 32 \<le> length a \<and> length a \<le> 44),
      parseKey = readKey,
      onCurve = (\<lambda>a. True),
      associatedTokenAddress = (\<lambda>m owner. ''ata:'' @ take 4 owner @ '':'' @ take 4 m),
      toBase58 = (\<lambda>bytes. map (\<lambda>b. if b = 0 then CHR ''1'' else CHR ''z'') bytes),
      serialize = (\<lambda>t. Throws)\<rparr>"

definition ankrOnly :: sdk where
  "ankrOnly =
     offline\<lparr>getSlot := (\<lambda>h e. if e = ''https://rpc.ankr.com/solana_devnet'' then Returns (length h) else Throws),
             getVersion := (\<lambda>h e. if e = ''https://rpc.ankr.com/solana_devnet'' then Returns ''2.1.0'' else Throws)\<rparr>"

definition slotOnly :: sdk where
  "slotOnly = offline\<lparr>getSlot := (\<lambda>h e. Returns (length h))\<rparr>"

definition warm :: module_state where
  "warm = \<lparr>cachedConnection = Some (Connection ''https://rpc.ankr.com/solana_devnet''),
           cachedEndpoint = Some ''https://rpc.ankr.com/solana_devnet'', trace = []\<rparr>"

definition stale :: module_state where
  "stale = \<lparr>cachedConnection = Some (Connection ''https://api.devnet.solana.com''),
            cachedEndpoint = Some ''https://api.devnet.solana.com'', trace = []\<rparr>"

definition remembered :: page_state where
  "remembered = \<lparr>workingRpc = Some ''https://api.devnet.solana.com'', calls = [], console = []\<rparr>"

text \<open>
  \<open>devnet\<close> is a healthy network on which the transaction \<open>sampleTx\<close>, a payment to
  the merchant, is found; on \<open>flaky\<close> the first request for a transaction is rejected
  and later ones succeed; on \<open>foreign\<close> the transaction found is a confirmed one that
  does not name the merchant.
\<close>

definition buyerWallet :: address where
  "buyerWallet = ''7xKXtg2CW87d97TXJSDpbD5jBkheTqA83TZRuJosgAsU''"

definition sampleTx :: ParsedTransaction where
  "sampleTx = \<lparr>accountKeys = [buyerWallet, MERCHANT_WALLET],
               blockTime = Some 1700000000, slot = 42, metaErr = False\<rparr>"

definition foreignTx :: ParsedTransaction where
  "foreignTx = \<lparr>accountKeys = [buyerWallet, ''11111111111111111111111111111111''],
                blockTime = Some 1700000000, slot = 43, metaErr = False\<rparr>"

definition devnet :: sdk where
  "devnet =
     offline\<lparr>getSlot := (\<lambda>h e. Returns (length h)),
             getVersion := (\<lambda>h e. Returns ''2.1.0''),
             getParsedTransaction := (\<lambda>h e g. Returns (Some sampleTx)),
             getAccount := (\<lambda>h e a. AccountFound),
             getLatestBlockhash := (\<lambda>h e. Returns (''EkSnNWid2cvwEVnVx9aBqawnmiCNiDgp3gUdkDPTKN1N'', 1000)),
             generateImage := (\<lambda>h n. Returns ''data:image/png;base64,iVBORw0KGgo=''),
             serialize := (\<lambda>t. Returns (renderTransaction t))\<rparr>"

definition flaky :: sdk where
  "flaky =
     devnet\<lparr>getParsedTransaction :=
              (\<lambda>h e g. if filter isFetch h = [] then Throws else Returns (Some sampleTx))\<rparr>"

definition foreign :: sdk where
  "foreign = devnet\<lparr>getParsedTransaction := (\<lambda>h e g. Returns (Some foreignTx))\<rparr>"

definition widget :: Product where
  "widget = \<lparr>name = ''Widget'', price = Price 12\<rparr>"

definition freebie :: Product where
  "freebie = \<lparr>name = ''Widget'', price = Price 0\<rparr>"


definition brokenWallet :: sdk where
  "brokenWallet =
     devnet\<lparr>getAccountInfo :=
              (\<lambda>h e a. if a = ''ata:7xKX:4zMM'' then Throws
                       else if a = ''ata:7xKX:Gh9Z'' then Returns (Some (replicate 165 0))
                       else Returns None),
            getTokenAccountBalance :=
              (\<lambda>h e a. if a = ''ata:7xKX:Gh9Z'' then Throws
                       else if take 8 a = ''ata:7xKX'' then Returns (Some 0)
                       else Returns (Some 50)),
            getBalance := (\<lambda>h e a. Returns 1000000000),
            getTokenAccountsByOwner :=
              (\<lambda>h e a. if a = buyerWallet
                       then Returns [''ata:7xKX:Gh9Z'', ''ata:7xKX:EPjF'']
                       else Returns [''ata:'' @ take 4 a @ '':4zMM'']),
            getProgramAccounts :=
              (\<lambda>h e a. if a = buyerWallet
                       then Returns [(''ata:7xKX:Gh9Z'', replicate 165 0),
                                     (''ata:7xKX:EPjF'', replicate 165 0)]
                       else Throws)\<rparr>"

definition fresh :: page_state where
  "fresh = \<lparr>workingRpc = None, calls = [], console = []\<rparr>"

text \<open>The state of a route module after it has selected the first candidate, and a
  signature to ask for.\<close>

definition connected :: module_state where
  "connected =
     \<lparr>cachedConnection = Some (Connection ''https://api.devnet.solana.com''),
      cachedEndpoint = Some ''https://api.devnet.solana.com'',
      trace = [NewConnection ''https://api.devnet.solana.com'',
               GetSlot ''https://api.devnet.solana.com'',
               GetVersion ''https://api.devnet.solana.com'']\<rparr>"

definition sampleSignature :: jsstring where
  "sampleSignature = codeUnits ''5VERv8NMvzbJMEkV8xnrLkEaWRtSz9CosKDYjCJjBRnb''"

text \<open>Products with a price that is zero, negative or missing.\<close>

definition refund :: Product where
  "refund = \<lparr>name = ''Widget'', price = Price (- 5)\<rparr>"

definition unpriced :: Product where
  "unpriced = \<lparr>name = ''Widget'', price = NoPrice\<rparr>"

definition receiptFor :: "price \<Rightarrow> Transaction" where
  "receiptFor p =
     \<lparr>buyer = buyerWallet, product_name = ''Widget'', amount = p,
      signature = sampleSignature, timestamp = 1700000000000,
      imageUrl = Some ''data:image/png;base64,iVBORw0KGgo=''\<rparr>"

text \<open>A request for the widget that names a token which is no address.\<close>

definition badMintRequest :: pay_fields where
  "badMintRequest =
     \<lparr>pay_account = AccountString (codeUnits buyerWallet), pay_product = Some widget,
      pay_usdcMint = Some (codeUnits ''not-a-mint'')\<rparr>"



text \<open>
  A wallet that holds nothing under the known mints and 3 units of another token in its
  second token account, and the connection the examples use.
\<close>

definition otherTokenWallet :: sdk where
  "otherTokenWallet =
     devnet\<lparr>getAccountInfo :=
              (\<lambda>h e a. if a = ''9xQeWvG816bUx9EPjHmaT23yvVM2ZWbrrpZb9PusVFin''
                       then Returns (Some (replicate 165 65)) else Returns None),
            getTokenAccountBalance :=
              (\<lambda>h e a. if a = ''9xQeWvG816bUx9EPjHmaT23yvVM2ZWbrrpZb9PusVFin''
                       then Returns (Some 3) else Returns (Some 0)),
            getBalance := (\<lambda>h e a. Returns 1000000000),
            getTokenAccountsByOwner :=
              (\<lambda>h e a. Returns [''ata:7xKX:EPjF'',
                                ''9xQeWvG816bUx9EPjHmaT23yvVM2ZWbrrpZb9PusVFin''])\<rparr>"

definition devnetConnection :: connection where
  "devnetConnection = Connection ''https://api.devnet.solana.com''"

text \<open>A request for a product whose price is zero.\<close>

definition freeRequest :: pay_fields where
  "freeRequest =
     \<lparr>pay_account = AccountString (codeUnits buyerWallet), pay_product = Some freebie,
      pay_usdcMint = None\<rparr>"

text \<open>A network that does not know the transaction.\<close>

definition unknownTx :: sdk where
  "unknownTx = devnet\<lparr>getParsedTransaction := (\<lambda>h e g. Returns None)\<rparr>"

text \<open>A wallet whose token account reports a balance but cannot be read for its
  mint.\<close>

definition unreadableWallet :: sdk where
  "unreadableWallet = otherTokenWallet\<lparr>getAccountInfo := (\<lambda>h e a. Throws)\<rparr>"

text \<open>The token account of that wallet.\<close>

definition tokenAccount1 :: address where
  "tokenAccount1 = ''9xQeWvG816bUx9EPjHmaT23yvVM2ZWbrrpZb9PusVFin''"





text \<open>On \<open>newcomer\<close> no holding account exists yet.\<close>

definition newcomer :: sdk where
  "newcomer = devnet\<lparr>getAccount := (\<lambda>h e a. TokenAccountNotFoundError)\<rparr>"

text \<open>A product whose price has seven decimal places.\<close>

definition sliver :: Product where
  "sliver = \<lparr>name = ''Widget'', price = Price (1 / 10000000)\<rparr>"

section \<open>Properties of endpoint selection\<close>

lemma tryEndpoints_Cons:
  "tryEndpoints env (e # eps) s =
     (if alive env (trace s) e
      then (Some (Connection e),
            s\<lparr>trace := trace s @ probes e,
              cachedConnection := Some (Connection e), cachedEndpoint := Some e\<rparr>)
      else tryEndpoints env eps (s\<lparr>trace := trace s @ probes e\<rparr>))"
  by (simp add: Let_def issue_def probes_def alive_def)

lemma tryEndpoints_getTx_Cons:
  "tryEndpoints_getTx env (e # eps) s =
     (if alive_getTx env (trace s) e
      then (Some (Connection e),
            s\<lparr>trace := trace s @ probes_getTx e,
              cachedConnection := Some (Connection e), cachedEndpoint := Some e\<rparr>)
      else tryEndpoints_getTx env eps (s\<lparr>trace := trace s @ probes_getTx e\<rparr>))"
  by (simp add: Let_def issue_def probes_getTx_def alive_getTx_def)

lemma nth_take_Cons_dead:
  assumes "\<not> P h x"
    and "\<forall>i<length pre. \<not> P ((h @ f x) @ concat (map f (take i pre))) (pre ! i)"
  shows "\<forall>i<length (x # pre). \<not> P (h @ concat (map f (take i (x # pre)))) ((x # pre) ! i)"
proof (intro allI impI)
  fix i assume "i < length (x # pre)"
  with assms show "\<not> P (h @ concat (map f (take i (x # pre)))) ((x # pre) ! i)"
    by (cases i) auto
qed

lemma tryEndpoints_None:
  "tryEndpoints env eps s = (None, s') \<Longrightarrow>
     s' = s\<lparr>trace := trace s @ concat (map probes eps)\<rparr>
     \<and> (\<forall>i<length eps. \<not> alive env (trace s @ concat (map probes (take i eps))) (eps ! i))"
proof (induction eps arbitrary: s)
  case Nil
  then show ?case by simp
next
  case (Cons e eps)
  let ?s1 = "s\<lparr>trace := trace s @ probes e\<rparr>"
  from Cons.prems have dead: "\<not> alive env (trace s) e"
    and rest: "tryEndpoints env eps ?s1 = (None, s')"
    by (auto simp: tryEndpoints_Cons simp del: tryEndpoints.simps split: if_splits)
  from Cons.IH [OF rest] have
    st: "s' = ?s1\<lparr>trace := trace ?s1 @ concat (map probes eps)\<rparr>"
    and ih: "\<forall>i<length eps. \<not> alive env ((trace s @ probes e) @ concat (map probes (take i eps))) (eps ! i)"
    by auto
  from nth_take_Cons_dead [of "alive env", OF dead ih] st show ?case by simp
qed

lemma tryEndpoints_Some:
  "tryEndpoints env eps s = (Some c, s') \<Longrightarrow>
     \<exists>pre e post. eps = pre @ e # post \<and> c = Connection e
       \<and> s' = s\<lparr>trace := trace s @ concat (map probes (pre @ [e])),
                 cachedConnection := Some (Connection e), cachedEndpoint := Some e\<rparr>
       \<and> alive env (trace s @ concat (map probes pre)) e
       \<and> (\<forall>i<length pre. \<not> alive env (trace s @ concat (map probes (take i pre))) (pre ! i))"
proof (induction eps arbitrary: s)
  case Nil
  then show ?case by simp
next
  case (Cons x eps)
  let ?s1 = "s\<lparr>trace := trace s @ probes x\<rparr>"
  show ?case
  proof (cases "alive env (trace s) x")
    case True
    with Cons.prems have "c = Connection x"
      and "s' = s\<lparr>trace := trace s @ probes x,
              cachedConnection := Some (Connection x), cachedEndpoint := Some x\<rparr>"
      by (auto simp: tryEndpoints_Cons simp del: tryEndpoints.simps)
    with True show ?thesis
      by (intro exI [of _ "[]"] exI [of _ x] exI [of _ eps]) simp
  next
    case False
    with Cons.prems have rest: "tryEndpoints env eps ?s1 = (Some c, s')"
      by (simp add: tryEndpoints_Cons del: tryEndpoints.simps)
    from Cons.IH [OF rest] obtain pre e post where
      eps: "eps = pre @ e # post" and c: "c = Connection e"
      and st: "s' = ?s1\<lparr>trace := trace ?s1 @ concat (map probes (pre @ [e])),
                 cachedConnection := Some (Connection e), cachedEndpoint := Some e\<rparr>"
      and al: "alive env (trace ?s1 @ concat (map probes pre)) e"
      and ih: "\<forall>i<length pre. \<not> alive env ((trace s @ probes x) @ concat (map probes (take i pre))) (pre ! i)"
      by auto
    from nth_take_Cons_dead [of "alive env", OF False ih] eps c st al show ?thesis
      by (intro exI [of _ "x # pre"] exI [of _ e] exI [of _ post]) simp
  qed
qed

lemma tryEndpoints_getTx_None:
  "tryEndpoints_getTx env eps s = (None, s') \<Longrightarrow>
     s' = s\<lparr>trace := trace s @ concat (map probes_getTx eps)\<rparr>
     \<and> (\<forall>i<length eps. \<not> alive_getTx env (trace s @ concat (map probes_getTx (take i eps))) (eps ! i))"
proof (induction eps arbitrary: s)
  case Nil
  then show ?case by simp
next
  case (Cons e eps)
  let ?s1 = "s\<lparr>trace := trace s @ probes_getTx e\<rparr>"
  from Cons.prems have dead: "\<not> alive_getTx env (trace s) e"
    and rest: "tryEndpoints_getTx env eps ?s1 = (None, s')"
    by (auto simp: tryEndpoints_getTx_Cons simp del: tryEndpoints_getTx.simps split: if_splits)
  from Cons.IH [OF rest] have
    st: "s' = ?s1\<lparr>trace := trace ?s1 @ concat (map probes_getTx eps)\<rparr>"
    and ih: "\<forall>i<length eps. \<not> alive_getTx env ((trace s @ probes_getTx e) @ concat (map probes_getTx (take i eps))) (eps ! i)"
    by auto
  from nth_take_Cons_dead [of "alive_getTx env", OF dead ih] st show ?case by simp
qed

lemma tryEndpoints_getTx_Some:
  "tryEndpoints_getTx env eps s = (Some c, s') \<Longrightarrow>
     \<exists>pre e post. eps = pre @ e # post \<and> c = Connection e
       \<and> s' = s\<lparr>trace := trace s @ concat (map probes_getTx (pre @ [e])),
                 cachedConnection := Some (Connection e), cachedEndpoint := Some e\<rparr>
       \<and> alive_getTx env (trace s @ concat (map probes_getTx pre)) e
       \<and> (\<forall>i<length pre. \<not> alive_getTx env (trace s @ concat (map probes_getTx (take i pre))) (pre ! i))"
proof (induction eps arbitrary: s)
  case Nil
  then show ?case by simp
next
  case (Cons x eps)
  let ?s1 = "s\<lparr>trace := trace s @ probes_getTx x\<rparr>"
  show ?case
  proof (cases "alive_getTx env (trace s) x")
    case True
    with Cons.prems have "c = Connection x"
      and "s' = s\<lparr>trace := trace s @ probes_getTx x,
              cachedConnection := Some (Connection x), cachedEndpoint := Some x\<rparr>"
      by (auto simp: tryEndpoints_getTx_Cons simp del: tryEndpoints_getTx.simps)
    with True show ?thesis
      by (intro exI [of _ "[]"] exI [of _ x] exI [of _ eps]) simp
  next
    case False
    with Cons.prems have rest: "tryEndpoints_getTx env eps ?s1 = (Some c, s')"
      by (simp add: tryEndpoints_getTx_Cons del: tryEndpoints_getTx.simps)
    from Cons.IH [OF rest] obtain pre e post where
      eps: "eps = pre @ e # post" and c: "c = Connection e"
      and st: "s' = ?s1\<lparr>trace := trace ?s1 @ concat (map probes_getTx (pre @ [e])),
                 cachedConnection := Some (Connection e), cachedEndpoint := Some e\<rparr>"
      and al: "alive_getTx env (trace ?s1 @ concat (map probes_getTx pre)) e"
      and ih: "\<forall>i<length pre. \<not> alive_getTx env ((trace s @ probes_getTx x) @ concat (map probes_getTx (take i pre))) (pre ! i)"
      by auto
    from nth_take_Cons_dead [of "alive_getTx env", OF False ih] eps c st al show ?thesis
      by (intro exI [of _ "x # pre"] exI [of _ e] exI [of _ post]) simp
  qed
qed

text \<open>
  Claim C8. With no candidate endpoints and an empty cache, each selector returns
  \<^verbatim>\<open>null\<close> and leaves the state as it was: the trace is unchanged, so no connection was
  built and no probe was sent. The callers answer 503: the initiate-payment route
  after validation, and the confirm-payment route for any body that has a signature and a
  product.
\<close>

theorem empty_candidates_no_call:
  "getWorkingConnection env [] \<lparr>cachedConnection = None, cachedEndpoint = None, trace = h\<rparr>
     = (None, \<lparr>cachedConnection = None, cachedEndpoint = None, trace = h\<rparr>)
   \<and> getWorkingConnection_getTx env [] \<lparr>cachedConnection = None, cachedEndpoint = None, trace = h\<rparr>
     = (None, \<lparr>cachedConnection = None, cachedEndpoint = None, trace = h\<rparr>)
   \<and> getWorkingConnection_page env [] \<lparr>workingRpc = None, calls = h, console = l\<rparr>
     = (None, \<lparr>workingRpc = None, calls = h, console = l\<rparr>)
   \<and> buildTransaction env [] merchant user usdc p
        \<lparr>cachedConnection = None, cachedEndpoint = None, trace = h\<rparr>
     = (FailedToConnectToSolana, \<lparr>cachedConnection = None, cachedEndpoint = None, trace = h\<rparr>)
   \<and> pay_status FailedToConnectToSolana = 503
   \<and> confirm_POST env [] merchant
        (Some \<lparr>confirm_signature = Some (g # gs), confirm_product = Some item\<rparr>)
        (d, \<lparr>cachedConnection = None, cachedEndpoint = None, trace = h\<rparr>)
     = (FailedToConnect, d, \<lparr>cachedConnection = None, cachedEndpoint = None, trace = h\<rparr>)
   \<and> confirm_status FailedToConnect = 503"
  by (simp add: getWorkingConnection_def getWorkingConnection_getTx_def probeCached_def
      getWorkingConnection_page_def truthy_def buildTransaction_def confirm_POST_def)


lemma getWorkingConnection_miss:
  "probeCached env s = (None, s0) \<Longrightarrow> getWorkingConnection env eps s = tryEndpoints env eps s0"
  by (simp add: getWorkingConnection_def)

lemma getWorkingConnection_getTx_miss:
  "probeCached env s = (None, s0) \<Longrightarrow>
     getWorkingConnection_getTx env eps s = tryEndpoints_getTx env eps s0"
  by (simp add: getWorkingConnection_getTx_def)

text \<open>
  Claim C1 says that every selector tests a candidate with two probes. The selector of
  the get-transaction route sends \<^verbatim>\<open>getSlot\<close> only: on a network whose nodes answer
  \<^verbatim>\<open>getSlot\<close> and reject \<^verbatim>\<open>getVersion\<close> it caches and returns the first candidate,
  and its trace holds one probe.
\<close>

theorem getTx_selector_single_probe:
  "getWorkingConnection_getTx slotOnly RPC_ENDPOINTS idle =
     (Some (Connection ''https://api.devnet.solana.com''),
      \<lparr>cachedConnection = Some (Connection ''https://api.devnet.solana.com''),
       cachedEndpoint = Some ''https://api.devnet.solana.com'',
       trace = [NewConnection ''https://api.devnet.solana.com'',
                GetSlot ''https://api.devnet.solana.com'']\<rparr>)
   \<and> getVersion slotOnly
         [NewConnection ''https://api.devnet.solana.com'', GetSlot ''https://api.devnet.solana.com'']
         ''https://api.devnet.solana.com'' = Throws"
  by (simp add: getWorkingConnection_getTx_def probeCached_def idle_def RPC_ENDPOINTS_def
      slotOnly_def offline_def Let_def issue_def)

text \<open>
  Claim C1, amended. Let the selector reach the loop in state \<open>s0\<close>. In the
  initiate-payment and confirm-payment routes every candidate that is tried gets both
  probes (\<open>probes\<close>), and the one returned is the first for which both resolve
  (\<open>alive\<close>); in the get-transaction route every candidate that is tried gets the
  chain-height probe alone (\<open>probes_getTx\<close>, \<open>alive_getTx\<close>). In all of them the
  candidate returned is stored in both cache variables, the trace ends with its test, so
  that no later candidate is built or probed, and when \<^verbatim>\<open>null\<close> is returned every
  candidate was tried once, in order, and none was alive.
\<close>

theorem first_live_candidate:
  "(probeCached env s = (None, s0) \<and> getWorkingConnection env eps s = (Some c, s') \<longrightarrow>
      (\<exists>pre e post. eps = pre @ e # post \<and> c = Connection e
         \<and> cachedConnection s' = Some (Connection e) \<and> cachedEndpoint s' = Some e
         \<and> trace s' = trace s0 @ concat (map probes (pre @ [e]))
         \<and> alive env (trace s0 @ concat (map probes pre)) e
         \<and> (\<forall>i<length pre. \<not> alive env (trace s0 @ concat (map probes (take i pre))) (pre ! i))))
   \<and> (probeCached env s = (None, s0) \<and> getWorkingConnection env eps s = (None, s') \<longrightarrow>
         s' = s0\<lparr>trace := trace s0 @ concat (map probes eps)\<rparr>
         \<and> (\<forall>i<length eps. \<not> alive env (trace s0 @ concat (map probes (take i eps))) (eps ! i)))
   \<and> (probeCached env s = (None, s0) \<and> getWorkingConnection_getTx env eps s = (Some c, s') \<longrightarrow>
      (\<exists>pre e post. eps = pre @ e # post \<and> c = Connection e
         \<and> cachedConnection s' = Some (Connection e) \<and> cachedEndpoint s' = Some e
         \<and> trace s' = trace s0 @ concat (map probes_getTx (pre @ [e]))
         \<and> alive_getTx env (trace s0 @ concat (map probes_getTx pre)) e
         \<and> (\<forall>i<length pre.
               \<not> alive_getTx env (trace s0 @ concat (map probes_getTx (take i pre))) (pre ! i))))
   \<and> (probeCached env s = (None, s0) \<and> getWorkingConnection_getTx env eps s = (None, s') \<longrightarrow>
         s' = s0\<lparr>trace := trace s0 @ concat (map probes_getTx eps)\<rparr>
         \<and> (\<forall>i<length eps.
               \<not> alive_getTx env (trace s0 @ concat (map probes_getTx (take i eps))) (eps ! i)))"
proof (intro conjI impI)
  assume a: "probeCached env s = (None, s0) \<and> getWorkingConnection env eps s = (Some c, s')"
  then have "tryEndpoints env eps s0 = (Some c, s')"
    by (auto simp: getWorkingConnection_miss)
  from tryEndpoints_Some [OF this] obtain pre e post where
    "eps = pre @ e # post" "c = Connection e"
    "s' = s0\<lparr>trace := trace s0 @ concat (map probes (pre @ [e])),
             cachedConnection := Some (Connection e), cachedEndpoint := Some e\<rparr>"
    "alive env (trace s0 @ concat (map probes pre)) e"
    "\<forall>i<length pre. \<not> alive env (trace s0 @ concat (map probes (take i pre))) (pre ! i)"
    by blast
  then show "\<exists>pre e post. eps = pre @ e # post \<and> c = Connection e
         \<and> cachedConnection s' = Some (Connection e) \<and> cachedEndpoint s' = Some e
         \<and> trace s' = trace s0 @ concat (map probes (pre @ [e]))
         \<and> alive env (trace s0 @ concat (map probes pre)) e
         \<and> (\<forall>i<length pre. \<not> alive env (trace s0 @ concat (map probes (take i pre))) (pre ! i))"
    by (intro exI [of _ pre] exI [of _ e] exI [of _ post]) simp
next
  assume a: "probeCached env s = (None, s0) \<and> getWorkingConnection env eps s = (None, s')"
  then have t: "tryEndpoints env eps s0 = (None, s')"
    by (auto simp: getWorkingConnection_miss)
  from tryEndpoints_None [OF t] show "s' = s0\<lparr>trace := trace s0 @ concat (map probes eps)\<rparr>"
    by simp
  from tryEndpoints_None [OF t]
  show "\<forall>i<length eps. \<not> alive env (trace s0 @ concat (map probes (take i eps))) (eps ! i)"
    by simp
next
  assume a: "probeCached env s = (None, s0) \<and> getWorkingConnection_getTx env eps s = (Some c, s')"
  then have "tryEndpoints_getTx env eps s0 = (Some c, s')"
    by (auto simp: getWorkingConnection_getTx_miss)
  from tryEndpoints_getTx_Some [OF this] obtain pre e post where
    "eps = pre @ e # post" "c = Connection e"
    "s' = s0\<lparr>trace := trace s0 @ concat (map probes_getTx (pre @ [e])),
             cachedConnection := Some (Connection e), cachedEndpoint := Some e\<rparr>"
    "alive_getTx env (trace s0 @ concat (map probes_getTx pre)) e"
    "\<forall>i<length pre. \<not> alive_getTx env (trace s0 @ concat (map probes_getTx (take i pre))) (pre ! i)"
    by blast
  then show "\<exists>pre e post. eps = pre @ e # post \<and> c = Connection e
         \<and> cachedConnection s' = Some (Connection e) \<and> cachedEndpoint s' = Some e
         \<and> trace s' = trace s0 @ concat (map probes_getTx (pre @ [e]))
         \<and> alive_getTx env (trace s0 @ concat (map probes_getTx pre)) e
         \<and> (\<forall>i<length pre.
               \<not> alive_getTx env (trace s0 @ concat (map probes_getTx (take i pre))) (pre ! i))"
    by (intro exI [of _ pre] exI [of _ e] exI [of _ post]) simp
next
  assume a: "probeCached env s = (None, s0) \<and> getWorkingConnection_getTx env eps s = (None, s')"
  then have t: "tryEndpoints_getTx env eps s0 = (None, s')"
    by (auto simp: getWorkingConnection_getTx_miss)
  from tryEndpoints_getTx_None [OF t]
  show "s' = s0\<lparr>trace := trace s0 @ concat (map probes_getTx eps)\<rparr>"
    by simp
  from tryEndpoints_getTx_None [OF t]
  show "\<forall>i<length eps.
          \<not> alive_getTx env (trace s0 @ concat (map probes_getTx (take i eps))) (eps ! i)"
    by simp
qed

lemma ankrOnly_run:
  "getWorkingConnection ankrOnly RPC_ENDPOINTS idle =
     (Some (Connection ''https://rpc.ankr.com/solana_devnet''),
      \<lparr>cachedConnection = Some (Connection ''https://rpc.ankr.com/solana_devnet''),
       cachedEndpoint = Some ''https://rpc.ankr.com/solana_devnet'',
       trace = concat (map probes [''https://api.devnet.solana.com'',
                 ''https://api.devnet.solana.com'', ''https://rpc.ankr.com/solana_devnet''])\<rparr>)"
  by (simp add: getWorkingConnection_def probeCached_def idle_def RPC_ENDPOINTS_def
      ankrOnly_def offline_def Let_def issue_def probes_def)

lemma offline_run:
  "getWorkingConnection offline RPC_ENDPOINTS idle =
     (None, idle\<lparr>trace := trace idle @ concat (map probes RPC_ENDPOINTS)\<rparr>)"
  "getWorkingConnection_getTx offline RPC_ENDPOINTS idle =
     (None, idle\<lparr>trace := trace idle @ concat (map probes_getTx RPC_ENDPOINTS)\<rparr>)"
  by (simp_all add: getWorkingConnection_def getWorkingConnection_getTx_def probeCached_def
      idle_def RPC_ENDPOINTS_def offline_def Let_def issue_def probes_def probes_getTx_def)

lemma slotOnly_run:
  "getWorkingConnection_getTx slotOnly RPC_ENDPOINTS idle =
     (Some (Connection ''https://api.devnet.solana.com''),
      \<lparr>cachedConnection = Some (Connection ''https://api.devnet.solana.com''),
       cachedEndpoint = Some ''https://api.devnet.solana.com'',
       trace = probes_getTx ''https://api.devnet.solana.com''\<rparr>)"
  by (simp add: getWorkingConnection_getTx_def probeCached_def idle_def RPC_ENDPOINTS_def
      slotOnly_def offline_def Let_def issue_def probes_getTx_def)

theorem first_live_candidate_witness:
  "probeCached ankrOnly idle = (None, idle)
   \<and> getWorkingConnection ankrOnly RPC_ENDPOINTS idle =
       (Some (Connection ''https://rpc.ankr.com/solana_devnet''),
        \<lparr>cachedConnection = Some (Connection ''https://rpc.ankr.com/solana_devnet''),
         cachedEndpoint = Some ''https://rpc.ankr.com/solana_devnet'',
         trace = concat (map probes [''https://api.devnet.solana.com'',
                   ''https://api.devnet.solana.com'', ''https://rpc.ankr.com/solana_devnet''])\<rparr>)
   \<and> (\<exists>pre post. RPC_ENDPOINTS = pre @ ''https://rpc.ankr.com/solana_devnet'' # post
         \<and> alive ankrOnly (trace idle @ concat (map probes pre)) ''https://rpc.ankr.com/solana_devnet''
         \<and> (\<forall>i<length pre. \<not> alive ankrOnly (trace idle @ concat (map probes (take i pre))) (pre ! i)))
   \<and> probeCached offline idle = (None, idle)
   \<and> getWorkingConnection offline RPC_ENDPOINTS idle =
       (None, idle\<lparr>trace := trace idle @ concat (map probes RPC_ENDPOINTS)\<rparr>)
   \<and> \<not> alive offline (trace idle) (RPC_ENDPOINTS ! 0)
   \<and> getWorkingConnection_getTx offline RPC_ENDPOINTS idle =
       (None, idle\<lparr>trace := trace idle @ concat (map probes_getTx RPC_ENDPOINTS)\<rparr>)
   \<and> \<not> alive_getTx offline (trace idle) (RPC_ENDPOINTS ! 0)
   \<and> probeCached slotOnly idle = (None, idle)
   \<and> getWorkingConnection_getTx slotOnly RPC_ENDPOINTS idle =
       (Some (Connection ''https://api.devnet.solana.com''),
        \<lparr>cachedConnection = Some (Connection ''https://api.devnet.solana.com''),
         cachedEndpoint = Some ''https://api.devnet.solana.com'',
         trace = probes_getTx ''https://api.devnet.solana.com''\<rparr>)
   \<and> (\<exists>post. RPC_ENDPOINTS = ''https://api.devnet.solana.com'' # post
         \<and> alive_getTx slotOnly (trace idle) ''https://api.devnet.solana.com'')"
proof -
  have p: "probeCached ankrOnly idle = (None, idle)" "probeCached offline idle = (None, idle)"
    "probeCached slotOnly idle = (None, idle)"
    by (simp_all add: probeCached_def idle_def)
  have len: "0 < length RPC_ENDPOINTS" "take 0 RPC_ENDPOINTS = []"
    by (simp_all add: RPC_ENDPOINTS_def)
  from first_live_candidate [of ankrOnly idle idle RPC_ENDPOINTS
      "Connection ''https://rpc.ankr.com/solana_devnet''"
      "\<lparr>cachedConnection = Some (Connection ''https://rpc.ankr.com/solana_devnet''),
         cachedEndpoint = Some ''https://rpc.ankr.com/solana_devnet'',
         trace = concat (map probes [''https://api.devnet.solana.com'',
                   ''https://api.devnet.solana.com'', ''https://rpc.ankr.com/solana_devnet''])\<rparr>"]
    p(1) ankrOnly_run
  obtain pre e post where
    "RPC_ENDPOINTS = pre @ e # post"
    "Connection ''https://rpc.ankr.com/solana_devnet'' = Connection e"
    "alive ankrOnly (trace idle @ concat (map probes pre)) e"
    "\<forall>i<length pre. \<not> alive ankrOnly (trace idle @ concat (map probes (take i pre))) (pre ! i)"
    by blast
  then have a: "\<exists>pre post. RPC_ENDPOINTS = pre @ ''https://rpc.ankr.com/solana_devnet'' # post
         \<and> alive ankrOnly (trace idle @ concat (map probes pre)) ''https://rpc.ankr.com/solana_devnet''
         \<and> (\<forall>i<length pre. \<not> alive ankrOnly (trace idle @ concat (map probes (take i pre))) (pre ! i))"
    by auto
  from first_live_candidate [of offline idle idle RPC_ENDPOINTS _
      "idle\<lparr>trace := trace idle @ concat (map probes RPC_ENDPOINTS)\<rparr>"]
    p(2) offline_run(1)
  have "\<forall>i<length RPC_ENDPOINTS.
      \<not> alive offline (trace idle @ concat (map probes (take i RPC_ENDPOINTS))) (RPC_ENDPOINTS ! i)"
    by blast
  with len have b: "\<not> alive offline (trace idle) (RPC_ENDPOINTS ! 0)"
    by fastforce
  from first_live_candidate [of offline idle idle RPC_ENDPOINTS _
      "idle\<lparr>trace := trace idle @ concat (map probes_getTx RPC_ENDPOINTS)\<rparr>"]
    p(2) offline_run(2)
  have "\<forall>i<length RPC_ENDPOINTS.
      \<not> alive_getTx offline (trace idle @ concat (map probes_getTx (take i RPC_ENDPOINTS)))
          (RPC_ENDPOINTS ! i)"
    by blast
  with len have c: "\<not> alive_getTx offline (trace idle) (RPC_ENDPOINTS ! 0)"
    by fastforce
  have d: "\<exists>post. RPC_ENDPOINTS = ''https://api.devnet.solana.com'' # post
         \<and> alive_getTx slotOnly (trace idle) ''https://api.devnet.solana.com''"
    by (simp add: RPC_ENDPOINTS_def alive_getTx_def slotOnly_def offline_def)
  from p ankrOnly_run a offline_run b c slotOnly_run d show ?thesis
    by (simp del: map_append)
qed

lemma tryEndpoints_pass:
  "\<exists>k\<le>length eps.
     trace (snd (tryEndpoints env eps s)) = trace s @ concat (map probes (take k eps))
     \<and> (case fst (tryEndpoints env eps s) of
           None \<Rightarrow> k = length eps
         | Some c \<Rightarrow> 0 < k \<and> c = Connection (eps ! (k - 1)))"
proof (cases "tryEndpoints env eps s")
  case (Pair r s')
  show ?thesis
  proof (cases r)
    case None
    with Pair tryEndpoints_None [of env eps s s'] show ?thesis
      by (intro exI [of _ "length eps"]) simp
  next
    case (Some c)
    with Pair tryEndpoints_Some [of env eps s c s'] obtain pre e post where
      "eps = pre @ e # post" "c = Connection e"
      "trace s' = trace s @ concat (map probes (pre @ [e]))"
      by auto
    with Pair Some show ?thesis
      by (intro exI [of _ "Suc (length pre)"]) simp
  qed
qed

lemma tryEndpoints_getTx_pass:
  "\<exists>k\<le>length eps.
     trace (snd (tryEndpoints_getTx env eps s)) = trace s @ concat (map probes_getTx (take k eps))
     \<and> (case fst (tryEndpoints_getTx env eps s) of
           None \<Rightarrow> k = length eps
         | Some c \<Rightarrow> 0 < k \<and> c = Connection (eps ! (k - 1)))"
proof (cases "tryEndpoints_getTx env eps s")
  case (Pair r s')
  show ?thesis
  proof (cases r)
    case None
    with Pair tryEndpoints_getTx_None [of env eps s s'] show ?thesis
      by (intro exI [of _ "length eps"]) simp
  next
    case (Some c)
    with Pair tryEndpoints_getTx_Some [of env eps s c s'] obtain pre e post where
      "eps = pre @ e # post" "c = Connection e"
      "trace s' = trace s @ concat (map probes_getTx (pre @ [e]))"
      by auto
    with Pair Some show ?thesis
      by (intro exI [of _ "Suc (length pre)"]) simp
  qed
qed

lemma probeCached_hit:
  "cachedConnection s = Some cached \<Longrightarrow> truthy (cachedEndpoint s) \<Longrightarrow>
   getSlot env (trace s) (endpointOf cached) \<noteq> Throws \<Longrightarrow>
   probeCached env s = (Some cached, s\<lparr>trace := trace s @ [GetSlot (endpointOf cached)]\<rparr>)"
  by (auto simp: probeCached_def issue_def split: outcome.splits)

lemma probeCached_stale:
  "cachedConnection s = Some cached \<Longrightarrow> truthy (cachedEndpoint s) \<Longrightarrow>
   getSlot env (trace s) (endpointOf cached) = Throws \<Longrightarrow>
   probeCached env s =
     (None, s\<lparr>cachedConnection := None, cachedEndpoint := None,
              trace := trace s @ [GetSlot (endpointOf cached)]\<rparr>)"
  by (simp add: probeCached_def issue_def invalidate_def)

text \<open>
  Claim C4 covers the selector of \<^verbatim>\<open>page.tsx\<close> too. That one does not test the
  endpoint it remembers: with every node down it still returns a connection to it, and
  the trace holds the construction only.
\<close>

theorem page_selector_no_probe:
  "getWorkingConnection_page offline RPC_ENDPOINTS
     \<lparr>workingRpc = Some ''https://api.devnet.solana.com'', calls = [], console = []\<rparr>
   = (Some (Connection ''https://api.devnet.solana.com''),
      \<lparr>workingRpc = Some ''https://api.devnet.solana.com'',
       calls = [NewConnection ''https://api.devnet.solana.com''], console = []\<rparr>)
   \<and> getSlot offline [] ''https://api.devnet.solana.com'' = Throws
   \<and> getVersion offline [] ''https://api.devnet.solana.com'' = Throws"
  by (simp add: getWorkingConnection_page_def truthy_def request_def offline_def)

text \<open>
  Claim C4, amended. In the three API routes a call with a cached connection first sends
  \<^verbatim>\<open>getSlot\<close> on it. When that resolves, the cached connection is returned, the cache
  is as before and no candidate is touched. When it rejects, both cache variables are
  set to \<^verbatim>\<open>null\<close> and the result is that of one run of the loop from the emptied cache:
  the trace grows by the tests of the first \<open>k\<close> candidates, each once and in order,
  with \<open>k\<close> the whole list on failure and the position of the connection returned on
  success. The selector of \<^verbatim>\<open>page.tsx\<close> builds a connection to the endpoint it
  remembers and sends no probe.
\<close>

theorem cached_connection_probed:
  "(cachedConnection s = Some cached \<and> truthy (cachedEndpoint s)
      \<and> getSlot env (trace s) (endpointOf cached) \<noteq> Throws \<longrightarrow>
        getWorkingConnection env eps s =
          (Some cached, s\<lparr>trace := trace s @ [GetSlot (endpointOf cached)]\<rparr>)
        \<and> getWorkingConnection_getTx env eps s =
          (Some cached, s\<lparr>trace := trace s @ [GetSlot (endpointOf cached)]\<rparr>))
   \<and> (cachedConnection s = Some cached \<and> truthy (cachedEndpoint s)
      \<and> getSlot env (trace s) (endpointOf cached) = Throws \<longrightarrow>
        getWorkingConnection env eps s =
          tryEndpoints env eps
            (s\<lparr>cachedConnection := None, cachedEndpoint := None,
               trace := trace s @ [GetSlot (endpointOf cached)]\<rparr>)
        \<and> (\<exists>k\<le>length eps.
              trace (snd (getWorkingConnection env eps s)) =
                trace s @ GetSlot (endpointOf cached) # concat (map probes (take k eps))
              \<and> (case fst (getWorkingConnection env eps s) of
                    None \<Rightarrow> k = length eps
                  | Some c \<Rightarrow> 0 < k \<and> c = Connection (eps ! (k - 1))))
        \<and> getWorkingConnection_getTx env eps s =
          tryEndpoints_getTx env eps
            (s\<lparr>cachedConnection := None, cachedEndpoint := None,
               trace := trace s @ [GetSlot (endpointOf cached)]\<rparr>)
        \<and> (\<exists>k\<le>length eps.
              trace (snd (getWorkingConnection_getTx env eps s)) =
                trace s @ GetSlot (endpointOf cached) # concat (map probes_getTx (take k eps))
              \<and> (case fst (getWorkingConnection_getTx env eps s) of
                    None \<Rightarrow> k = length eps
                  | Some c \<Rightarrow> 0 < k \<and> c = Connection (eps ! (k - 1)))))
   \<and> (truthy (workingRpc p) \<longrightarrow>
        getWorkingConnection_page env eps p =
          (Some (Connection (the (workingRpc p))),
           p\<lparr>calls := calls p @ [NewConnection (the (workingRpc p))]\<rparr>))"
proof (intro conjI impI)
  assume "cachedConnection s = Some cached \<and> truthy (cachedEndpoint s)
      \<and> getSlot env (trace s) (endpointOf cached) \<noteq> Throws"
  then have hit: "probeCached env s =
      (Some cached, s\<lparr>trace := trace s @ [GetSlot (endpointOf cached)]\<rparr>)"
    by (simp add: probeCached_hit)
  then show "getWorkingConnection env eps s =
          (Some cached, s\<lparr>trace := trace s @ [GetSlot (endpointOf cached)]\<rparr>)"
    by (simp add: getWorkingConnection_def)
  from hit show "getWorkingConnection_getTx env eps s =
          (Some cached, s\<lparr>trace := trace s @ [GetSlot (endpointOf cached)]\<rparr>)"
    by (simp add: getWorkingConnection_getTx_def)
next
  let ?s0 = "s\<lparr>cachedConnection := None, cachedEndpoint := None,
               trace := trace s @ [GetSlot (endpointOf cached)]\<rparr>"
  assume "cachedConnection s = Some cached \<and> truthy (cachedEndpoint s)
      \<and> getSlot env (trace s) (endpointOf cached) = Throws"
  then have miss: "probeCached env s = (None, ?s0)"
    by (simp add: probeCached_stale)
  from getWorkingConnection_miss [OF miss]
  show eq: "getWorkingConnection env eps s = tryEndpoints env eps ?s0" .
  from tryEndpoints_pass [of eps env ?s0] eq
  show "\<exists>k\<le>length eps.
              trace (snd (getWorkingConnection env eps s)) =
                trace s @ GetSlot (endpointOf cached) # concat (map probes (take k eps))
              \<and> (case fst (getWorkingConnection env eps s) of
                    None \<Rightarrow> k = length eps
                  | Some c \<Rightarrow> 0 < k \<and> c = Connection (eps ! (k - 1)))"
    by simp
  from getWorkingConnection_getTx_miss [OF miss]
  show eq': "getWorkingConnection_getTx env eps s = tryEndpoints_getTx env eps ?s0" .
  from tryEndpoints_getTx_pass [of eps env ?s0] eq'
  show "\<exists>k\<le>length eps.
              trace (snd (getWorkingConnection_getTx env eps s)) =
                trace s @ GetSlot (endpointOf cached) # concat (map probes_getTx (take k eps))
              \<and> (case fst (getWorkingConnection_getTx env eps s) of
                    None \<Rightarrow> k = length eps
                  | Some c \<Rightarrow> 0 < k \<and> c = Connection (eps ! (k - 1)))"
    by simp
next
  assume "truthy (workingRpc p)"
  then show "getWorkingConnection_page env eps p =
          (Some (Connection (the (workingRpc p))),
           p\<lparr>calls := calls p @ [NewConnection (the (workingRpc p))]\<rparr>)"
    by (simp add: getWorkingConnection_page_def request_def)
qed

theorem cached_connection_probed_witness:
  "cachedConnection warm = Some (Connection ''https://rpc.ankr.com/solana_devnet'')
   \<and> truthy (cachedEndpoint warm)
   \<and> getSlot ankrOnly (trace warm) ''https://rpc.ankr.com/solana_devnet'' \<noteq> Throws
   \<and> getWorkingConnection ankrOnly RPC_ENDPOINTS warm =
       (Some (Connection ''https://rpc.ankr.com/solana_devnet''),
        warm\<lparr>trace := [GetSlot ''https://rpc.ankr.com/solana_devnet'']\<rparr>)
   \<and> cachedConnection stale = Some (Connection ''https://api.devnet.solana.com'')
   \<and> truthy (cachedEndpoint stale)
   \<and> getSlot ankrOnly (trace stale) ''https://api.devnet.solana.com'' = Throws
   \<and> getWorkingConnection ankrOnly RPC_ENDPOINTS stale =
       tryEndpoints ankrOnly RPC_ENDPOINTS
         \<lparr>cachedConnection = None, cachedEndpoint = None,
          trace = [GetSlot ''https://api.devnet.solana.com'']\<rparr>
   \<and> fst (getWorkingConnection ankrOnly RPC_ENDPOINTS stale) =
       Some (Connection ''https://rpc.ankr.com/solana_devnet'')
   \<and> truthy (workingRpc remembered)
   \<and> getWorkingConnection_page ankrOnly RPC_ENDPOINTS remembered =
       (Some (Connection ''https://api.devnet.solana.com''),
        remembered\<lparr>calls := [NewConnection ''https://api.devnet.solana.com'']\<rparr>)"
proof -
  have w: "cachedConnection warm = Some (Connection ''https://rpc.ankr.com/solana_devnet'')
      \<and> truthy (cachedEndpoint warm)
      \<and> getSlot ankrOnly (trace warm) (endpointOf (Connection ''https://rpc.ankr.com/solana_devnet'')) \<noteq> Throws"
    by (simp add: warm_def truthy_def ankrOnly_def offline_def)
  have st: "cachedConnection stale = Some (Connection ''https://api.devnet.solana.com'')
      \<and> truthy (cachedEndpoint stale)
      \<and> getSlot ankrOnly (trace stale) (endpointOf (Connection ''https://api.devnet.solana.com'')) = Throws"
    by (simp add: stale_def truthy_def ankrOnly_def offline_def)
  have r: "truthy (workingRpc remembered)"
    by (simp add: remembered_def truthy_def)
  have run: "fst (tryEndpoints ankrOnly RPC_ENDPOINTS
         \<lparr>cachedConnection = None, cachedEndpoint = None,
          trace = [GetSlot ''https://api.devnet.solana.com'']\<rparr>) =
       Some (Connection ''https://rpc.ankr.com/solana_devnet'')"
    by (simp add: RPC_ENDPOINTS_def ankrOnly_def offline_def Let_def issue_def)
  from cached_connection_probed [of warm "Connection ''https://rpc.ankr.com/solana_devnet''"
      ankrOnly RPC_ENDPOINTS remembered] w r
  have a: "getWorkingConnection ankrOnly RPC_ENDPOINTS warm =
       (Some (Connection ''https://rpc.ankr.com/solana_devnet''),
        warm\<lparr>trace := [GetSlot ''https://rpc.ankr.com/solana_devnet'']\<rparr>)"
    and b: "getWorkingConnection_page ankrOnly RPC_ENDPOINTS remembered =
       (Some (Connection ''https://api.devnet.solana.com''),
        remembered\<lparr>calls := [NewConnection ''https://api.devnet.solana.com'']\<rparr>)"
    by (simp_all add: warm_def remembered_def)
  from cached_connection_probed [of stale "Connection ''https://api.devnet.solana.com''"
      ankrOnly RPC_ENDPOINTS remembered] st
  have c: "getWorkingConnection ankrOnly RPC_ENDPOINTS stale =
       tryEndpoints ankrOnly RPC_ENDPOINTS
         \<lparr>cachedConnection = None, cachedEndpoint = None,
          trace = [GetSlot ''https://api.devnet.solana.com'']\<rparr>"
    by (simp add: stale_def)
  from w st r a b c run show ?thesis by simp
qed

section \<open>Properties of the transaction-fetch loops\<close>

lemma tryEndpoints_no_fetch:
  "\<exists>ext. trace (snd (tryEndpoints env eps s)) = trace s @ ext \<and> filter isFetch ext = []"
proof -
  from tryEndpoints_pass [of eps env s] obtain k where
    "trace (snd (tryEndpoints env eps s)) = trace s @ concat (map probes (take k eps))"
    by blast
  moreover have "filter isFetch (concat (map probes xs)) = []" for xs
    by (induction xs) (simp_all add: probes_def)
  ultimately show ?thesis by blast
qed

lemma tryEndpoints_getTx_no_fetch:
  "\<exists>ext. trace (snd (tryEndpoints_getTx env eps s)) = trace s @ ext \<and> filter isFetch ext = []"
proof -
  from tryEndpoints_getTx_pass [of eps env s] obtain k where
    "trace (snd (tryEndpoints_getTx env eps s)) =
       trace s @ concat (map probes_getTx (take k eps))"
    by blast
  moreover have "filter isFetch (concat (map probes_getTx xs)) = []" for xs
    by (induction xs) (simp_all add: probes_getTx_def)
  ultimately show ?thesis by blast
qed

lemma probeCached_no_fetch:
  "\<exists>ext. trace (snd (probeCached env s)) = trace s @ ext \<and> filter isFetch ext = []"
  by (auto simp: probeCached_def issue_def invalidate_def split: option.splits outcome.splits)

lemma getWorkingConnection_no_fetch:
  "\<exists>ext. trace (snd (getWorkingConnection env eps s)) = trace s @ ext \<and> filter isFetch ext = []"
proof (cases "probeCached env s")
  case (Pair r s0)
  from probeCached_no_fetch [of env s] Pair obtain e0 where
    e0: "trace s0 = trace s @ e0" "filter isFetch e0 = []" by auto
  show ?thesis
  proof (cases r)
    case None
    from tryEndpoints_no_fetch [of env eps s0] obtain e1 where
      "trace (snd (tryEndpoints env eps s0)) = trace s0 @ e1" "filter isFetch e1 = []" by auto
    with e0 Pair None show ?thesis
      by (intro exI [of _ "e0 @ e1"]) (simp add: getWorkingConnection_def)
  next
    case (Some c)
    with e0 Pair show ?thesis
      by (intro exI [of _ e0]) (simp add: getWorkingConnection_def)
  qed
qed

lemma getWorkingConnection_getTx_no_fetch:
  "\<exists>ext. trace (snd (getWorkingConnection_getTx env eps s)) = trace s @ ext
         \<and> filter isFetch ext = []"
proof (cases "probeCached env s")
  case (Pair r s0)
  from probeCached_no_fetch [of env s] Pair obtain e0 where
    e0: "trace s0 = trace s @ e0" "filter isFetch e0 = []" by auto
  show ?thesis
  proof (cases r)
    case None
    from tryEndpoints_getTx_no_fetch [of env eps s0] obtain e1 where
      "trace (snd (tryEndpoints_getTx env eps s0)) = trace s0 @ e1" "filter isFetch e1 = []"
      by auto
    with e0 Pair None show ?thesis
      by (intro exI [of _ "e0 @ e1"]) (simp add: getWorkingConnection_getTx_def)
  next
    case (Some c)
    with e0 Pair show ?thesis
      by (intro exI [of _ e0]) (simp add: getWorkingConnection_getTx_def)
  qed
qed

text \<open>The loop of the confirm-payment route, one case at a time.\<close>

lemma fetchLoop_done:
  "\<not> a < maxRetries \<Longrightarrow> fetchLoop env eps c g a s = (None, s)"
  by (subst fetchLoop.simps) simp

lemma fetchLoop_found:
  "a < maxRetries \<Longrightarrow> getParsedTransaction env (trace s) (endpointOf c) g = Returns (Some tx) \<Longrightarrow>
   fetchLoop env eps c g a s = (Some tx, issue (GetParsedTransaction (endpointOf c) g) s)"
  by (subst fetchLoop.simps) simp

lemma fetchLoop_notFound:
  "a < maxRetries \<Longrightarrow> getParsedTransaction env (trace s) (endpointOf c) g = Returns None \<Longrightarrow>
   fetchLoop env eps c g a s =
     fetchLoop env eps c g (a + 1) (issue (GetParsedTransaction (endpointOf c) g) s)"
  by (subst fetchLoop.simps) simp

lemma fetchLoop_failed:
  "a < maxRetries - 1 \<Longrightarrow> getParsedTransaction env (trace s) (endpointOf c) g = Throws \<Longrightarrow>
   fetchLoop env eps c g a s =
     (case getWorkingConnection env eps
             (invalidate (issue (GetParsedTransaction (endpointOf c) g) s)) of
        (None, s2) \<Rightarrow> (None, s2)
      | (Some newConnection, s2) \<Rightarrow> fetchLoop env eps c g (a + 1) s2)"
  by (subst fetchLoop.simps) (simp add: maxRetries_def)

lemma fetchLoop_failed_last:
  "a < maxRetries \<Longrightarrow> \<not> a < maxRetries - 1 \<Longrightarrow>
   getParsedTransaction env (trace s) (endpointOf c) g = Throws \<Longrightarrow>
   fetchLoop env eps c g a s = (None, issue (GetParsedTransaction (endpointOf c) g) s)"
  by (subst fetchLoop.simps) (simp add: maxRetries_def fetchLoop_done)

lemma fetchLoop_attempts:
  "\<exists>ext. trace (snd (fetchLoop env eps c g a s)) = trace s @ ext
         \<and> length (filter isFetch ext) \<le> maxRetries - a"
proof (induction "maxRetries - a" arbitrary: a s)
  case 0
  then show ?case by (simp add: fetchLoop_done)
next
  case (Suc n)
  then have lt: "a < maxRetries" and n: "n = maxRetries - (a + 1)" by auto
  let ?f = "GetParsedTransaction (endpointOf c) g"
  show ?case
  proof (cases "getParsedTransaction env (trace s) (endpointOf c) g")
    case Throws
    show ?thesis
    proof (cases "a < maxRetries - 1")
      case False
      with lt Throws show ?thesis
        by (intro exI [of _ "[?f]"]) (simp add: fetchLoop_failed_last issue_def)
    next
      case True
      obtain nc s2 where sel: "getWorkingConnection env eps (invalidate (issue ?f s)) = (nc, s2)"
        by (cases "getWorkingConnection env eps (invalidate (issue ?f s))")
      from getWorkingConnection_no_fetch [of env eps "invalidate (issue ?f s)"] sel
      obtain e1 where e1: "trace s2 = (trace s @ [?f]) @ e1" "filter isFetch e1 = []"
        by (auto simp: invalidate_def issue_def)
      show ?thesis
      proof (cases nc)
        case None
        with True Throws sel e1 lt show ?thesis
          by (intro exI [of _ "?f # e1"]) (simp add: fetchLoop_failed)
      next
        case (Some newConnection)
        from Suc.hyps(1) [OF n, of s2] obtain e2 where
          "trace (snd (fetchLoop env eps c g (a + 1) s2)) = trace s2 @ e2"
          "length (filter isFetch e2) \<le> maxRetries - (a + 1)" by auto
        with True Throws sel e1 lt Some show ?thesis
          by (intro exI [of _ "?f # e1 @ e2"]) (simp add: fetchLoop_failed)
      qed
    qed
  next
    case (Returns r)
    show ?thesis
    proof (cases r)
      case None
      from Suc.hyps(1) [OF n, of "issue ?f s"] obtain e2 where
        "trace (snd (fetchLoop env eps c g (a + 1) (issue ?f s))) = trace (issue ?f s) @ e2"
        "length (filter isFetch e2) \<le> maxRetries - (a + 1)" by auto
      with lt Returns None show ?thesis
        by (intro exI [of _ "?f # e2"]) (simp add: fetchLoop_notFound issue_def)
    next
      case (Some tx)
      with lt Returns show ?thesis
        by (intro exI [of _ "[?f]"]) (simp add: fetchLoop_found issue_def)
    qed
  qed
qed

text \<open>The loop of the get-transaction route, one case at a time.\<close>

lemma fetchLoop_getTx_done:
  "\<not> a < maxRetries \<Longrightarrow> fetchLoop_getTx env eps c g a s = (None, s)"
  by (subst fetchLoop_getTx.simps) simp

lemma fetchLoop_getTx_found:
  "a < maxRetries \<Longrightarrow> getParsedTransaction env (trace s) (endpointOf c) g = Returns (Some tx) \<Longrightarrow>
   fetchLoop_getTx env eps c g a s = (Some tx, issue (GetParsedTransaction (endpointOf c) g) s)"
  by (subst fetchLoop_getTx.simps) simp

lemma fetchLoop_getTx_notFound:
  "a < maxRetries \<Longrightarrow> getParsedTransaction env (trace s) (endpointOf c) g = Returns None \<Longrightarrow>
   fetchLoop_getTx env eps c g a s =
     fetchLoop_getTx env eps c g (a + 1) (issue (GetParsedTransaction (endpointOf c) g) s)"
  by (subst fetchLoop_getTx.simps) simp

lemma fetchLoop_getTx_failed:
  "a < maxRetries - 1 \<Longrightarrow> getParsedTransaction env (trace s) (endpointOf c) g = Throws \<Longrightarrow>
   fetchLoop_getTx env eps c g a s =
     (case getWorkingConnection_getTx env eps
             (invalidate (issue (GetParsedTransaction (endpointOf c) g) s)) of
        (None, s2) \<Rightarrow> (None, s2)
      | (Some newConnection, s2) \<Rightarrow> fetchLoop_getTx env eps c g (a + 1) s2)"
  by (subst fetchLoop_getTx.simps) (simp add: maxRetries_def)

lemma fetchLoop_getTx_failed_last:
  "a < maxRetries \<Longrightarrow> \<not> a < maxRetries - 1 \<Longrightarrow>
   getParsedTransaction env (trace s) (endpointOf c) g = Throws \<Longrightarrow>
   fetchLoop_getTx env eps c g a s = (None, issue (GetParsedTransaction (endpointOf c) g) s)"
  by (subst fetchLoop_getTx.simps) (simp add: maxRetries_def fetchLoop_getTx_done)

lemma fetchLoop_getTx_attempts:
  "\<exists>ext. trace (snd (fetchLoop_getTx env eps c g a s)) = trace s @ ext
         \<and> length (filter isFetch ext) \<le> maxRetries - a"
proof (induction "maxRetries - a" arbitrary: a s)
  case 0
  then show ?case by (simp add: fetchLoop_getTx_done)
next
  case (Suc n)
  then have lt: "a < maxRetries" and n: "n = maxRetries - (a + 1)" by auto
  let ?f = "GetParsedTransaction (endpointOf c) g"
  show ?case
  proof (cases "getParsedTransaction env (trace s) (endpointOf c) g")
    case Throws
    show ?thesis
    proof (cases "a < maxRetries - 1")
      case False
      with lt Throws show ?thesis
        by (intro exI [of _ "[?f]"]) (simp add: fetchLoop_getTx_failed_last issue_def)
    next
      case True
      obtain nc s2 where
        sel: "getWorkingConnection_getTx env eps (invalidate (issue ?f s)) = (nc, s2)"
        by (cases "getWorkingConnection_getTx env eps (invalidate (issue ?f s))")
      from getWorkingConnection_getTx_no_fetch [of env eps "invalidate (issue ?f s)"] sel
      obtain e1 where e1: "trace s2 = (trace s @ [?f]) @ e1" "filter isFetch e1 = []"
        by (auto simp: invalidate_def issue_def)
      show ?thesis
      proof (cases nc)
        case None
        with True Throws sel e1 lt show ?thesis
          by (intro exI [of _ "?f # e1"]) (simp add: fetchLoop_getTx_failed)
      next
        case (Some newConnection)
        from Suc.hyps(1) [OF n, of s2] obtain e2 where
          "trace (snd (fetchLoop_getTx env eps c g (a + 1) s2)) = trace s2 @ e2"
          "length (filter isFetch e2) \<le> maxRetries - (a + 1)" by auto
        with True Throws sel e1 lt Some show ?thesis
          by (intro exI [of _ "?f # e1 @ e2"]) (simp add: fetchLoop_getTx_failed)
      qed
    qed
  next
    case (Returns r)
    show ?thesis
    proof (cases r)
      case None
      from Suc.hyps(1) [OF n, of "issue ?f s"] obtain e2 where
        "trace (snd (fetchLoop_getTx env eps c g (a + 1) (issue ?f s))) = trace (issue ?f s) @ e2"
        "length (filter isFetch e2) \<le> maxRetries - (a + 1)" by auto
      with lt Returns None show ?thesis
        by (intro exI [of _ "?f # e2"]) (simp add: fetchLoop_getTx_notFound issue_def)
    next
      case (Some tx)
      with lt Returns show ?thesis
        by (intro exI [of _ "[?f]"]) (simp add: fetchLoop_getTx_found issue_def)
    qed
  qed
qed

text \<open>
  Claim C6. Both fetch loops are total functions (their termination is proved with the
  measure \<open>maxRetries - attempt\<close>, and the selector is a recursion over the finite
  candidate list). Started at attempt 0 they add at most three requests for the
  transaction to the trace. When an attempt before the last one rejects, both cache
  variables are set to \<^verbatim>\<open>null\<close> and the selector is called in that state; if it returns
  \<^verbatim>\<open>null\<close> the loop ends there without a transaction, otherwise the next attempt
  follows in the state the selector left. A rejection of the last attempt ends the loop
  with nothing invalidated. An attempt that resolves to \<^verbatim>\<open>null\<close> (the transaction is
  not known to the node) is not a failure in this sense: the next attempt follows with
  the cache untouched.
\<close>

theorem fetch_attempts_bounded:
  "(\<exists>ext. trace (snd (fetchLoop env eps c g 0 s)) = trace s @ ext
          \<and> length (filter isFetch ext) \<le> 3)
   \<and> (\<exists>ext. trace (snd (fetchLoop_getTx env eps c g 0 s)) = trace s @ ext
          \<and> length (filter isFetch ext) \<le> 3)
   \<and> (a < 2 \<and> getParsedTransaction env (trace s) (endpointOf c) g = Throws \<longrightarrow>
        fetchLoop env eps c g a s =
          (case getWorkingConnection env eps
                  (s\<lparr>cachedConnection := None, cachedEndpoint := None,
                     trace := trace s @ [GetParsedTransaction (endpointOf c) g]\<rparr>) of
             (None, s2) \<Rightarrow> (None, s2)
           | (Some newConnection, s2) \<Rightarrow> fetchLoop env eps c g (a + 1) s2)
        \<and> fetchLoop_getTx env eps c g a s =
          (case getWorkingConnection_getTx env eps
                  (s\<lparr>cachedConnection := None, cachedEndpoint := None,
                     trace := trace s @ [GetParsedTransaction (endpointOf c) g]\<rparr>) of
             (None, s2) \<Rightarrow> (None, s2)
           | (Some newConnection, s2) \<Rightarrow> fetchLoop_getTx env eps c g (a + 1) s2))
   \<and> (a = 2 \<and> getParsedTransaction env (trace s) (endpointOf c) g = Throws \<longrightarrow>
        fetchLoop env eps c g a s =
          (None, s\<lparr>trace := trace s @ [GetParsedTransaction (endpointOf c) g]\<rparr>)
        \<and> fetchLoop_getTx env eps c g a s =
          (None, s\<lparr>trace := trace s @ [GetParsedTransaction (endpointOf c) g]\<rparr>))
   \<and> (a < 3 \<and> getParsedTransaction env (trace s) (endpointOf c) g = Returns None \<longrightarrow>
        fetchLoop env eps c g a s =
          fetchLoop env eps c g (a + 1)
            (s\<lparr>trace := trace s @ [GetParsedTransaction (endpointOf c) g]\<rparr>)
        \<and> fetchLoop_getTx env eps c g a s =
          fetchLoop_getTx env eps c g (a + 1)
            (s\<lparr>trace := trace s @ [GetParsedTransaction (endpointOf c) g]\<rparr>))"
proof (intro conjI impI)
  from fetchLoop_attempts [of env eps c g 0 s]
  show "\<exists>ext. trace (snd (fetchLoop env eps c g 0 s)) = trace s @ ext
          \<and> length (filter isFetch ext) \<le> 3"
    by (simp add: maxRetries_def)
  from fetchLoop_getTx_attempts [of env eps c g 0 s]
  show "\<exists>ext. trace (snd (fetchLoop_getTx env eps c g 0 s)) = trace s @ ext
          \<and> length (filter isFetch ext) \<le> 3"
    by (simp add: maxRetries_def)
next
  assume h: "a < 2 \<and> getParsedTransaction env (trace s) (endpointOf c) g = Throws"
  then have lt: "a < maxRetries - 1"
    and thr: "getParsedTransaction env (trace s) (endpointOf c) g = Throws"
    by (simp_all add: maxRetries_def)
  have st: "invalidate (issue (GetParsedTransaction (endpointOf c) g) s) =
      s\<lparr>cachedConnection := None, cachedEndpoint := None,
        trace := trace s @ [GetParsedTransaction (endpointOf c) g]\<rparr>"
    by (simp add: invalidate_def issue_def)
  from fetchLoop_failed [OF lt thr, of eps]
  show "fetchLoop env eps c g a s =
          (case getWorkingConnection env eps
                  (s\<lparr>cachedConnection := None, cachedEndpoint := None,
                     trace := trace s @ [GetParsedTransaction (endpointOf c) g]\<rparr>) of
             (None, s2) \<Rightarrow> (None, s2)
           | (Some newConnection, s2) \<Rightarrow> fetchLoop env eps c g (a + 1) s2)"
    unfolding st .
  from fetchLoop_getTx_failed [OF lt thr, of eps]
  show "fetchLoop_getTx env eps c g a s =
          (case getWorkingConnection_getTx env eps
                  (s\<lparr>cachedConnection := None, cachedEndpoint := None,
                     trace := trace s @ [GetParsedTransaction (endpointOf c) g]\<rparr>) of
             (None, s2) \<Rightarrow> (None, s2)
           | (Some newConnection, s2) \<Rightarrow> fetchLoop_getTx env eps c g (a + 1) s2)"
    unfolding st .
next
  assume h: "a = 2 \<and> getParsedTransaction env (trace s) (endpointOf c) g = Throws"
  then show "fetchLoop env eps c g a s =
          (None, s\<lparr>trace := trace s @ [GetParsedTransaction (endpointOf c) g]\<rparr>)"
    by (simp add: fetchLoop_failed_last maxRetries_def issue_def)
  from h show "fetchLoop_getTx env eps c g a s =
          (None, s\<lparr>trace := trace s @ [GetParsedTransaction (endpointOf c) g]\<rparr>)"
    by (simp add: fetchLoop_getTx_failed_last maxRetries_def issue_def)
next
  assume h: "a < 3 \<and> getParsedTransaction env (trace s) (endpointOf c) g = Returns None"
  then show "fetchLoop env eps c g a s =
          fetchLoop env eps c g (a + 1)
            (s\<lparr>trace := trace s @ [GetParsedTransaction (endpointOf c) g]\<rparr>)"
    by (simp add: fetchLoop_notFound maxRetries_def issue_def)
  from h show "fetchLoop_getTx env eps c g a s =
          fetchLoop_getTx env eps c g (a + 1)
            (s\<lparr>trace := trace s @ [GetParsedTransaction (endpointOf c) g]\<rparr>)"
    by (simp add: fetchLoop_getTx_notFound maxRetries_def issue_def)
qed

theorem fetch_attempts_bounded_witness:
  "(0::nat) < 2
   \<and> getParsedTransaction flaky (trace warm) ''https://rpc.ankr.com/solana_devnet''
        sampleSignature = Throws
   \<and> fetchLoop flaky RPC_ENDPOINTS (Connection ''https://rpc.ankr.com/solana_devnet'')
        sampleSignature 0 warm =
      (Some sampleTx,
       \<lparr>cachedConnection = Some (Connection ''https://api.devnet.solana.com''),
        cachedEndpoint = Some ''https://api.devnet.solana.com'',
        trace =
          [GetParsedTransaction ''https://rpc.ankr.com/solana_devnet'' sampleSignature,
           NewConnection ''https://api.devnet.solana.com'',
           GetSlot ''https://api.devnet.solana.com'',
           GetVersion ''https://api.devnet.solana.com'',
           GetParsedTransaction ''https://rpc.ankr.com/solana_devnet'' sampleSignature]\<rparr>)
   \<and> getParsedTransaction offline (trace warm) ''https://rpc.ankr.com/solana_devnet''
        sampleSignature = Throws
   \<and> fetchLoop offline RPC_ENDPOINTS (Connection ''https://rpc.ankr.com/solana_devnet'')
        sampleSignature 2 warm =
      (None, warm\<lparr>trace :=
         [GetParsedTransaction ''https://rpc.ankr.com/solana_devnet'' sampleSignature]\<rparr>)
   \<and> fetchLoop offline RPC_ENDPOINTS (Connection ''https://rpc.ankr.com/solana_devnet'')
        sampleSignature 0 warm =
      (None,
       \<lparr>cachedConnection = None, cachedEndpoint = None,
        trace = GetParsedTransaction ''https://rpc.ankr.com/solana_devnet'' sampleSignature
                  # concat (map probes RPC_ENDPOINTS)\<rparr>)
   \<and> getParsedTransaction unknownTx (trace warm) ''https://rpc.ankr.com/solana_devnet''
        sampleSignature = Returns None
   \<and> fetchLoop unknownTx RPC_ENDPOINTS (Connection ''https://rpc.ankr.com/solana_devnet'')
        sampleSignature 0 warm =
      fetchLoop unknownTx RPC_ENDPOINTS (Connection ''https://rpc.ankr.com/solana_devnet'')
        sampleSignature 1
        (warm\<lparr>trace :=
           [GetParsedTransaction ''https://rpc.ankr.com/solana_devnet'' sampleSignature]\<rparr>)"
proof -
  let ?c = "Connection ''https://rpc.ankr.com/solana_devnet''"
  let ?g = "sampleSignature"
  let ?s2 = "\<lparr>cachedConnection = Some (Connection ''https://api.devnet.solana.com''),
        cachedEndpoint = Some ''https://api.devnet.solana.com'',
        trace =
          [GetParsedTransaction ''https://rpc.ankr.com/solana_devnet'' ?g,
           NewConnection ''https://api.devnet.solana.com'',
           GetSlot ''https://api.devnet.solana.com'',
           GetVersion ''https://api.devnet.solana.com'']\<rparr>"
  have thr: "getParsedTransaction flaky (trace warm) (endpointOf ?c) ?g = Throws"
    "getParsedTransaction offline (trace warm) (endpointOf ?c) ?g = Throws"
    "getParsedTransaction unknownTx (trace warm) (endpointOf ?c) ?g = Returns None"
    "trace warm = []"
    by (simp_all add: flaky_def unknownTx_def devnet_def offline_def warm_def)
  have sel: "getWorkingConnection flaky RPC_ENDPOINTS
          (warm\<lparr>cachedConnection := None, cachedEndpoint := None,
                trace := trace warm @ [GetParsedTransaction (endpointOf ?c) ?g]\<rparr>)
        = (Some (Connection ''https://api.devnet.solana.com''), ?s2)"
    by (simp add: getWorkingConnection_def probeCached_def warm_def RPC_ENDPOINTS_def
        flaky_def devnet_def offline_def Let_def issue_def)
  have nxt: "fetchLoop flaky RPC_ENDPOINTS ?c ?g (0 + 1) ?s2 =
      (Some sampleTx, issue (GetParsedTransaction (endpointOf ?c) ?g) ?s2)"
    by (rule fetchLoop_found) (simp_all add: maxRetries_def flaky_def devnet_def offline_def)
  from fetch_attempts_bounded [of flaky RPC_ENDPOINTS ?c ?g warm 0] thr(1)
  have "fetchLoop flaky RPC_ENDPOINTS ?c ?g 0 warm =
      (case getWorkingConnection flaky RPC_ENDPOINTS
                  (warm\<lparr>cachedConnection := None, cachedEndpoint := None,
                     trace := trace warm @ [GetParsedTransaction (endpointOf ?c) ?g]\<rparr>) of
             (None, s2) \<Rightarrow> (None, s2)
           | (Some newConnection, s2) \<Rightarrow> fetchLoop flaky RPC_ENDPOINTS ?c ?g (0 + 1) s2)"
    by simp
  with sel nxt have a: "fetchLoop flaky RPC_ENDPOINTS ?c ?g 0 warm =
      (Some sampleTx,
       \<lparr>cachedConnection = Some (Connection ''https://api.devnet.solana.com''),
        cachedEndpoint = Some ''https://api.devnet.solana.com'',
        trace =
          [GetParsedTransaction ''https://rpc.ankr.com/solana_devnet'' ?g,
           NewConnection ''https://api.devnet.solana.com'',
           GetSlot ''https://api.devnet.solana.com'',
           GetVersion ''https://api.devnet.solana.com'',
           GetParsedTransaction ''https://rpc.ankr.com/solana_devnet'' ?g]\<rparr>)"
    by (simp add: issue_def)
  from fetch_attempts_bounded [of offline RPC_ENDPOINTS ?c ?g warm 2] thr(2,4)
  have b: "fetchLoop offline RPC_ENDPOINTS ?c ?g 2 warm =
      (None, warm\<lparr>trace :=
         [GetParsedTransaction ''https://rpc.ankr.com/solana_devnet'' ?g]\<rparr>)"
    by simp
  have sel0: "getWorkingConnection offline RPC_ENDPOINTS
          (warm\<lparr>cachedConnection := None, cachedEndpoint := None,
                trace := trace warm @ [GetParsedTransaction (endpointOf ?c) ?g]\<rparr>)
        = (None, \<lparr>cachedConnection = None, cachedEndpoint = None,
             trace = GetParsedTransaction ''https://rpc.ankr.com/solana_devnet'' ?g
                  # concat (map probes RPC_ENDPOINTS)\<rparr>)"
    by (simp add: getWorkingConnection_def probeCached_def warm_def RPC_ENDPOINTS_def
        offline_def Let_def issue_def probes_def)
  from fetch_attempts_bounded [of offline RPC_ENDPOINTS ?c ?g warm 0] thr(2)
  have "fetchLoop offline RPC_ENDPOINTS ?c ?g 0 warm =
      (case getWorkingConnection offline RPC_ENDPOINTS
                  (warm\<lparr>cachedConnection := None, cachedEndpoint := None,
                     trace := trace warm @ [GetParsedTransaction (endpointOf ?c) ?g]\<rparr>) of
             (None, s2) \<Rightarrow> (None, s2)
           | (Some newConnection, s2) \<Rightarrow> fetchLoop offline RPC_ENDPOINTS ?c ?g (0 + 1) s2)"
    by simp
  with sel0 have c: "fetchLoop offline RPC_ENDPOINTS ?c ?g 0 warm =
      (None, \<lparr>cachedConnection = None, cachedEndpoint = None,
             trace = GetParsedTransaction ''https://rpc.ankr.com/solana_devnet'' ?g
                  # concat (map probes RPC_ENDPOINTS)\<rparr>)"
    by simp
  from fetch_attempts_bounded [of unknownTx RPC_ENDPOINTS ?c ?g warm 0] thr(3,4)
  have d: "fetchLoop unknownTx RPC_ENDPOINTS ?c ?g 0 warm =
      fetchLoop unknownTx RPC_ENDPOINTS ?c ?g 1
        (warm\<lparr>trace :=
           [GetParsedTransaction ''https://rpc.ankr.com/solana_devnet'' ?g]\<rparr>)"
    by simp
  from thr a b c d show ?thesis by simp
qed

section \<open>Properties of the ledger\<close>

lemma recordPayment_included:
  "merchant \<in> set (accountKeys tx) \<Longrightarrow>
   \<exists>receipt img.
     recordPayment env merchant g item tx (db, s) =
       (StatusOk (cachedEndpoint s) img,
        db\<lparr>transactions := transactions db @ [receipt],
           totalSales := plusPrice (totalSales db) (price item),
           nftReceiptsIssued := nftReceiptsIssued db + 1\<rparr>,
        s\<lparr>trace := trace s @ [GenerateImage (name item)]\<rparr>)
     \<and> buyer receipt = hd (accountKeys tx) \<and> product_name receipt = name item
     \<and> amount receipt = price item \<and> signature receipt = g"
  by (cases "accountKeys tx") (auto simp: recordPayment_def Let_def issue_def)

lemma recordPayment_absent:
  "merchant \<notin> set (accountKeys tx) \<Longrightarrow>
   recordPayment env merchant g item tx (db, s) = (TransactionNotValid, db, s)"
  by (simp add: recordPayment_def)

lemma confirm_POST_fetched:
  "g \<noteq> [] \<Longrightarrow> getWorkingConnection env eps s = (Some c, s1) \<Longrightarrow>
   fetchLoop env eps c g 0 s1 = (Some tx, s2) \<Longrightarrow>
   confirm_POST env eps merchant
     (Some \<lparr>confirm_signature = Some g, confirm_product = Some item\<rparr>) (db, s)
   = recordPayment env merchant g item tx (db, s2)"
  by (simp add: confirm_POST_def)

text \<open>
  Claim C3. Take a confirm-payment request with a signature and a product, for which
  the selector gave a connection and the fetch loop found the transaction \<open>tx\<close>. If the
  merchant wallet is among the account keys of \<open>tx\<close>, the response is the success
  response, one receipt is appended that carries the price, the signature, the product
  name and the first account key, the total grows by the price and the receipt counter by
  one. If it is not, the response is \<open>TransactionNotValid\<close> with status 400 and the
  ledger is the one before. So the ledger changes exactly when the merchant is named, and
  \<^verbatim>\<open>meta.err\<close> of the transaction plays no part.
\<close>

theorem confirmation_requires_merchant:
  "g \<noteq> [] \<and> getWorkingConnection env eps s = (Some c, s1)
     \<and> fetchLoop env eps c g 0 s1 = (Some tx, s2) \<longrightarrow>
   (merchant \<in> set (accountKeys tx) \<longrightarrow>
      (\<exists>receipt img.
         confirm_POST env eps merchant
           (Some \<lparr>confirm_signature = Some g, confirm_product = Some item\<rparr>) (db, s)
         = (StatusOk (cachedEndpoint s2) img,
            db\<lparr>transactions := transactions db @ [receipt],
               totalSales := plusPrice (totalSales db) (price item),
               nftReceiptsIssued := nftReceiptsIssued db + 1\<rparr>,
            s2\<lparr>trace := trace s2 @ [GenerateImage (name item)]\<rparr>)
         \<and> confirm_status (StatusOk (cachedEndpoint s2) img) = 200
         \<and> buyer receipt = hd (accountKeys tx) \<and> product_name receipt = name item
         \<and> amount receipt = price item \<and> signature receipt = g))
   \<and> (merchant \<in> set (accountKeys tx) \<and> totalSales db = Num t \<and> price item = Price x \<longrightarrow>
        totalSales (fst (snd (confirm_POST env eps merchant
           (Some \<lparr>confirm_signature = Some g, confirm_product = Some item\<rparr>) (db, s))))
        = Num (t + x))
   \<and> (merchant \<notin> set (accountKeys tx) \<longrightarrow>
        confirm_POST env eps merchant
          (Some \<lparr>confirm_signature = Some g, confirm_product = Some item\<rparr>) (db, s)
        = (TransactionNotValid, db, s2)
        \<and> confirm_status TransactionNotValid = 400)
   \<and> ((fst (snd (confirm_POST env eps merchant
           (Some \<lparr>confirm_signature = Some g, confirm_product = Some item\<rparr>) (db, s))) \<noteq> db)
        = (merchant \<in> set (accountKeys tx)))"
proof (intro impI)
  let ?body = "Some \<lparr>confirm_signature = Some g, confirm_product = Some item\<rparr>"
  assume "g \<noteq> [] \<and> getWorkingConnection env eps s = (Some c, s1)
     \<and> fetchLoop env eps c g 0 s1 = (Some tx, s2)"
  then have eq: "confirm_POST env eps merchant ?body (db, s)
      = recordPayment env merchant g item tx (db, s2)"
    by (simp add: confirm_POST_fetched)
  have inc: "\<exists>receipt img.
         confirm_POST env eps merchant ?body (db, s)
         = (StatusOk (cachedEndpoint s2) img,
            db\<lparr>transactions := transactions db @ [receipt],
               totalSales := plusPrice (totalSales db) (price item),
               nftReceiptsIssued := nftReceiptsIssued db + 1\<rparr>,
            s2\<lparr>trace := trace s2 @ [GenerateImage (name item)]\<rparr>)
         \<and> confirm_status (StatusOk (cachedEndpoint s2) img) = 200
         \<and> buyer receipt = hd (accountKeys tx) \<and> product_name receipt = name item
         \<and> amount receipt = price item \<and> signature receipt = g"
    if "merchant \<in> set (accountKeys tx)"
    using recordPayment_included [OF that, of env g item db s2] eq by auto
  have exc: "confirm_POST env eps merchant ?body (db, s) = (TransactionNotValid, db, s2)"
    if "merchant \<notin> set (accountKeys tx)"
    using recordPayment_absent [OF that] eq by simp
  have total: "totalSales (fst (snd (confirm_POST env eps merchant ?body (db, s)))) = Num (t + x)"
    if "merchant \<in> set (accountKeys tx)" "totalSales db = Num t" "price item = Price x"
    using inc [OF that(1)] that(2,3) by auto
  have changed: "(fst (snd (confirm_POST env eps merchant ?body (db, s))) \<noteq> db)
        = (merchant \<in> set (accountKeys tx))"
  proof (cases "merchant \<in> set (accountKeys tx)")
    case True
    from inc [OF True] obtain receipt where
      "transactions (fst (snd (confirm_POST env eps merchant ?body (db, s))))
         = transactions db @ [receipt]"
      by auto
    then have "fst (snd (confirm_POST env eps merchant ?body (db, s))) \<noteq> db"
      by auto
    with True show ?thesis by simp
  next
    case False
    with exc show ?thesis by simp
  qed
  from inc exc total changed
  show "(merchant \<in> set (accountKeys tx) \<longrightarrow>
      (\<exists>receipt img.
         confirm_POST env eps merchant ?body (db, s)
         = (StatusOk (cachedEndpoint s2) img,
            db\<lparr>transactions := transactions db @ [receipt],
               totalSales := plusPrice (totalSales db) (price item),
               nftReceiptsIssued := nftReceiptsIssued db + 1\<rparr>,
            s2\<lparr>trace := trace s2 @ [GenerateImage (name item)]\<rparr>)
         \<and> confirm_status (StatusOk (cachedEndpoint s2) img) = 200
         \<and> buyer receipt = hd (accountKeys tx) \<and> product_name receipt = name item
         \<and> amount receipt = price item \<and> signature receipt = g))
   \<and> (merchant \<in> set (accountKeys tx) \<and> totalSales db = Num t \<and> price item = Price x \<longrightarrow>
        totalSales (fst (snd (confirm_POST env eps merchant ?body (db, s)))) = Num (t + x))
   \<and> (merchant \<notin> set (accountKeys tx) \<longrightarrow>
        confirm_POST env eps merchant ?body (db, s) = (TransactionNotValid, db, s2)
        \<and> confirm_status TransactionNotValid = 400)
   \<and> ((fst (snd (confirm_POST env eps merchant ?body (db, s))) \<noteq> db)
        = (merchant \<in> set (accountKeys tx)))"
    by simp
qed

lemma devnet_selects:
  "getWorkingConnection devnet RPC_ENDPOINTS idle =
     (Some (Connection ''https://api.devnet.solana.com''), connected)"
  "getWorkingConnection foreign RPC_ENDPOINTS idle =
     (Some (Connection ''https://api.devnet.solana.com''), connected)"
  by (simp_all add: getWorkingConnection_def probeCached_def idle_def RPC_ENDPOINTS_def
      devnet_def foreign_def offline_def Let_def issue_def connected_def)

lemma devnet_fetches:
  "fetchLoop devnet RPC_ENDPOINTS (Connection ''https://api.devnet.solana.com'')
     sampleSignature 0 connected =
     (Some sampleTx,
      connected\<lparr>trace := trace connected @
        [GetParsedTransaction ''https://api.devnet.solana.com'' sampleSignature]\<rparr>)"
  by (subst fetchLoop.simps) (simp add: maxRetries_def devnet_def offline_def issue_def)

lemma foreign_fetches:
  "fetchLoop foreign RPC_ENDPOINTS (Connection ''https://api.devnet.solana.com'')
     sampleSignature 0 connected =
     (Some foreignTx,
      connected\<lparr>trace := trace connected @
        [GetParsedTransaction ''https://api.devnet.solana.com'' sampleSignature]\<rparr>)"
  by (subst fetchLoop.simps)
     (simp add: maxRetries_def foreign_def devnet_def offline_def issue_def)

theorem confirmation_requires_merchant_witness:
  "sampleSignature \<noteq> []
   \<and> getWorkingConnection devnet RPC_ENDPOINTS idle =
       (Some (Connection ''https://api.devnet.solana.com''), connected)
   \<and> fetchLoop devnet RPC_ENDPOINTS (Connection ''https://api.devnet.solana.com'')
       sampleSignature 0 connected =
       (Some sampleTx,
        connected\<lparr>trace := trace connected @
          [GetParsedTransaction ''https://api.devnet.solana.com'' sampleSignature]\<rparr>)
   \<and> MERCHANT_WALLET \<in> set (accountKeys sampleTx)
   \<and> totalSales (fst (snd (confirm_POST devnet RPC_ENDPOINTS MERCHANT_WALLET
         (Some \<lparr>confirm_signature = Some sampleSignature, confirm_product = Some widget\<rparr>)
         (db_initial, idle)))) = Num 12
   \<and> fetchLoop foreign RPC_ENDPOINTS (Connection ''https://api.devnet.solana.com'')
       sampleSignature 0 connected =
       (Some foreignTx,
        connected\<lparr>trace := trace connected @
          [GetParsedTransaction ''https://api.devnet.solana.com'' sampleSignature]\<rparr>)
   \<and> MERCHANT_WALLET \<notin> set (accountKeys foreignTx) \<and> \<not> metaErr foreignTx
   \<and> confirm_POST foreign RPC_ENDPOINTS MERCHANT_WALLET
         (Some \<lparr>confirm_signature = Some sampleSignature, confirm_product = Some widget\<rparr>)
         (db_initial, idle)
       = (TransactionNotValid, db_initial,
          connected\<lparr>trace := trace connected @
            [GetParsedTransaction ''https://api.devnet.solana.com'' sampleSignature]\<rparr>)"
proof -
  have g: "sampleSignature \<noteq> []" by (simp add: sampleSignature_def codeUnits_def)
  have m: "MERCHANT_WALLET \<in> set (accountKeys sampleTx)" by (simp add: sampleTx_def)
  have f: "MERCHANT_WALLET \<notin> set (accountKeys foreignTx)" "\<not> metaErr foreignTx"
    by (simp_all add: foreignTx_def MERCHANT_WALLET_def buyerWallet_def)
  have t0: "totalSales db_initial = Num 0" "price widget = Price 12"
    by (simp_all add: db_initial_def widget_def)
  from confirmation_requires_merchant [of sampleSignature devnet RPC_ENDPOINTS idle
      "Connection ''https://api.devnet.solana.com''" connected sampleTx _ MERCHANT_WALLET
      widget db_initial 0 12]
    g devnet_selects(1) devnet_fetches m t0
  have a: "totalSales (fst (snd (confirm_POST devnet RPC_ENDPOINTS MERCHANT_WALLET
         (Some \<lparr>confirm_signature = Some sampleSignature, confirm_product = Some widget\<rparr>)
         (db_initial, idle)))) = Num 12"
    by simp
  from confirmation_requires_merchant [of sampleSignature foreign RPC_ENDPOINTS idle
      "Connection ''https://api.devnet.solana.com''" connected foreignTx _ MERCHANT_WALLET
      widget db_initial 0 12]
    g devnet_selects(2) foreign_fetches f
  have b: "confirm_POST foreign RPC_ENDPOINTS MERCHANT_WALLET
         (Some \<lparr>confirm_signature = Some sampleSignature, confirm_product = Some widget\<rparr>)
         (db_initial, idle)
       = (TransactionNotValid, db_initial,
          connected\<lparr>trace := trace connected @
            [GetParsedTransaction ''https://api.devnet.solana.com'' sampleSignature]\<rparr>)"
    by simp
  from g devnet_selects(1) devnet_fetches m a foreign_fetches f b show ?thesis by simp
qed

lemma devnet_records:
  "fst (snd (confirm_POST devnet RPC_ENDPOINTS MERCHANT_WALLET
      (Some \<lparr>confirm_signature = Some sampleSignature, confirm_product = Some item\<rparr>)
      (db_initial, idle)))
   = \<lparr>transactions = [receiptFor (price item)\<lparr>product_name := name item\<rparr>],
      totalSales = plusPrice (Num 0) (price item), nftReceiptsIssued = 1\<rparr>"
  "fst (confirm_POST devnet RPC_ENDPOINTS MERCHANT_WALLET
      (Some \<lparr>confirm_signature = Some sampleSignature, confirm_product = Some item\<rparr>)
      (db_initial, idle))
   = StatusOk (Some ''https://api.devnet.solana.com'') True"
proof -
  have g: "sampleSignature \<noteq> []" by (simp add: sampleSignature_def codeUnits_def)
  have eq: "confirm_POST devnet RPC_ENDPOINTS MERCHANT_WALLET
      (Some \<lparr>confirm_signature = Some sampleSignature, confirm_product = Some item\<rparr>)
      (db_initial, idle)
    = recordPayment devnet MERCHANT_WALLET sampleSignature item sampleTx
        (db_initial, connected\<lparr>trace := trace connected @
          [GetParsedTransaction ''https://api.devnet.solana.com'' sampleSignature]\<rparr>)"
    by (rule confirm_POST_fetched [OF g devnet_selects(1) devnet_fetches])
  show "fst (snd (confirm_POST devnet RPC_ENDPOINTS MERCHANT_WALLET
      (Some \<lparr>confirm_signature = Some sampleSignature, confirm_product = Some item\<rparr>)
      (db_initial, idle)))
   = \<lparr>transactions = [receiptFor (price item)\<lparr>product_name := name item\<rparr>],
      totalSales = plusPrice (Num 0) (price item), nftReceiptsIssued = 1\<rparr>"
    unfolding eq
    by (simp add: recordPayment_def sampleTx_def Let_def issue_def devnet_def offline_def
        db_initial_def receiptFor_def connected_def)
  show "fst (confirm_POST devnet RPC_ENDPOINTS MERCHANT_WALLET
      (Some \<lparr>confirm_signature = Some sampleSignature, confirm_product = Some item\<rparr>)
      (db_initial, idle))
   = StatusOk (Some ''https://api.devnet.solana.com'') True"
    unfolding eq
    by (simp add: recordPayment_def sampleTx_def Let_def issue_def devnet_def offline_def
        connected_def truthy_def)
qed

text \<open>
  Claim C7 fails in the confirm-payment route, which never looks at the price. For a
  payment to the merchant the handler answers 200 and records a receipt when the price of
  the product is zero, when it is negative (the total goes down) and when it is missing
  (the total becomes \<^verbatim>\<open>NaN\<close>).
\<close>

theorem confirm_payment_ignores_price:
  "confirm_status (fst (confirm_POST devnet RPC_ENDPOINTS MERCHANT_WALLET
      (Some \<lparr>confirm_signature = Some sampleSignature, confirm_product = Some freebie\<rparr>)
      (db_initial, idle))) = 200
   \<and> fst (snd (confirm_POST devnet RPC_ENDPOINTS MERCHANT_WALLET
      (Some \<lparr>confirm_signature = Some sampleSignature, confirm_product = Some freebie\<rparr>)
      (db_initial, idle)))
     = \<lparr>transactions = [receiptFor (Price 0)], totalSales = Num 0, nftReceiptsIssued = 1\<rparr>
   \<and> confirm_status (fst (confirm_POST devnet RPC_ENDPOINTS MERCHANT_WALLET
      (Some \<lparr>confirm_signature = Some sampleSignature, confirm_product = Some refund\<rparr>)
      (db_initial, idle))) = 200
   \<and> fst (snd (confirm_POST devnet RPC_ENDPOINTS MERCHANT_WALLET
      (Some \<lparr>confirm_signature = Some sampleSignature, confirm_product = Some refund\<rparr>)
      (db_initial, idle)))
     = \<lparr>transactions = [receiptFor (Price (- 5))], totalSales = Num (- 5),
        nftReceiptsIssued = 1\<rparr>
   \<and> confirm_status (fst (confirm_POST devnet RPC_ENDPOINTS MERCHANT_WALLET
      (Some \<lparr>confirm_signature = Some sampleSignature, confirm_product = Some unpriced\<rparr>)
      (db_initial, idle))) = 200
   \<and> fst (snd (confirm_POST devnet RPC_ENDPOINTS MERCHANT_WALLET
      (Some \<lparr>confirm_signature = Some sampleSignature, confirm_product = Some unpriced\<rparr>)
      (db_initial, idle)))
     = \<lparr>transactions = [receiptFor NoPrice], totalSales = NaN, nftReceiptsIssued = 1\<rparr>"
  by (simp add: devnet_records freebie_def refund_def unpriced_def receiptFor_def)

text \<open>What a confirm-payment request can do to the ledger.\<close>

lemma recordPayment_ledger:
  "fst (snd (recordPayment env merchant g item tx (db, s))) = db
   \<or> (\<exists>receipt. fst (snd (recordPayment env merchant g item tx (db, s))) =
         db\<lparr>transactions := transactions db @ [receipt],
            totalSales := plusPrice (totalSales db) (amount receipt),
            nftReceiptsIssued := nftReceiptsIssued db + 1\<rparr>
        \<and> amount receipt = price item)"
proof (cases "merchant \<in> set (accountKeys tx)")
  case True
  from recordPayment_included [OF True, of env g item db s] obtain receipt where
    "fst (snd (recordPayment env merchant g item tx (db, s))) =
         db\<lparr>transactions := transactions db @ [receipt],
            totalSales := plusPrice (totalSales db) (price item),
            nftReceiptsIssued := nftReceiptsIssued db + 1\<rparr>"
    "amount receipt = price item"
    by auto
  then show ?thesis
    by (intro disjI2 exI [of _ receipt]) simp
next
  case False
  then show ?thesis by (simp add: recordPayment_absent)
qed

lemma confirm_POST_ledger:
  "fst (snd (confirm_POST env eps merchant body (db, s))) = db
   \<or> (\<exists>receipt b item. fst (snd (confirm_POST env eps merchant body (db, s))) =
         db\<lparr>transactions := transactions db @ [receipt],
            totalSales := plusPrice (totalSales db) (amount receipt),
            nftReceiptsIssued := nftReceiptsIssued db + 1\<rparr>
        \<and> body = Some b \<and> confirm_product b = Some item \<and> amount receipt = price item)"
proof (cases body)
  case None
  then show ?thesis by (simp add: confirm_POST_def)
next
  case (Some b)
  show ?thesis
  proof (cases "confirm_signature b")
    case None
    with Some show ?thesis by (simp add: confirm_POST_def)
  next
    case sg: (Some g)
    show ?thesis
    proof (cases "confirm_product b")
      case None
      with Some sg show ?thesis by (simp add: confirm_POST_def)
    next
      case pr: (Some item)
      show ?thesis
      proof (cases "g = []")
        case True
        with Some sg pr show ?thesis by (simp add: confirm_POST_def)
      next
        case False
        obtain nc s1 where sel: "getWorkingConnection env eps s = (nc, s1)"
          by (cases "getWorkingConnection env eps s")
        show ?thesis
        proof (cases nc)
          case None
          with Some sg pr False sel show ?thesis by (simp add: confirm_POST_def)
        next
          case c: (Some c)
          obtain r s2 where lp: "fetchLoop env eps c g 0 s1 = (r, s2)"
            by (cases "fetchLoop env eps c g 0 s1")
          show ?thesis
          proof (cases r)
            case None
            with Some sg pr False sel c lp show ?thesis by (simp add: confirm_POST_def)
          next
            case tx: (Some tx)
            with Some sg pr False sel c lp
            have "confirm_POST env eps merchant body (db, s)
                = recordPayment env merchant g item tx (db, s2)"
              by (simp add: confirm_POST_def)
            with recordPayment_ledger [of env merchant g item tx db s2] Some pr show ?thesis
              by auto
          qed
        qed
      qed
    qed
  qed
qed

lemma getTx_GET_ledger:
  "fst (snd (getTx_GET env eps param (db, s))) = db"
  by (simp add: getTx_GET_def Let_def split: option.splits prod.splits)

lemma handle_ledger:
  "shared_db (snd (handle env eps merchant req srv)) = shared_db srv
   \<or> (\<exists>receipt b item. shared_db (snd (handle env eps merchant req srv)) =
         (shared_db srv)\<lparr>transactions := transactions (shared_db srv) @ [receipt],
            totalSales := plusPrice (totalSales (shared_db srv)) (amount receipt),
            nftReceiptsIssued := nftReceiptsIssued (shared_db srv) + 1\<rparr>
        \<and> req = ConfirmPayment (Some b) \<and> confirm_product b = Some item
        \<and> amount receipt = price item)"
proof (cases req)
  case (InitiatePayment body)
  then show ?thesis by (simp split: prod.splits)
next
  case HealthCheck
  then show ?thesis by (simp split: prod.splits)
next
  case (ConfirmPayment body)
  obtain r db' s' where
    run: "confirm_POST env eps merchant body (shared_db srv, confirmRoute srv) = (r, db', s')"
    by (cases "confirm_POST env eps merchant body (shared_db srv, confirmRoute srv)")
  with ConfirmPayment have db: "shared_db (snd (handle env eps merchant req srv)) = db'"
    by simp
  from confirm_POST_ledger [of env eps merchant body "shared_db srv" "confirmRoute srv"] run
  have "db' = shared_db srv
   \<or> (\<exists>receipt b item. db' =
         (shared_db srv)\<lparr>transactions := transactions (shared_db srv) @ [receipt],
            totalSales := plusPrice (totalSales (shared_db srv)) (amount receipt),
            nftReceiptsIssued := nftReceiptsIssued (shared_db srv) + 1\<rparr>
        \<and> body = Some b \<and> confirm_product b = Some item \<and> amount receipt = price item)"
    by simp
  with ConfirmPayment show ?thesis
    unfolding db by blast
next
  case (GetTransaction param)
  with getTx_GET_ledger [of env eps param "shared_db srv" "getTxRoute srv"]
  show ?thesis by (auto split: prod.splits)
next
  case Dashboard
  then show ?thesis by (simp add: dashboard_GET_def)
qed

lemma strictEq_iff: "strictEq a b \<longleftrightarrow> (\<exists>t. a = Num t \<and> b = Num t)"
  by (cases a; cases b) auto

lemma handle_inv:
  assumes "priced req" and "ledger_inv (shared_db srv)"
  shows "ledger_inv (shared_db (snd (handle env eps merchant req srv)))"
proof -
  from assms(2) obtain t where
    t: "totalSales (shared_db srv) = Num t"
       "foldl plusPrice (Num 0) (map amount (transactions (shared_db srv))) = Num t"
    and n: "nftReceiptsIssued (shared_db srv) = length (transactions (shared_db srv))"
    by (auto simp: ledger_inv_def strictEq_iff)
  from handle_ledger [of env eps merchant req srv] show ?thesis
  proof
    assume "shared_db (snd (handle env eps merchant req srv)) = shared_db srv"
    with assms(2) show ?thesis by simp
  next
    assume "\<exists>receipt b item. shared_db (snd (handle env eps merchant req srv)) =
         (shared_db srv)\<lparr>transactions := transactions (shared_db srv) @ [receipt],
            totalSales := plusPrice (totalSales (shared_db srv)) (amount receipt),
            nftReceiptsIssued := nftReceiptsIssued (shared_db srv) + 1\<rparr>
        \<and> req = ConfirmPayment (Some b) \<and> confirm_product b = Some item
        \<and> amount receipt = price item"
    then obtain receipt b item where
      db': "shared_db (snd (handle env eps merchant req srv)) =
         (shared_db srv)\<lparr>transactions := transactions (shared_db srv) @ [receipt],
            totalSales := plusPrice (totalSales (shared_db srv)) (amount receipt),
            nftReceiptsIssued := nftReceiptsIssued (shared_db srv) + 1\<rparr>"
      and req: "req = ConfirmPayment (Some b)" "confirm_product b = Some item"
      and am: "amount receipt = price item"
      by blast
    from assms(1) req am obtain p where p: "amount receipt = Price p"
      by (cases "price item") auto
    show ?thesis
      unfolding db' by (simp add: ledger_inv_def t n p)
  qed
qed

lemma serve_inv:
  "list_all priced reqs \<Longrightarrow> ledger_inv (shared_db srv) \<Longrightarrow>
   ledger_inv (shared_db (serve env eps merchant reqs srv))"
  unfolding serve_def
  by (induction reqs arbitrary: srv) (simp_all add: handle_inv)

lemma unpriced_request_run:
  "handle devnet RPC_ENDPOINTS MERCHANT_WALLET
     (ConfirmPayment
        (Some \<lparr>confirm_signature = Some sampleSignature, confirm_product = Some item\<rparr>))
     server_initial
   = (ConfirmResponse (StatusOk (Some ''https://api.devnet.solana.com'') True),
      server_initial
        \<lparr>shared_db :=
           \<lparr>transactions = [receiptFor (price item)\<lparr>product_name := name item\<rparr>],
            totalSales = plusPrice (Num 0) (price item), nftReceiptsIssued = 1\<rparr>,
         confirmRoute :=
           snd (snd (confirm_POST devnet RPC_ENDPOINTS MERCHANT_WALLET
             (Some \<lparr>confirm_signature = Some sampleSignature, confirm_product = Some item\<rparr>)
             (db_initial, idle)))\<rparr>)"
  using devnet_records [of item]
  by (simp add: server_initial_def case_prod_unfold)

text \<open>
  Claim C9 fails on a confirm-payment request without a price. From the initial ledger,
  which satisfies the invariant, the confirm-payment route answers 200, appends a receipt
  whose amount is \<^verbatim>\<open>undefined\<close> and leaves \<^verbatim>\<open>NaN\<close> as the total. The sum of the amounts
  is \<^verbatim>\<open>NaN\<close> as well, and \<^verbatim>\<open>NaN\<close> equals nothing: the total is not the sum of the
  amounts any more.
\<close>

theorem unpriced_receipt_breaks_ledger:
  "ledger_inv (shared_db server_initial)
   \<and> fst (handle devnet RPC_ENDPOINTS MERCHANT_WALLET
        (ConfirmPayment
           (Some \<lparr>confirm_signature = Some sampleSignature, confirm_product = Some unpriced\<rparr>))
        server_initial)
     = ConfirmResponse (StatusOk (Some ''https://api.devnet.solana.com'') True)
   \<and> shared_db (snd (handle devnet RPC_ENDPOINTS MERCHANT_WALLET
        (ConfirmPayment
           (Some \<lparr>confirm_signature = Some sampleSignature, confirm_product = Some unpriced\<rparr>))
        server_initial))
     = \<lparr>transactions = [receiptFor NoPrice], totalSales = NaN, nftReceiptsIssued = 1\<rparr>
   \<and> foldl plusPrice (Num 0) (map amount [receiptFor NoPrice]) = NaN
   \<and> \<not> strictEq NaN NaN
   \<and> \<not> ledger_inv (shared_db (snd (handle devnet RPC_ENDPOINTS MERCHANT_WALLET
        (ConfirmPayment
           (Some \<lparr>confirm_signature = Some sampleSignature, confirm_product = Some unpriced\<rparr>))
        server_initial)))"
  unfolding unpriced_request_run
  by (simp add: server_initial_def ledger_inv_def db_initial_def unpriced_def receiptFor_def)

text \<open>
  For requests with a numeric price the ledger is kept. A request is \<open>priced\<close>
  unless it asks to confirm a product that has no numeric price. The invariant
  holds of the initial ledger, every priced request keeps it, so it holds after any list
  of priced requests. Whatever the request, the records present before it are a prefix of
  the records after it, so none is changed or removed, and the dashboard request leaves
  the whole server state as it was.
\<close>

theorem priced_requests_keep_ledger:
  "ledger_inv db_initial
   \<and> (priced req \<and> ledger_inv (shared_db srv) \<longrightarrow>
        ledger_inv (shared_db (snd (handle env eps merchant req srv))))
   \<and> prefix (transactions (shared_db srv))
        (transactions (shared_db (snd (handle env eps merchant req srv))))
   \<and> snd (handle env eps merchant Dashboard srv) = srv
   \<and> (list_all priced reqs \<longrightarrow>
        ledger_inv (shared_db (serve env eps merchant reqs server_initial)))"
proof (intro conjI impI)
  show i: "ledger_inv db_initial"
    by (simp add: ledger_inv_def db_initial_def)
  show "ledger_inv (shared_db (snd (handle env eps merchant req srv)))"
    if "priced req \<and> ledger_inv (shared_db srv)"
    using that by (simp add: handle_inv)
  from handle_ledger [of env eps merchant req srv]
  show "prefix (transactions (shared_db srv))
        (transactions (shared_db (snd (handle env eps merchant req srv))))"
    by auto
  show "snd (handle env eps merchant Dashboard srv) = srv"
    by (simp add: dashboard_GET_def)
  from i show "ledger_inv (shared_db (serve env eps merchant reqs server_initial))"
    if "list_all priced reqs"
    using that by (intro serve_inv) (simp_all add: server_initial_def)
qed

theorem priced_requests_keep_ledger_witness:
  "ledger_inv (shared_db server_initial)
   \<and> priced (ConfirmPayment
        (Some \<lparr>confirm_signature = Some sampleSignature, confirm_product = Some widget\<rparr>))
   \<and> shared_db (snd (handle devnet RPC_ENDPOINTS MERCHANT_WALLET
        (ConfirmPayment
           (Some \<lparr>confirm_signature = Some sampleSignature, confirm_product = Some widget\<rparr>))
        server_initial))
     = \<lparr>transactions = [receiptFor (Price 12)], totalSales = Num 12, nftReceiptsIssued = 1\<rparr>
   \<and> ledger_inv (shared_db (snd (handle devnet RPC_ENDPOINTS MERCHANT_WALLET
        (ConfirmPayment
           (Some \<lparr>confirm_signature = Some sampleSignature, confirm_product = Some widget\<rparr>))
        server_initial)))"
proof -
  have i: "ledger_inv (shared_db server_initial)"
    by (simp add: server_initial_def ledger_inv_def db_initial_def)
  have p: "priced (ConfirmPayment
        (Some \<lparr>confirm_signature = Some sampleSignature, confirm_product = Some widget\<rparr>))"
    by (simp add: widget_def)
  have "shared_db (snd (handle devnet RPC_ENDPOINTS MERCHANT_WALLET
        (ConfirmPayment
           (Some \<lparr>confirm_signature = Some sampleSignature, confirm_product = Some widget\<rparr>))
        server_initial))
     = \<lparr>transactions = [receiptFor (Price 12)], totalSales = Num 12, nftReceiptsIssued = 1\<rparr>"
    using devnet_records(1) [of widget]
    by (simp add: server_initial_def widget_def receiptFor_def case_prod_unfold)
  with i p priced_requests_keep_ledger [of
      "ConfirmPayment
           (Some \<lparr>confirm_signature = Some sampleSignature, confirm_product = Some widget\<rparr>)"
      server_initial devnet RPC_ENDPOINTS MERCHANT_WALLET]
  show ?thesis by simp
qed

section \<open>Properties of the initiate-payment route\<close>

lemma unat_of_char: "unat (of_char c :: 16 word) = of_char c"
proof -
  have "(of_char c :: 16 word) = of_nat (of_char c)"
    by (simp add: of_nat_of_char)
  moreover have "(of_char c :: nat) < 2 ^ 16"
  proof -
    have "(of_char c :: nat) < 256" by (rule nat_of_char_less_256)
    also have "(256 :: nat) < 2 ^ 16" by simp
    finally show ?thesis .
  qed
  ultimately show ?thesis
    by (simp add: unat_of_nat del: of_nat_of_char)
qed

lemma asciiText_codeUnits: "asciiText (codeUnits t) = t"
  by (simp add: asciiText_def codeUnits_def comp_def unat_of_char map_idI)

lemma buyerWallet_text:
  "trim (codeUnits buyerWallet) = codeUnits buyerWallet"
  "codeUnits buyerWallet \<noteq> []"
  "readKey (codeUnits buyerWallet) = Some buyerWallet"
proof -
  show "trim (codeUnits buyerWallet) = codeUnits buyerWallet"
    by (simp add: trim_def isSpace_def codeUnits_def buyerWallet_def)
  show "codeUnits buyerWallet \<noteq> []"
    by (simp add: codeUnits_def buyerWallet_def)
  have "32 \<le> length (codeUnits buyerWallet) \<and> length (codeUnits buyerWallet) \<le> 44
        \<and> list_all (\<lambda>u. u < 0x80) (codeUnits buyerWallet)"
    by (simp add: codeUnits_def buyerWallet_def)
  then show "readKey (codeUnits buyerWallet) = Some buyerWallet"
    by (simp add: readKey_def asciiText_codeUnits)
qed

lemma getUsdcMint_default:
  "\<forall>x. m = Some x \<longrightarrow> parseKey env x = None \<Longrightarrow> getUsdcMint env m = hd POTENTIAL_USDC_MINTS"
  by (cases m) (auto simp: getUsdcMint_def truthy_def isValidSolanaAddress_def
      POTENTIAL_USDC_MINTS_def)

lemma pay_POST_mint:
  "getUsdcMint env m = getUsdcMint env m' \<Longrightarrow>
   pay_POST env eps merchant (Json (b\<lparr>pay_usdcMint := m\<rparr>)) s =
   pay_POST env eps merchant (Json (b\<lparr>pay_usdcMint := m'\<rparr>)) s"
  by (simp add: pay_POST_def split: option.splits price.splits account_field.splits)

lemma pay_POST_valid:
  assumes "trim account \<noteq> []" and "parseKey env (trim account) = Some user" and "0 < p"
  shows "pay_POST env eps merchant
           (Json \<lparr>pay_account = AccountString account,
                  pay_product = Some \<lparr>name = n, price = Price p\<rparr>, pay_usdcMint = m\<rparr>) s
         = buildTransaction env eps merchant user (getUsdcMint env m) p s"
proof -
  from assms(1) have "account \<noteq> []"
    by (auto simp: trim_def)
  with assms show ?thesis
    by (simp add: pay_POST_def isValidSolanaAddress_def)
qed

lemma buildTransaction_run:
  assumes sel: "getWorkingConnection env eps s = (Some c, s1)"
    and ru: "getAccount env (trace s1) (endpointOf c) (associatedTokenAddress env mintKey user)
               = ru" "ru \<noteq> OtherError"
    and rm: "getAccount env
               (trace s1 @ [GetAccount (endpointOf c) (associatedTokenAddress env mintKey user)])
               (endpointOf c) (associatedTokenAddress env mintKey merchant) = rm"
            "rm \<noteq> OtherError"
    and whole: "of_int \<lfloor>p * 10 ^ 6\<rfloor> = p * 10 ^ 6"
    and bh: "getLatestBlockhash env
               (trace s1 @ [GetAccount (endpointOf c) (associatedTokenAddress env mintKey user),
                            GetAccount (endpointOf c) (associatedTokenAddress env mintKey merchant)])
               (endpointOf c) = Returns (hash, height)"
  shows "buildTransaction env eps merchant user mintKey p s =
     (case serialize env
        \<lparr>instructions =
           (if ru = AccountFound then []
            else [CreateAssociatedTokenAccount user (associatedTokenAddress env mintKey user)
                    user mintKey]) @
           (if rm = AccountFound then []
            else [CreateAssociatedTokenAccount user (associatedTokenAddress env mintKey merchant)
                    merchant mintKey]) @
           [Transfer (associatedTokenAddress env mintKey user)
              (associatedTokenAddress env mintKey merchant) user (p * 10 ^ 6)],
         recentBlockhash = hash, feePayer = user\<rparr> of
        Throws \<Rightarrow> FailedToSerializeTransaction
      | Returns t \<Rightarrow>
          TransactionCreated t
            \<lparr>userAccount = associatedTokenAddress env mintKey user,
             merchantAccount = associatedTokenAddress env mintKey merchant,
             rawAmount = p * 10 ^ 6,
             userAccountExists = (ru = AccountFound),
             merchantAccountExists = (rm = AccountFound),
             blockhash = take 12 hash @ ''...'',
             lastValidBlockHeight = height,
             instructionCount =
               (if ru = AccountFound then 0 else 1) + (if rm = AccountFound then 0 else 1) + 1,
             usdcMint = mintKey,
             rpcEndpoint = cachedEndpoint s1\<rparr>,
      s1\<lparr>trace := trace s1 @
         [GetAccount (endpointOf c) (associatedTokenAddress env mintKey user),
          GetAccount (endpointOf c) (associatedTokenAddress env mintKey merchant),
          GetLatestBlockhash (endpointOf c)]\<rparr>)"
proof -
  let ?u = "associatedTokenAddress env mintKey user"
  let ?m = "associatedTokenAddress env mintKey merchant"
  let ?e = "endpointOf c"
  have tu: "tokenAccountExists env c ?u s1
              = (Returns (ru = AccountFound), s1\<lparr>trace := trace s1 @ [GetAccount ?e ?u]\<rparr>)"
    using ru by (cases ru) (simp_all add: tokenAccountExists_def issue_def)
  have tm: "tokenAccountExists env c ?m (s1\<lparr>trace := trace s1 @ [GetAccount ?e ?u]\<rparr>)
              = (Returns (rm = AccountFound),
                 s1\<lparr>trace := trace s1 @ [GetAccount ?e ?u, GetAccount ?e ?m]\<rparr>)"
    using rm by (cases rm) (simp_all add: tokenAccountExists_def issue_def)
  from whole show ?thesis
    unfolding buildTransaction_def sel
    by (simp add: tu tm bh Let_def issue_def split: outcome.splits)
qed

text \<open>
  Claim C10. Let the token identifier \<open>m\<close> of an initiate-payment request be absent, or
  a text that \<^verbatim>\<open>new PublicKey\<close> does not accept. Then \<^verbatim>\<open>getUsdcMint\<close> yields the first
  known mint, and the handler treats the request exactly as it treats the same request
  without the field: same response, same state, so nothing is rejected on account of the
  identifier. Let the request moreover name an account that is a key \<open>user\<close> and a positive
  price \<open>p\<close> with a whole amount of base units, let the selector return a connection, let
  the two holding accounts be looked up without an unexpected error and let the block
  hash be fetched. Then the transaction handed to \<^verbatim>\<open>serialize\<close> consists of the
  instructions that create the holding accounts not yet found, each for the first known
  mint, and of one transfer of \<open>p * 10\<^sup>6\<close> base units from the user's holding account to
  the merchant's, both derived from the first known mint; the response carries its
  serialized form and names that mint and those accounts.
\<close>

theorem default_mint_substituted:
  "(\<forall>x. m = Some x \<longrightarrow> parseKey env x = None) \<longrightarrow>
     getUsdcMint env m = ''4zMMC9srt5Ri5X14GAgXhaHii3GnPAEERYPJgZJDncDU''
     \<and> hd POTENTIAL_USDC_MINTS = ''4zMMC9srt5Ri5X14GAgXhaHii3GnPAEERYPJgZJDncDU''
     \<and> pay_POST env eps merchant (Json (b\<lparr>pay_usdcMint := m\<rparr>)) s =
       pay_POST env eps merchant (Json (b\<lparr>pay_usdcMint := None\<rparr>)) s
     \<and> (trim account \<noteq> [] \<and> parseKey env (trim account) = Some user \<and> 0 < p
        \<and> of_int \<lfloor>p * 10 ^ 6\<rfloor> = p * 10 ^ 6
        \<and> getWorkingConnection env eps s = (Some c, s1)
        \<and> getAccount env (trace s1) (endpointOf c)
             (associatedTokenAddress env (hd POTENTIAL_USDC_MINTS) user) = ru
        \<and> ru \<noteq> OtherError
        \<and> getAccount env
             (trace s1 @ [GetAccount (endpointOf c)
                            (associatedTokenAddress env (hd POTENTIAL_USDC_MINTS) user)])
             (endpointOf c) (associatedTokenAddress env (hd POTENTIAL_USDC_MINTS) merchant) = rm
        \<and> rm \<noteq> OtherError
        \<and> getLatestBlockhash env
             (trace s1 @ [GetAccount (endpointOf c)
                            (associatedTokenAddress env (hd POTENTIAL_USDC_MINTS) user),
                          GetAccount (endpointOf c)
                            (associatedTokenAddress env (hd POTENTIAL_USDC_MINTS) merchant)])
             (endpointOf c) = Returns (hash, height)
        \<longrightarrow>
          pay_POST env eps merchant
            (Json \<lparr>pay_account = AccountString account,
                   pay_product = Some \<lparr>name = n, price = Price p\<rparr>, pay_usdcMint = m\<rparr>) s
          = (case serialize env
               \<lparr>instructions =
                  (if ru = AccountFound then []
                   else [CreateAssociatedTokenAccount user
                           (associatedTokenAddress env (hd POTENTIAL_USDC_MINTS) user)
                           user (hd POTENTIAL_USDC_MINTS)]) @
                  (if rm = AccountFound then []
                   else [CreateAssociatedTokenAccount user
                           (associatedTokenAddress env (hd POTENTIAL_USDC_MINTS) merchant)
                           merchant (hd POTENTIAL_USDC_MINTS)]) @
                  [Transfer (associatedTokenAddress env (hd POTENTIAL_USDC_MINTS) user)
                     (associatedTokenAddress env (hd POTENTIAL_USDC_MINTS) merchant)
                     user (p * 10 ^ 6)],
                recentBlockhash = hash, feePayer = user\<rparr> of
               Throws \<Rightarrow> FailedToSerializeTransaction
             | Returns t \<Rightarrow>
                 TransactionCreated t
                   \<lparr>userAccount = associatedTokenAddress env (hd POTENTIAL_USDC_MINTS) user,
                    merchantAccount =
                      associatedTokenAddress env (hd POTENTIAL_USDC_MINTS) merchant,
                    rawAmount = p * 10 ^ 6,
                    userAccountExists = (ru = AccountFound),
                    merchantAccountExists = (rm = AccountFound),
                    blockhash = take 12 hash @ ''...'',
                    lastValidBlockHeight = height,
                    instructionCount =
                      (if ru = AccountFound then 0 else 1)
                        + (if rm = AccountFound then 0 else 1) + 1,
                    usdcMint = hd POTENTIAL_USDC_MINTS,
                    rpcEndpoint = cachedEndpoint s1\<rparr>,
             s1\<lparr>trace := trace s1 @
                [GetAccount (endpointOf c)
                   (associatedTokenAddress env (hd POTENTIAL_USDC_MINTS) user),
                 GetAccount (endpointOf c)
                   (associatedTokenAddress env (hd POTENTIAL_USDC_MINTS) merchant),
                 GetLatestBlockhash (endpointOf c)]\<rparr>))"
proof (intro impI conjI)
  assume h: "\<forall>x. m = Some x \<longrightarrow> parseKey env x = None"
  from getUsdcMint_default [OF h]
  show "getUsdcMint env m = ''4zMMC9srt5Ri5X14GAgXhaHii3GnPAEERYPJgZJDncDU''"
    by (simp add: POTENTIAL_USDC_MINTS_def)
  show "hd POTENTIAL_USDC_MINTS = ''4zMMC9srt5Ri5X14GAgXhaHii3GnPAEERYPJgZJDncDU''"
    by (simp add: POTENTIAL_USDC_MINTS_def)
  from getUsdcMint_default [OF h] getUsdcMint_default [of None env]
  show "pay_POST env eps merchant (Json (b\<lparr>pay_usdcMint := m\<rparr>)) s =
       pay_POST env eps merchant (Json (b\<lparr>pay_usdcMint := None\<rparr>)) s"
    by (intro pay_POST_mint) simp
  assume r: "trim account \<noteq> [] \<and> parseKey env (trim account) = Some user \<and> 0 < p
        \<and> of_int \<lfloor>p * 10 ^ 6\<rfloor> = p * 10 ^ 6
        \<and> getWorkingConnection env eps s = (Some c, s1)
        \<and> getAccount env (trace s1) (endpointOf c)
             (associatedTokenAddress env (hd POTENTIAL_USDC_MINTS) user) = ru
        \<and> ru \<noteq> OtherError
        \<and> getAccount env
             (trace s1 @ [GetAccount (endpointOf c)
                            (associatedTokenAddress env (hd POTENTIAL_USDC_MINTS) user)])
             (endpointOf c) (associatedTokenAddress env (hd POTENTIAL_USDC_MINTS) merchant) = rm
        \<and> rm \<noteq> OtherError
        \<and> getLatestBlockhash env
             (trace s1 @ [GetAccount (endpointOf c)
                            (associatedTokenAddress env (hd POTENTIAL_USDC_MINTS) user),
                          GetAccount (endpointOf c)
                            (associatedTokenAddress env (hd POTENTIAL_USDC_MINTS) merchant)])
             (endpointOf c) = Returns (hash, height)"
  then have ne: "trim account \<noteq> []"
    and v: "parseKey env (trim account) = Some user" and pos: "0 < p"
    by simp_all
  from r have run: "buildTransaction env eps merchant user (hd POTENTIAL_USDC_MINTS) p s =
     (case serialize env
        \<lparr>instructions =
           (if ru = AccountFound then []
            else [CreateAssociatedTokenAccount user
                    (associatedTokenAddress env (hd POTENTIAL_USDC_MINTS) user)
                    user (hd POTENTIAL_USDC_MINTS)]) @
           (if rm = AccountFound then []
            else [CreateAssociatedTokenAccount user
                    (associatedTokenAddress env (hd POTENTIAL_USDC_MINTS) merchant)
                    merchant (hd POTENTIAL_USDC_MINTS)]) @
           [Transfer (associatedTokenAddress env (hd POTENTIAL_USDC_MINTS) user)
              (associatedTokenAddress env (hd POTENTIAL_USDC_MINTS) merchant) user (p * 10 ^ 6)],
         recentBlockhash = hash, feePayer = user\<rparr> of
        Throws \<Rightarrow> FailedToSerializeTransaction
      | Returns t \<Rightarrow>
          TransactionCreated t
            \<lparr>userAccount = associatedTokenAddress env (hd POTENTIAL_USDC_MINTS) user,
             merchantAccount = associatedTokenAddress env (hd POTENTIAL_USDC_MINTS) merchant,
             rawAmount = p * 10 ^ 6,
             userAccountExists = (ru = AccountFound),
             merchantAccountExists = (rm = AccountFound),
             blockhash = take 12 hash @ ''...'',
             lastValidBlockHeight = height,
             instructionCount =
               (if ru = AccountFound then 0 else 1) + (if rm = AccountFound then 0 else 1) + 1,
             usdcMint = hd POTENTIAL_USDC_MINTS,
             rpcEndpoint = cachedEndpoint s1\<rparr>,
      s1\<lparr>trace := trace s1 @
         [GetAccount (endpointOf c) (associatedTokenAddress env (hd POTENTIAL_USDC_MINTS) user),
          GetAccount (endpointOf c)
            (associatedTokenAddress env (hd POTENTIAL_USDC_MINTS) merchant),
          GetLatestBlockhash (endpointOf c)]\<rparr>)"
    by (intro buildTransaction_run) simp_all
  from pay_POST_valid [OF ne v pos, of eps merchant n m s] getUsdcMint_default [OF h] run
  show "pay_POST env eps merchant
            (Json \<lparr>pay_account = AccountString account,
                   pay_product = Some \<lparr>name = n, price = Price p\<rparr>, pay_usdcMint = m\<rparr>) s
          = (case serialize env
               \<lparr>instructions =
                  (if ru = AccountFound then []
                   else [CreateAssociatedTokenAccount user
                           (associatedTokenAddress env (hd POTENTIAL_USDC_MINTS) user)
                           user (hd POTENTIAL_USDC_MINTS)]) @
                  (if rm = AccountFound then []
                   else [CreateAssociatedTokenAccount user
                           (associatedTokenAddress env (hd POTENTIAL_USDC_MINTS) merchant)
                           merchant (hd POTENTIAL_USDC_MINTS)]) @
                  [Transfer (associatedTokenAddress env (hd POTENTIAL_USDC_MINTS) user)
                     (associatedTokenAddress env (hd POTENTIAL_USDC_MINTS) merchant)
                     user (p * 10 ^ 6)],
                recentBlockhash = hash, feePayer = user\<rparr> of
               Throws \<Rightarrow> FailedToSerializeTransaction
             | Returns t \<Rightarrow>
                 TransactionCreated t
                   \<lparr>userAccount = associatedTokenAddress env (hd POTENTIAL_USDC_MINTS) user,
                    merchantAccount =
                      associatedTokenAddress env (hd POTENTIAL_USDC_MINTS) merchant,
                    rawAmount = p * 10 ^ 6,
                    userAccountExists = (ru = AccountFound),
                    merchantAccountExists = (rm = AccountFound),
                    blockhash = take 12 hash @ ''...'',
                    lastValidBlockHeight = height,
                    instructionCount =
                      (if ru = AccountFound then 0 else 1)
                        + (if rm = AccountFound then 0 else 1) + 1,
                    usdcMint = hd POTENTIAL_USDC_MINTS,
                    rpcEndpoint = cachedEndpoint s1\<rparr>,
             s1\<lparr>trace := trace s1 @
                [GetAccount (endpointOf c)
                   (associatedTokenAddress env (hd POTENTIAL_USDC_MINTS) user),
                 GetAccount (endpointOf c)
                   (associatedTokenAddress env (hd POTENTIAL_USDC_MINTS) merchant),
                 GetLatestBlockhash (endpointOf c)]\<rparr>)"
    by simp
qed

lemma decimal_12000000: "decimal 12000000 = ''12000000''"
  by (simp add: decimal.simps)

lemma newcomer_selects:
  "getWorkingConnection newcomer RPC_ENDPOINTS idle =
     (Some (Connection ''https://api.devnet.solana.com''), connected)"
  by (simp add: getWorkingConnection_def probeCached_def idle_def RPC_ENDPOINTS_def
      newcomer_def devnet_def offline_def Let_def issue_def connected_def)

theorem default_mint_substituted_witness:
  "parseKey devnet (codeUnits ''not-a-mint'') = None
   \<and> getUsdcMint devnet (Some (codeUnits ''not-a-mint''))
       = ''4zMMC9srt5Ri5X14GAgXhaHii3GnPAEERYPJgZJDncDU''
   \<and> pay_POST devnet RPC_ENDPOINTS MERCHANT_WALLET (Json badMintRequest) idle =
       pay_POST devnet RPC_ENDPOINTS MERCHANT_WALLET
         (Json (badMintRequest\<lparr>pay_usdcMint := None\<rparr>)) idle
   \<and> pay_POST devnet RPC_ENDPOINTS MERCHANT_WALLET (Json badMintRequest) idle =
       (TransactionCreated
          (''transfer(ata:7xKX:4zMM,ata:86xC:4zMM,7xKXtg2CW87d97TXJSDpbD5jBkheTqA83TZRuJosgAsU,''
             @ ''12000000)@EkSnNWid2cvwEVnVx9aBqawnmiCNiDgp3gUdkDPTKN1N/''
             @ ''7xKXtg2CW87d97TXJSDpbD5jBkheTqA83TZRuJosgAsU'')
          \<lparr>userAccount = ''ata:7xKX:4zMM'',
           merchantAccount = ''ata:86xC:4zMM'',
           rawAmount = 12000000,
           userAccountExists = True,
           merchantAccountExists = True,
           blockhash = ''EkSnNWid2cvw...'',
           lastValidBlockHeight = 1000,
           instructionCount = 1,
           usdcMint = ''4zMMC9srt5Ri5X14GAgXhaHii3GnPAEERYPJgZJDncDU'',
           rpcEndpoint = Some ''https://api.devnet.solana.com''\<rparr>,
        connected\<lparr>trace := trace connected @
          [GetAccount ''https://api.devnet.solana.com'' ''ata:7xKX:4zMM'',
           GetAccount ''https://api.devnet.solana.com'' ''ata:86xC:4zMM'',
           GetLatestBlockhash ''https://api.devnet.solana.com'']\<rparr>)
   \<and> pay_POST newcomer RPC_ENDPOINTS MERCHANT_WALLET
         (Json \<lparr>pay_account = AccountString (codeUnits buyerWallet),
                pay_product = Some widget, pay_usdcMint = None\<rparr>) idle =
       (TransactionCreated
          (''create(7xKXtg2CW87d97TXJSDpbD5jBkheTqA83TZRuJosgAsU,ata:7xKX:4zMM,''
             @ ''7xKXtg2CW87d97TXJSDpbD5jBkheTqA83TZRuJosgAsU,''
             @ ''4zMMC9srt5Ri5X14GAgXhaHii3GnPAEERYPJgZJDncDU)''
             @ ''create(7xKXtg2CW87d97TXJSDpbD5jBkheTqA83TZRuJosgAsU,ata:86xC:4zMM,''
             @ ''86xCnPeV69n6t3DnyGkfpPEX4kuT3t6eJ5iAbPGYATcp,''
             @ ''4zMMC9srt5Ri5X14GAgXhaHii3GnPAEERYPJgZJDncDU)''
             @ ''transfer(ata:7xKX:4zMM,ata:86xC:4zMM,7xKXtg2CW87d97TXJSDpbD5jBkheTqA83TZRuJosgAsU,''
             @ ''12000000)@EkSnNWid2cvwEVnVx9aBqawnmiCNiDgp3gUdkDPTKN1N/''
             @ ''7xKXtg2CW87d97TXJSDpbD5jBkheTqA83TZRuJosgAsU'')
          \<lparr>userAccount = ''ata:7xKX:4zMM'',
           merchantAccount = ''ata:86xC:4zMM'',
           rawAmount = 12000000,
           userAccountExists = False,
           merchantAccountExists = False,
           blockhash = ''EkSnNWid2cvw...'',
           lastValidBlockHeight = 1000,
           instructionCount = 3,
           usdcMint = ''4zMMC9srt5Ri5X14GAgXhaHii3GnPAEERYPJgZJDncDU'',
           rpcEndpoint = Some ''https://api.devnet.solana.com''\<rparr>,
        connected\<lparr>trace := trace connected @
          [GetAccount ''https://api.devnet.solana.com'' ''ata:7xKX:4zMM'',
           GetAccount ''https://api.devnet.solana.com'' ''ata:86xC:4zMM'',
           GetLatestBlockhash ''https://api.devnet.solana.com'']\<rparr>)"
proof -
  let ?e = "''https://api.devnet.solana.com''"
  have nk: "parseKey devnet (codeUnits ''not-a-mint'') = None"
    by (simp add: devnet_def offline_def readKey_def codeUnits_def)
  then have h: "\<forall>x. Some (codeUnits ''not-a-mint'') = Some x \<longrightarrow> parseKey devnet x = None"
    by simp
  have h': "\<forall>x. (None :: jsstring option) = Some x \<longrightarrow> parseKey newcomer x = None"
    by simp
  have b: "badMintRequest\<lparr>pay_usdcMint := Some (codeUnits ''not-a-mint'')\<rparr> = badMintRequest"
    "badMintRequest = \<lparr>pay_account = AccountString (codeUnits buyerWallet),
        pay_product = Some \<lparr>name = ''Widget'', price = Price 12\<rparr>,
        pay_usdcMint = Some (codeUnits ''not-a-mint'')\<rparr>"
    "widget = \<lparr>name = ''Widget'', price = Price 12\<rparr>"
    by (simp_all add: badMintRequest_def widget_def)
  have k: "trim (codeUnits buyerWallet) \<noteq> []"
    "parseKey devnet (trim (codeUnits buyerWallet)) = Some buyerWallet"
    "parseKey newcomer (trim (codeUnits buyerWallet)) = Some buyerWallet"
    by (simp_all add: buyerWallet_text devnet_def newcomer_def offline_def)
  have p: "(0::real) < 12" "of_int \<lfloor>12 * 10 ^ 6 :: real\<rfloor> = (12 * 10 ^ 6 :: real)"
    by simp_all
  have a: "hd POTENTIAL_USDC_MINTS = ''4zMMC9srt5Ri5X14GAgXhaHii3GnPAEERYPJgZJDncDU''"
    "associatedTokenAddress devnet ''4zMMC9srt5Ri5X14GAgXhaHii3GnPAEERYPJgZJDncDU'' buyerWallet
       = ''ata:7xKX:4zMM''"
    "associatedTokenAddress devnet ''4zMMC9srt5Ri5X14GAgXhaHii3GnPAEERYPJgZJDncDU''
       MERCHANT_WALLET = ''ata:86xC:4zMM''"
    "associatedTokenAddress newcomer ''4zMMC9srt5Ri5X14GAgXhaHii3GnPAEERYPJgZJDncDU'' buyerWallet
       = ''ata:7xKX:4zMM''"
    "associatedTokenAddress newcomer ''4zMMC9srt5Ri5X14GAgXhaHii3GnPAEERYPJgZJDncDU''
       MERCHANT_WALLET = ''ata:86xC:4zMM''"
    "endpointOf (Connection ?e) = ?e"
    by (simp_all add: POTENTIAL_USDC_MINTS_def devnet_def newcomer_def offline_def
        buyerWallet_def MERCHANT_WALLET_def)
  have d: "getAccount devnet h ?e x = AccountFound"
    "getAccount newcomer h ?e x = TokenAccountNotFoundError"
    "getLatestBlockhash devnet h ?e
       = Returns (''EkSnNWid2cvwEVnVx9aBqawnmiCNiDgp3gUdkDPTKN1N'', 1000)"
    "getLatestBlockhash newcomer h ?e
       = Returns (''EkSnNWid2cvwEVnVx9aBqawnmiCNiDgp3gUdkDPTKN1N'', 1000)"
    "serialize devnet t = Returns (renderTransaction t)"
    "serialize newcomer t = Returns (renderTransaction t)"
    for h x t
    by (simp_all add: devnet_def newcomer_def offline_def)
  note inst1 = default_mint_substituted [where m = "Some (codeUnits ''not-a-mint'')"
      and env = devnet and eps = RPC_ENDPOINTS and merchant = MERCHANT_WALLET
      and b = badMintRequest and s = idle and account = "codeUnits buyerWallet"
      and user = buyerWallet and p = 12 and c = "Connection ?e" and ?s1.0 = connected
      and ru = AccountFound and rm = AccountFound
      and hash = "''EkSnNWid2cvwEVnVx9aBqawnmiCNiDgp3gUdkDPTKN1N''" and height = 1000
      and n = "''Widget''"]
  from inst1 h
  have r1: "getUsdcMint devnet (Some (codeUnits ''not-a-mint''))
       = ''4zMMC9srt5Ri5X14GAgXhaHii3GnPAEERYPJgZJDncDU''"
    and r2: "pay_POST devnet RPC_ENDPOINTS MERCHANT_WALLET (Json badMintRequest) idle =
       pay_POST devnet RPC_ENDPOINTS MERCHANT_WALLET
         (Json (badMintRequest\<lparr>pay_usdcMint := None\<rparr>)) idle"
    by (simp_all add: b(1))
  have cn: "cachedEndpoint connected = Some ?e"
    by (simp add: connected_def)
  from inst1 [THEN mp, OF h, THEN conjunct2, THEN conjunct2, THEN conjunct2]
    k p a d devnet_selects(1)
  have r3: "pay_POST devnet RPC_ENDPOINTS MERCHANT_WALLET (Json badMintRequest) idle =
       (TransactionCreated
          (renderTransaction
             \<lparr>instructions =
                [Transfer ''ata:7xKX:4zMM'' ''ata:86xC:4zMM'' buyerWallet 12000000],
              recentBlockhash = ''EkSnNWid2cvwEVnVx9aBqawnmiCNiDgp3gUdkDPTKN1N'',
              feePayer = buyerWallet\<rparr>)
          \<lparr>userAccount = ''ata:7xKX:4zMM'',
           merchantAccount = ''ata:86xC:4zMM'',
           rawAmount = 12000000,
           userAccountExists = True,
           merchantAccountExists = True,
           blockhash = ''EkSnNWid2cvw...'',
           lastValidBlockHeight = 1000,
           instructionCount = 1,
           usdcMint = ''4zMMC9srt5Ri5X14GAgXhaHii3GnPAEERYPJgZJDncDU'',
           rpcEndpoint = Some ''https://api.devnet.solana.com''\<rparr>,
        connected\<lparr>trace := trace connected @
          [GetAccount ''https://api.devnet.solana.com'' ''ata:7xKX:4zMM'',
           GetAccount ''https://api.devnet.solana.com'' ''ata:86xC:4zMM'',
           GetLatestBlockhash ''https://api.devnet.solana.com'']\<rparr>)"
    by (simp add: b(2) cn)
  from default_mint_substituted [where m = None
      and env = newcomer and eps = RPC_ENDPOINTS and merchant = MERCHANT_WALLET
      and s = idle and account = "codeUnits buyerWallet"
      and user = buyerWallet and p = 12 and c = "Connection ?e" and ?s1.0 = connected
      and ru = TokenAccountNotFoundError and rm = TokenAccountNotFoundError
      and hash = "''EkSnNWid2cvwEVnVx9aBqawnmiCNiDgp3gUdkDPTKN1N''" and height = 1000
      and n = "''Widget''", THEN mp, OF h', THEN conjunct2, THEN conjunct2, THEN conjunct2]
    k p a d newcomer_selects
  have r4: "pay_POST newcomer RPC_ENDPOINTS MERCHANT_WALLET
         (Json \<lparr>pay_account = AccountString (codeUnits buyerWallet),
                pay_product = Some widget, pay_usdcMint = None\<rparr>) idle =
       (TransactionCreated
          (renderTransaction
             \<lparr>instructions =
                [CreateAssociatedTokenAccount buyerWallet ''ata:7xKX:4zMM'' buyerWallet
                   ''4zMMC9srt5Ri5X14GAgXhaHii3GnPAEERYPJgZJDncDU'',
                 CreateAssociatedTokenAccount buyerWallet ''ata:86xC:4zMM'' MERCHANT_WALLET
                   ''4zMMC9srt5Ri5X14GAgXhaHii3GnPAEERYPJgZJDncDU'',
                 Transfer ''ata:7xKX:4zMM'' ''ata:86xC:4zMM'' buyerWallet 12000000],
              recentBlockhash = ''EkSnNWid2cvwEVnVx9aBqawnmiCNiDgp3gUdkDPTKN1N'',
              feePayer = buyerWallet\<rparr>)
          \<lparr>userAccount = ''ata:7xKX:4zMM'',
           merchantAccount = ''ata:86xC:4zMM'',
           rawAmount = 12000000,
           userAccountExists = False,
           merchantAccountExists = False,
           blockhash = ''EkSnNWid2cvw...'',
           lastValidBlockHeight = 1000,
           instructionCount = 3,
           usdcMint = ''4zMMC9srt5Ri5X14GAgXhaHii3GnPAEERYPJgZJDncDU'',
           rpcEndpoint = Some ''https://api.devnet.solana.com''\<rparr>,
        connected\<lparr>trace := trace connected @
          [GetAccount ''https://api.devnet.solana.com'' ''ata:7xKX:4zMM'',
           GetAccount ''https://api.devnet.solana.com'' ''ata:86xC:4zMM'',
           GetLatestBlockhash ''https://api.devnet.solana.com'']\<rparr>)"
    by (simp add: b(3) cn)
  have rd: "renderTransaction
             \<lparr>instructions =
                [Transfer ''ata:7xKX:4zMM'' ''ata:86xC:4zMM'' buyerWallet 12000000],
              recentBlockhash = ''EkSnNWid2cvwEVnVx9aBqawnmiCNiDgp3gUdkDPTKN1N'',
              feePayer = buyerWallet\<rparr>
     = ''transfer(ata:7xKX:4zMM,ata:86xC:4zMM,7xKXtg2CW87d97TXJSDpbD5jBkheTqA83TZRuJosgAsU,''
             @ ''12000000)@EkSnNWid2cvwEVnVx9aBqawnmiCNiDgp3gUdkDPTKN1N/''
             @ ''7xKXtg2CW87d97TXJSDpbD5jBkheTqA83TZRuJosgAsU''"
    "renderTransaction
             \<lparr>instructions =
                [CreateAssociatedTokenAccount buyerWallet ''ata:7xKX:4zMM'' buyerWallet
                   ''4zMMC9srt5Ri5X14GAgXhaHii3GnPAEERYPJgZJDncDU'',
                 CreateAssociatedTokenAccount buyerWallet ''ata:86xC:4zMM'' MERCHANT_WALLET
                   ''4zMMC9srt5Ri5X14GAgXhaHii3GnPAEERYPJgZJDncDU'',
                 Transfer ''ata:7xKX:4zMM'' ''ata:86xC:4zMM'' buyerWallet 12000000],
              recentBlockhash = ''EkSnNWid2cvwEVnVx9aBqawnmiCNiDgp3gUdkDPTKN1N'',
              feePayer = buyerWallet\<rparr>
     = ''create(7xKXtg2CW87d97TXJSDpbD5jBkheTqA83TZRuJosgAsU,ata:7xKX:4zMM,''
             @ ''7xKXtg2CW87d97TXJSDpbD5jBkheTqA83TZRuJosgAsU,''
             @ ''4zMMC9srt5Ri5X14GAgXhaHii3GnPAEERYPJgZJDncDU)''
             @ ''create(7xKXtg2CW87d97TXJSDpbD5jBkheTqA83TZRuJosgAsU,ata:86xC:4zMM,''
             @ ''86xCnPeV69n6t3DnyGkfpPEX4kuT3t6eJ5iAbPGYATcp,''
             @ ''4zMMC9srt5Ri5X14GAgXhaHii3GnPAEERYPJgZJDncDU)''
             @ ''transfer(ata:7xKX:4zMM,ata:86xC:4zMM,7xKXtg2CW87d97TXJSDpbD5jBkheTqA83TZRuJosgAsU,''
             @ ''12000000)@EkSnNWid2cvwEVnVx9aBqawnmiCNiDgp3gUdkDPTKN1N/''
             @ ''7xKXtg2CW87d97TXJSDpbD5jBkheTqA83TZRuJosgAsU''"
    by (simp_all add: renderTransaction_def decimal_12000000 buyerWallet_def MERCHANT_WALLET_def)
  from nk r1 r2 r3 r4 show ?thesis
    unfolding rd by simp
qed

section \<open>Properties of balance detection\<close>



lemma knownMints_step:
  "\<not> (\<exists>u. reportsHolding env c owner (calls s) m u) \<Longrightarrow>
   \<exists>t. knownMints env c owner (m # ms) s = knownMints env c owner ms t"
  by (auto simp: reportsHolding_def Let_def request_def
      split: outcome.splits option.splits)

lemma knownMints_none:
  "\<forall>x\<in>set ms. \<forall>h u. \<not> reportsHolding env c owner h x u \<Longrightarrow>
   fst (knownMints env c owner ms s) = None"
proof (induction ms arbitrary: s)
  case Nil
  show ?case by simp
next
  case (Cons m ms)
  then have "\<not> (\<exists>u. reportsHolding env c owner (calls s) m u)"
    by simp
  from knownMints_step [OF this] obtain t where
    "knownMints env c owner (m # ms) s = knownMints env c owner ms t" ..
  with Cons.IH [of t] Cons.prems show ?case
    by (simp del: knownMints.simps)
qed



lemma scanTokenAccounts_none:
  "\<forall>p\<in>set ps. \<forall>h u. getTokenAccountBalance env h (endpointOf c) p = Returns (Some u) \<longrightarrow> u \<le> 0
   \<Longrightarrow> fst (scanTokenAccounts env c ps s) = None"
proof (induction ps arbitrary: s)
  case Nil
  show ?case by simp
next
  case (Cons p ps)
  from Cons.prems have np:
    "getTokenAccountBalance env h (endpointOf c) p = Returns (Some u) \<Longrightarrow> \<not> 0 < u" for h u
    by fastforce
  from Cons.prems have "\<forall>p\<in>set ps. \<forall>h u.
      getTokenAccountBalance env h (endpointOf c) p = Returns (Some u) \<longrightarrow> u \<le> 0"
    by simp
  from Cons.IH [OF this] show ?case
    by (auto simp: Let_def split: outcome.splits option.splits dest: np)
qed



lemma debugWalletTokens_nothing:
  assumes "\<forall>h ps. getTokenAccountsByOwner env h (endpointOf c) owner = Returns ps \<longrightarrow>
     (\<forall>p\<in>set ps. \<forall>h' u.
        getTokenAccountBalance env h' (endpointOf c) p = Returns (Some u) \<longrightarrow> u \<le> 0)"
  shows "fst (debugWalletTokens env owner c s) = nothing"
proof (cases "getBalance env (calls s) (endpointOf c) owner")
  case Throws
  then show ?thesis by (simp add: debugWalletTokens_def Let_def)
next
  case (Returns n)
  let ?s1 = "request (GetBalance (endpointOf c) owner) s"
  show ?thesis
  proof (cases "getTokenAccountsByOwner env (calls ?s1) (endpointOf c) owner")
    case Throws
    with Returns show ?thesis by (simp add: debugWalletTokens_def Let_def)
  next
    case r: (Returns ps)
    with assms have "\<forall>p\<in>set ps. \<forall>h' u.
        getTokenAccountBalance env h' (endpointOf c) p = Returns (Some u) \<longrightarrow> u \<le> 0"
      by blast
    from scanTokenAccounts_none [OF this,
        of "request (GetTokenAccountsByOwner (endpointOf c) owner) ?s1"]
    show ?thesis
      using Returns r
      by (auto simp: debugWalletTokens_def Let_def split: prod.splits option.splits)
  qed
qed




lemma scanProgramAccounts_none:
  "\<forall>p\<in>fst ` set qs. \<forall>h u.
      getTokenAccountBalance env h (endpointOf c) p = Returns (Some u) \<longrightarrow> u \<le> 0
   \<Longrightarrow> fst (scanProgramAccounts env c qs s) = None"
proof (induction qs arbitrary: s)
  case Nil
  show ?case by simp
next
  case (Cons pa qs)
  obtain p accountData where pa: "pa = (p, accountData)" by (cases pa)
  from Cons.prems pa have np:
    "getTokenAccountBalance env h (endpointOf c) p = Returns (Some u) \<Longrightarrow> \<not> 0 < u" for h u
    by fastforce
  from Cons.prems have "\<forall>p\<in>fst ` set qs. \<forall>h u.
      getTokenAccountBalance env h (endpointOf c) p = Returns (Some u) \<longrightarrow> u \<le> 0"
    by simp
  from Cons.IH [OF this] show ?case
    unfolding pa
    by (auto simp: Let_def split: outcome.splits option.splits dest: np)
qed

lemma programAccountsMethod_nothing:
  assumes "\<forall>h qs. getProgramAccounts env h (endpointOf c) owner = Returns qs \<longrightarrow>
     (\<forall>p\<in>fst ` set qs. \<forall>h' u.
        getTokenAccountBalance env h' (endpointOf c) p = Returns (Some u) \<longrightarrow> u \<le> 0)"
  shows "fst (programAccountsMethod env c owner s) = notFound"
proof (cases "getProgramAccounts env (calls s) (endpointOf c) owner")
  case Throws
  then show ?thesis by (simp add: programAccountsMethod_def Let_def)
next
  case (Returns qs)
  with assms have "\<forall>p\<in>fst ` set qs. \<forall>h' u.
        getTokenAccountBalance env h' (endpointOf c) p = Returns (Some u) \<longrightarrow> u \<le> 0"
    by blast
  from scanProgramAccounts_none [OF this,
      of "request (GetProgramAccounts (endpointOf c) owner) s"]
  show ?thesis
    using Returns
    by (auto simp: programAccountsMethod_def Let_def split: prod.splits option.splits)
qed



lemma detect_nothing:
  assumes h1: "\<forall>m\<in>set mints. \<forall>h u.
        getTokenAccountBalance env h (endpointOf c) (associatedTokenAddress env m owner)
          = Returns (Some u) \<longrightarrow> u \<le> 0"
    and h2: "\<forall>h ps. getTokenAccountsByOwner env h (endpointOf c) owner = Returns ps \<longrightarrow>
       (\<forall>p\<in>set ps. \<forall>h' u.
          getTokenAccountBalance env h' (endpointOf c) p = Returns (Some u) \<longrightarrow> u \<le> 0)"
    and h3: "\<forall>h qs. getProgramAccounts env h (endpointOf c) owner = Returns qs \<longrightarrow>
       (\<forall>p\<in>fst ` set qs. \<forall>h' u.
          getTokenAccountBalance env h' (endpointOf c) p = Returns (Some u) \<longrightarrow> u \<le> 0)"
  shows "fst (detectUsdcBalanceAndMint env mints c owner s) = notFound"
proof -
  from h1 have "\<forall>x\<in>set mints. \<forall>h u. \<not> reportsHolding env c owner h x u"
    by (fastforce simp: reportsHolding_def)
  from knownMints_none [OF this, of s] obtain s1 where
    k: "knownMints env c owner mints s = (None, s1)"
    by (cases "knownMints env c owner mints s") simp
  obtain d s2 where dw: "debugWalletTokens env owner c s1 = (d, s2)"
    by (cases "debugWalletTokens env owner c s1")
  with debugWalletTokens_nothing [OF h2, of s1] have d: "d = nothing" by simp
  from k dw d programAccountsMethod_nothing [OF h3, of s2] show ?thesis
    by (simp add: detectUsdcBalanceAndMint_def nothing_def)
qed

text \<open>
  Claim C5. The result of balance detection is a value in every case: each awaited call
  stands in a \<^verbatim>\<open>try\<close> whose handler goes on, so no rejection leaves the function. Let
  the owner hold nothing: no holding account of the owner for a known mint, no token
  account that the network lists for the owner and no program account that it lists for
  the owner ever reports a positive balance. What accounts of other owners report does
  not matter. Then the result is balance zero with no mint, whatever else resolves or
  rejects. A lookup that rejects inside one of the three loops is written to the console
  and the loop goes on with the next candidate or account: the account lookup and the
  balance lookup of a known mint, the balance lookup and the mint lookup of a scanned
  token account, and the balance lookup of a program account.
\<close>

theorem no_holdings_not_found:
  "((\<forall>m\<in>set mints. \<forall>h u.
        getTokenAccountBalance env h (endpointOf c) (associatedTokenAddress env m owner)
          = Returns (Some u) \<longrightarrow> u \<le> 0)
    \<and> (\<forall>h ps. getTokenAccountsByOwner env h (endpointOf c) owner = Returns ps \<longrightarrow>
         (\<forall>p\<in>set ps. \<forall>h' u.
            getTokenAccountBalance env h' (endpointOf c) p = Returns (Some u) \<longrightarrow> u \<le> 0))
    \<and> (\<forall>h qs. getProgramAccounts env h (endpointOf c) owner = Returns qs \<longrightarrow>
         (\<forall>p\<in>fst ` set qs. \<forall>h' u.
            getTokenAccountBalance env h' (endpointOf c) p = Returns (Some u) \<longrightarrow> u \<le> 0))
    \<longrightarrow> fst (detectUsdcBalanceAndMint env mints c owner s) = \<lparr>balance = 0, mint = None\<rparr>)
   \<and> (validKey env m \<and> onCurve env owner
      \<and> getAccountInfo env (calls s) (endpointOf c) (associatedTokenAddress env m owner) = Throws
      \<longrightarrow> knownMints env c owner (m # ms) s =
            knownMints env c owner ms
              (s\<lparr>calls := calls s @
                   [GetAccountInfo (endpointOf c) (associatedTokenAddress env m owner)],
                 console := console s @ [ErrorWithMint m]\<rparr>))
   \<and> (validKey env m \<and> onCurve env owner
      \<and> getAccountInfo env (calls s) (endpointOf c) (associatedTokenAddress env m owner)
          = Returns (Some accountData)
      \<and> accountData \<noteq> []
      \<and> getTokenAccountBalance env
           (calls s @ [GetAccountInfo (endpointOf c) (associatedTokenAddress env m owner)])
           (endpointOf c) (associatedTokenAddress env m owner) = Throws
      \<longrightarrow> knownMints env c owner (m # ms) s =
            knownMints env c owner ms
              (s\<lparr>calls := calls s @
                   [GetAccountInfo (endpointOf c) (associatedTokenAddress env m owner),
                    GetTokenAccountBalance (endpointOf c) (associatedTokenAddress env m owner)],
                 console := console s @ [ErrorGettingBalanceFor m]\<rparr>))
   \<and> (getTokenAccountBalance env (calls s) (endpointOf c) p = Throws
      \<longrightarrow> scanTokenAccounts env c (p # ps) s =
            scanTokenAccounts env c ps
              (s\<lparr>calls := calls s @ [GetTokenAccountBalance (endpointOf c) p],
                 console := console s @ [ErrorGettingBalance]\<rparr>)
          \<and> scanProgramAccounts env c ((p, accountData) # qs) s =
            scanProgramAccounts env c qs
              (s\<lparr>calls := calls s @ [GetTokenAccountBalance (endpointOf c) p],
                 console := console s @ [ErrorCheckingProgramAccount p]\<rparr>))
   \<and> (getTokenAccountBalance env (calls s) (endpointOf c) p = Returns (Some u) \<and> 0 < u
      \<and> getAccountInfo env (calls s @ [GetTokenAccountBalance (endpointOf c) p])
           (endpointOf c) p = Throws
      \<longrightarrow> scanTokenAccounts env c (p # ps) s =
            scanTokenAccounts env c ps
              (s\<lparr>calls := calls s @
                   [GetTokenAccountBalance (endpointOf c) p, GetAccountInfo (endpointOf c) p],
                 console := console s @ [CouldNotGetMintInfo]\<rparr>))"
proof (intro conjI impI)
  assume "(\<forall>m\<in>set mints. \<forall>h u.
        getTokenAccountBalance env h (endpointOf c) (associatedTokenAddress env m owner)
          = Returns (Some u) \<longrightarrow> u \<le> 0)
    \<and> (\<forall>h ps. getTokenAccountsByOwner env h (endpointOf c) owner = Returns ps \<longrightarrow>
         (\<forall>p\<in>set ps. \<forall>h' u.
            getTokenAccountBalance env h' (endpointOf c) p = Returns (Some u) \<longrightarrow> u \<le> 0))
    \<and> (\<forall>h qs. getProgramAccounts env h (endpointOf c) owner = Returns qs \<longrightarrow>
         (\<forall>p\<in>fst ` set qs. \<forall>h' u.
            getTokenAccountBalance env h' (endpointOf c) p = Returns (Some u) \<longrightarrow> u \<le> 0))"
  then have "fst (detectUsdcBalanceAndMint env mints c owner s) = notFound"
    by (intro detect_nothing) simp_all
  then show "fst (detectUsdcBalanceAndMint env mints c owner s) = \<lparr>balance = 0, mint = None\<rparr>"
    by (simp add: notFound_def)
next
  assume "validKey env m \<and> onCurve env owner
      \<and> getAccountInfo env (calls s) (endpointOf c) (associatedTokenAddress env m owner) = Throws"
  then show "knownMints env c owner (m # ms) s =
            knownMints env c owner ms
              (s\<lparr>calls := calls s @
                   [GetAccountInfo (endpointOf c) (associatedTokenAddress env m owner)],
                 console := console s @ [ErrorWithMint m]\<rparr>)"
    by (simp add: Let_def request_def consoleLog_def)
next
  assume "validKey env m \<and> onCurve env owner
      \<and> getAccountInfo env (calls s) (endpointOf c) (associatedTokenAddress env m owner)
          = Returns (Some accountData)
      \<and> accountData \<noteq> []
      \<and> getTokenAccountBalance env
           (calls s @ [GetAccountInfo (endpointOf c) (associatedTokenAddress env m owner)])
           (endpointOf c) (associatedTokenAddress env m owner) = Throws"
  then show "knownMints env c owner (m # ms) s =
            knownMints env c owner ms
              (s\<lparr>calls := calls s @
                   [GetAccountInfo (endpointOf c) (associatedTokenAddress env m owner),
                    GetTokenAccountBalance (endpointOf c) (associatedTokenAddress env m owner)],
                 console := console s @ [ErrorGettingBalanceFor m]\<rparr>)"
    by (simp add: Let_def request_def consoleLog_def)
next
  assume h: "getTokenAccountBalance env (calls s) (endpointOf c) p = Throws"
  then show "scanTokenAccounts env c (p # ps) s =
            scanTokenAccounts env c ps
              (s\<lparr>calls := calls s @ [GetTokenAccountBalance (endpointOf c) p],
                 console := console s @ [ErrorGettingBalance]\<rparr>)"
    by (simp add: Let_def request_def consoleLog_def)
  from h show "scanProgramAccounts env c ((p, accountData) # qs) s =
            scanProgramAccounts env c qs
              (s\<lparr>calls := calls s @ [GetTokenAccountBalance (endpointOf c) p],
                 console := console s @ [ErrorCheckingProgramAccount p]\<rparr>)"
    by (simp add: Let_def request_def consoleLog_def)
next
  assume "getTokenAccountBalance env (calls s) (endpointOf c) p = Returns (Some u) \<and> 0 < u
      \<and> getAccountInfo env (calls s @ [GetTokenAccountBalance (endpointOf c) p])
           (endpointOf c) p = Throws"
  then show "scanTokenAccounts env c (p # ps) s =
            scanTokenAccounts env c ps
              (s\<lparr>calls := calls s @
                   [GetTokenAccountBalance (endpointOf c) p, GetAccountInfo (endpointOf c) p],
                 console := console s @ [CouldNotGetMintInfo]\<rparr>)"
    by (simp add: Let_def request_def consoleLog_def)
qed

lemma brokenWallet_run:
  "detectUsdcBalanceAndMint brokenWallet POTENTIAL_USDC_MINTS devnetConnection buyerWallet fresh
   = (\<lparr>balance = 0, mint = None\<rparr>,
      \<lparr>workingRpc = None,
       calls =
         [GetAccountInfo ''https://api.devnet.solana.com'' ''ata:7xKX:4zMM'',
          GetAccountInfo ''https://api.devnet.solana.com'' ''ata:7xKX:Gh9Z'',
          GetTokenAccountBalance ''https://api.devnet.solana.com'' ''ata:7xKX:Gh9Z'',
          GetAccountInfo ''https://api.devnet.solana.com'' ''ata:7xKX:EPjF'',
          GetBalance ''https://api.devnet.solana.com'' buyerWallet,
          GetTokenAccountsByOwner ''https://api.devnet.solana.com'' buyerWallet,
          GetTokenAccountBalance ''https://api.devnet.solana.com'' ''ata:7xKX:Gh9Z'',
          GetTokenAccountBalance ''https://api.devnet.solana.com'' ''ata:7xKX:EPjF'',
          GetProgramAccounts ''https://api.devnet.solana.com'' buyerWallet,
          GetTokenAccountBalance ''https://api.devnet.solana.com'' ''ata:7xKX:Gh9Z'',
          GetTokenAccountBalance ''https://api.devnet.solana.com'' ''ata:7xKX:EPjF''],
       console =
         [ErrorWithMint ''4zMMC9srt5Ri5X14GAgXhaHii3GnPAEERYPJgZJDncDU'',
          ErrorGettingBalanceFor ''Gh9ZwEmdLJ8DscKNTkTqPbNwLNNBjuSzaG9Vp2KGtKJr'',
          ErrorGettingBalance,
          ErrorCheckingProgramAccount ''ata:7xKX:Gh9Z'']\<rparr>)"
  by (simp add: detectUsdcBalanceAndMint_def debugWalletTokens_def programAccountsMethod_def
      POTENTIAL_USDC_MINTS_def brokenWallet_def devnet_def offline_def devnetConnection_def
      fresh_def Let_def request_def consoleLog_def nothing_def notFound_def truthy_def
      buyerWallet_def)

theorem no_holdings_not_found_witness:
  "getTokenAccountBalance brokenWallet [] ''https://api.devnet.solana.com'' ''ata:9WzD:4zMM''
     = Returns (Some 50)
   \<and> \<not> (\<exists>m\<in>set POTENTIAL_USDC_MINTS. \<exists>h u.
          getTokenAccountBalance brokenWallet h ''https://api.devnet.solana.com''
            (associatedTokenAddress brokenWallet m buyerWallet) = Returns (Some u) \<and> 0 < u)
   \<and> (\<forall>h. getTokenAccountsByOwner brokenWallet h ''https://api.devnet.solana.com'' buyerWallet
          = Returns [''ata:7xKX:Gh9Z'', ''ata:7xKX:EPjF''])
   \<and> (\<forall>h. getProgramAccounts brokenWallet h ''https://api.devnet.solana.com'' buyerWallet
          = Returns [(''ata:7xKX:Gh9Z'', replicate 165 0), (''ata:7xKX:EPjF'', replicate 165 0)])
   \<and> \<not> (\<exists>p\<in>{''ata:7xKX:Gh9Z'', ''ata:7xKX:EPjF''}. \<exists>h u.
          getTokenAccountBalance brokenWallet h ''https://api.devnet.solana.com'' p
            = Returns (Some u) \<and> 0 < u)
   \<and> fst (detectUsdcBalanceAndMint brokenWallet POTENTIAL_USDC_MINTS devnetConnection
          buyerWallet fresh) = \<lparr>balance = 0, mint = None\<rparr>
   \<and> console (snd (detectUsdcBalanceAndMint brokenWallet POTENTIAL_USDC_MINTS devnetConnection
          buyerWallet fresh))
       = [ErrorWithMint ''4zMMC9srt5Ri5X14GAgXhaHii3GnPAEERYPJgZJDncDU'',
          ErrorGettingBalanceFor ''Gh9ZwEmdLJ8DscKNTkTqPbNwLNNBjuSzaG9Vp2KGtKJr'',
          ErrorGettingBalance,
          ErrorCheckingProgramAccount ''ata:7xKX:Gh9Z'']
   \<and> getAccountInfo brokenWallet (calls fresh) ''https://api.devnet.solana.com'' ''ata:7xKX:4zMM''
       = Throws
   \<and> knownMints brokenWallet devnetConnection buyerWallet POTENTIAL_USDC_MINTS fresh =
       knownMints brokenWallet devnetConnection buyerWallet (tl POTENTIAL_USDC_MINTS)
         (fresh\<lparr>calls := [GetAccountInfo ''https://api.devnet.solana.com'' ''ata:7xKX:4zMM''],
                console := [ErrorWithMint ''4zMMC9srt5Ri5X14GAgXhaHii3GnPAEERYPJgZJDncDU'']\<rparr>)
   \<and> getAccountInfo brokenWallet (calls fresh) ''https://api.devnet.solana.com'' ''ata:7xKX:Gh9Z''
       = Returns (Some (replicate 165 0))
   \<and> getTokenAccountBalance brokenWallet
        [GetAccountInfo ''https://api.devnet.solana.com'' ''ata:7xKX:Gh9Z'']
        ''https://api.devnet.solana.com'' ''ata:7xKX:Gh9Z'' = Throws
   \<and> knownMints brokenWallet devnetConnection buyerWallet
        (''Gh9ZwEmdLJ8DscKNTkTqPbNwLNNBjuSzaG9Vp2KGtKJr'' # tl POTENTIAL_USDC_MINTS) fresh =
       knownMints brokenWallet devnetConnection buyerWallet (tl POTENTIAL_USDC_MINTS)
         (fresh\<lparr>calls := [GetAccountInfo ''https://api.devnet.solana.com'' ''ata:7xKX:Gh9Z'',
                          GetTokenAccountBalance ''https://api.devnet.solana.com'' ''ata:7xKX:Gh9Z''],
                console := [ErrorGettingBalanceFor ''Gh9ZwEmdLJ8DscKNTkTqPbNwLNNBjuSzaG9Vp2KGtKJr'']\<rparr>)
   \<and> getTokenAccountBalance brokenWallet (calls fresh) ''https://api.devnet.solana.com''
         ''ata:7xKX:Gh9Z'' = Throws
   \<and> scanTokenAccounts brokenWallet devnetConnection [''ata:7xKX:Gh9Z'', ''ata:7xKX:EPjF''] fresh =
       scanTokenAccounts brokenWallet devnetConnection [''ata:7xKX:EPjF'']
         (fresh\<lparr>calls := [GetTokenAccountBalance ''https://api.devnet.solana.com'' ''ata:7xKX:Gh9Z''],
                console := [ErrorGettingBalance]\<rparr>)
   \<and> scanProgramAccounts brokenWallet devnetConnection
        [(''ata:7xKX:Gh9Z'', replicate 165 0), (''ata:7xKX:EPjF'', replicate 165 0)] fresh =
       scanProgramAccounts brokenWallet devnetConnection [(''ata:7xKX:EPjF'', replicate 165 0)]
         (fresh\<lparr>calls := [GetTokenAccountBalance ''https://api.devnet.solana.com'' ''ata:7xKX:Gh9Z''],
                console := [ErrorCheckingProgramAccount ''ata:7xKX:Gh9Z'']\<rparr>)
   \<and> getTokenAccountBalance unreadableWallet (calls fresh) ''https://api.devnet.solana.com''
        tokenAccount1 = Returns (Some 3)
   \<and> getAccountInfo unreadableWallet
        [GetTokenAccountBalance ''https://api.devnet.solana.com'' tokenAccount1]
        ''https://api.devnet.solana.com'' tokenAccount1 = Throws
   \<and> scanTokenAccounts unreadableWallet devnetConnection [tokenAccount1] fresh =
       scanTokenAccounts unreadableWallet devnetConnection []
         (fresh\<lparr>calls := [GetTokenAccountBalance ''https://api.devnet.solana.com'' tokenAccount1,
                          GetAccountInfo ''https://api.devnet.solana.com'' tokenAccount1],
                console := [CouldNotGetMintInfo]\<rparr>)"
proof -
  let ?e = "''https://api.devnet.solana.com''"
  have other: "getTokenAccountBalance brokenWallet [] ?e ''ata:9WzD:4zMM'' = Returns (Some 50)"
    by (simp add: brokenWallet_def devnet_def offline_def)
  have bal: "getTokenAccountBalance brokenWallet h ?e ''ata:7xKX:4zMM'' = Returns (Some 0)"
    "getTokenAccountBalance brokenWallet h ?e ''ata:7xKX:Gh9Z'' = Throws"
    "getTokenAccountBalance brokenWallet h ?e ''ata:7xKX:EPjF'' = Returns (Some 0)" for h
    by (simp_all add: brokenWallet_def devnet_def offline_def)
  have atas: "associatedTokenAddress brokenWallet m buyerWallet = ''ata:7xKX:'' @ take 4 m" for m
    by (simp add: brokenWallet_def devnet_def offline_def buyerWallet_def)
  have lists:
    "getTokenAccountsByOwner brokenWallet h ?e buyerWallet
       = Returns [''ata:7xKX:Gh9Z'', ''ata:7xKX:EPjF'']"
    "getProgramAccounts brokenWallet h ?e buyerWallet
       = Returns [(''ata:7xKX:Gh9Z'', replicate 165 0), (''ata:7xKX:EPjF'', replicate 165 0)]"
    for h
    by (simp_all add: brokenWallet_def devnet_def offline_def)
  have h1: "\<forall>m\<in>set POTENTIAL_USDC_MINTS. \<forall>h u.
        getTokenAccountBalance brokenWallet h (endpointOf devnetConnection)
          (associatedTokenAddress brokenWallet m buyerWallet) = Returns (Some u) \<longrightarrow> u \<le> 0"
    by (simp add: POTENTIAL_USDC_MINTS_def atas bal devnetConnection_def)
  have h2: "\<forall>h ps. getTokenAccountsByOwner brokenWallet h (endpointOf devnetConnection)
          buyerWallet = Returns ps \<longrightarrow>
       (\<forall>p\<in>set ps. \<forall>h' u.
          getTokenAccountBalance brokenWallet h' (endpointOf devnetConnection) p
            = Returns (Some u) \<longrightarrow> u \<le> 0)"
    by (auto simp: lists bal devnetConnection_def)
  have h3: "\<forall>h qs. getProgramAccounts brokenWallet h (endpointOf devnetConnection)
          buyerWallet = Returns qs \<longrightarrow>
       (\<forall>p\<in>fst ` set qs. \<forall>h' u.
          getTokenAccountBalance brokenWallet h' (endpointOf devnetConnection) p
            = Returns (Some u) \<longrightarrow> u \<le> 0)"
    by (auto simp: lists bal devnetConnection_def)
  have n1: "\<not> (\<exists>m\<in>set POTENTIAL_USDC_MINTS. \<exists>h u.
          getTokenAccountBalance brokenWallet h ?e
            (associatedTokenAddress brokenWallet m buyerWallet) = Returns (Some u) \<and> 0 < u)"
    by (simp add: POTENTIAL_USDC_MINTS_def atas bal)
  have n2: "\<not> (\<exists>p\<in>{''ata:7xKX:Gh9Z'', ''ata:7xKX:EPjF''}. \<exists>h u.
          getTokenAccountBalance brokenWallet h ?e p = Returns (Some u) \<and> 0 < u)"
    by (simp add: bal)
  have f: "validKey brokenWallet ''4zMMC9srt5Ri5X14GAgXhaHii3GnPAEERYPJgZJDncDU''"
    "onCurve brokenWallet buyerWallet"
    "associatedTokenAddress brokenWallet ''4zMMC9srt5Ri5X14GAgXhaHii3GnPAEERYPJgZJDncDU''
       buyerWallet = ''ata:7xKX:4zMM''"
    "endpointOf devnetConnection = ''https://api.devnet.solana.com''"
    "getAccountInfo brokenWallet (calls fresh) ''https://api.devnet.solana.com'' ''ata:7xKX:4zMM''
       = Throws"
    "getTokenAccountBalance brokenWallet (calls fresh) ''https://api.devnet.solana.com''
         ''ata:7xKX:Gh9Z'' = Throws"
    "calls fresh = []" "console fresh = []"
    "POTENTIAL_USDC_MINTS = ''4zMMC9srt5Ri5X14GAgXhaHii3GnPAEERYPJgZJDncDU''
       # tl POTENTIAL_USDC_MINTS"
    by (simp_all add: brokenWallet_def devnet_def offline_def buyerWallet_def
        devnetConnection_def fresh_def POTENTIAL_USDC_MINTS_def)
  have g: "validKey brokenWallet ''Gh9ZwEmdLJ8DscKNTkTqPbNwLNNBjuSzaG9Vp2KGtKJr''"
    "associatedTokenAddress brokenWallet ''Gh9ZwEmdLJ8DscKNTkTqPbNwLNNBjuSzaG9Vp2KGtKJr''
       buyerWallet = ''ata:7xKX:Gh9Z''"
    "getAccountInfo brokenWallet (calls fresh) ''https://api.devnet.solana.com'' ''ata:7xKX:Gh9Z''
       = Returns (Some (replicate 165 0))"
    "getTokenAccountBalance brokenWallet
        [GetAccountInfo ''https://api.devnet.solana.com'' ''ata:7xKX:Gh9Z'']
        ''https://api.devnet.solana.com'' ''ata:7xKX:Gh9Z'' = Throws"
    "replicate 165 (0::byte) \<noteq> []"
    by (simp_all add: brokenWallet_def devnet_def offline_def buyerWallet_def)
  have u: "getTokenAccountBalance unreadableWallet (calls fresh) ''https://api.devnet.solana.com''
        tokenAccount1 = Returns (Some 3)"
    "getAccountInfo unreadableWallet
        [GetTokenAccountBalance ''https://api.devnet.solana.com'' tokenAccount1]
        ''https://api.devnet.solana.com'' tokenAccount1 = Throws"
    by (simp_all add: unreadableWallet_def otherTokenWallet_def devnet_def offline_def
        tokenAccount1_def)
  note inst = no_holdings_not_found [where env = brokenWallet and c = devnetConnection
      and owner = buyerWallet and s = fresh and mints = POTENTIAL_USDC_MINTS
      and m = "''4zMMC9srt5Ri5X14GAgXhaHii3GnPAEERYPJgZJDncDU''"
      and ms = "tl POTENTIAL_USDC_MINTS" and p = "''ata:7xKX:Gh9Z''"
      and ps = "[''ata:7xKX:EPjF'']" and accountData = "replicate 165 0"
      and qs = "[(''ata:7xKX:EPjF'', replicate 165 0)]"]
  from inst [THEN conjunct1] h1 h2 h3
  have r1: "fst (detectUsdcBalanceAndMint brokenWallet POTENTIAL_USDC_MINTS devnetConnection
          buyerWallet fresh) = \<lparr>balance = 0, mint = None\<rparr>"
    by blast
  from inst [THEN conjunct2, THEN conjunct1] f(1-5,7,8)
  have "knownMints brokenWallet devnetConnection buyerWallet
         (''4zMMC9srt5Ri5X14GAgXhaHii3GnPAEERYPJgZJDncDU'' # tl POTENTIAL_USDC_MINTS) fresh =
       knownMints brokenWallet devnetConnection buyerWallet (tl POTENTIAL_USDC_MINTS)
         (fresh\<lparr>calls := [GetAccountInfo ''https://api.devnet.solana.com'' ''ata:7xKX:4zMM''],
                console := [ErrorWithMint ''4zMMC9srt5Ri5X14GAgXhaHii3GnPAEERYPJgZJDncDU'']\<rparr>)"
    by (simp del: knownMints.simps)
  with f(9) have r2: "knownMints brokenWallet devnetConnection buyerWallet POTENTIAL_USDC_MINTS fresh =
       knownMints brokenWallet devnetConnection buyerWallet (tl POTENTIAL_USDC_MINTS)
         (fresh\<lparr>calls := [GetAccountInfo ''https://api.devnet.solana.com'' ''ata:7xKX:4zMM''],
                console := [ErrorWithMint ''4zMMC9srt5Ri5X14GAgXhaHii3GnPAEERYPJgZJDncDU'']\<rparr>)"
    by simp
  from inst [THEN conjunct2, THEN conjunct2, THEN conjunct2, THEN conjunct1] f(4,6,7,8)
  have r3: "scanTokenAccounts brokenWallet devnetConnection [''ata:7xKX:Gh9Z'', ''ata:7xKX:EPjF''] fresh =
       scanTokenAccounts brokenWallet devnetConnection [''ata:7xKX:EPjF'']
         (fresh\<lparr>calls := [GetTokenAccountBalance ''https://api.devnet.solana.com'' ''ata:7xKX:Gh9Z''],
                console := [ErrorGettingBalance]\<rparr>)"
    and r4: "scanProgramAccounts brokenWallet devnetConnection
        [(''ata:7xKX:Gh9Z'', replicate 165 0), (''ata:7xKX:EPjF'', replicate 165 0)] fresh =
       scanProgramAccounts brokenWallet devnetConnection [(''ata:7xKX:EPjF'', replicate 165 0)]
         (fresh\<lparr>calls := [GetTokenAccountBalance ''https://api.devnet.solana.com'' ''ata:7xKX:Gh9Z''],
                console := [ErrorCheckingProgramAccount ''ata:7xKX:Gh9Z'']\<rparr>)"
    by (simp_all del: scanTokenAccounts.simps scanProgramAccounts.simps)
  from no_holdings_not_found [where env = brokenWallet and c = devnetConnection
      and owner = buyerWallet and s = fresh
      and m = "''Gh9ZwEmdLJ8DscKNTkTqPbNwLNNBjuSzaG9Vp2KGtKJr''"
      and ms = "tl POTENTIAL_USDC_MINTS" and accountData = "replicate 165 0",
      THEN conjunct2, THEN conjunct2, THEN conjunct1]
    f(2,4,7,8) g
  have r5: "knownMints brokenWallet devnetConnection buyerWallet
        (''Gh9ZwEmdLJ8DscKNTkTqPbNwLNNBjuSzaG9Vp2KGtKJr'' # tl POTENTIAL_USDC_MINTS) fresh =
       knownMints brokenWallet devnetConnection buyerWallet (tl POTENTIAL_USDC_MINTS)
         (fresh\<lparr>calls := [GetAccountInfo ''https://api.devnet.solana.com'' ''ata:7xKX:Gh9Z'',
                          GetTokenAccountBalance ''https://api.devnet.solana.com'' ''ata:7xKX:Gh9Z''],
                console := [ErrorGettingBalanceFor ''Gh9ZwEmdLJ8DscKNTkTqPbNwLNNBjuSzaG9Vp2KGtKJr'']\<rparr>)"
    by (simp del: knownMints.simps)
  from no_holdings_not_found [where env = unreadableWallet and c = devnetConnection
      and s = fresh and p = tokenAccount1 and ps = "[]" and u = 3,
      THEN conjunct2, THEN conjunct2, THEN conjunct2, THEN conjunct2]
    f(4,7,8) u
  have r6: "scanTokenAccounts unreadableWallet devnetConnection [tokenAccount1] fresh =
       scanTokenAccounts unreadableWallet devnetConnection []
         (fresh\<lparr>calls := [GetTokenAccountBalance ''https://api.devnet.solana.com'' tokenAccount1,
                          GetAccountInfo ''https://api.devnet.solana.com'' tokenAccount1],
                console := [CouldNotGetMintInfo]\<rparr>)"
    by (simp del: scanTokenAccounts.simps)
  from other n1 n2 lists r1 brokenWallet_run f(5,6) g(3,4) u r2 r3 r4 r5 r6 show ?thesis
    by (simp del: knownMints.simps scanTokenAccounts.simps scanProgramAccounts.simps)
qed









section \<open>Further properties\<close>

text \<open>
  The initiate-payment route rejects a price that is missing, zero or negative before
  it does anything else with a request that has an account and a product: the answer is
  \<open>InvalidProductPrice\<close>, status 400, and the state of the module is unchanged, so no
  connection was acquired and no transaction built. Without an account the answer is the
  400 for the missing field.
\<close>

theorem pay_POST_rejects_price:
  "pay_product b = Some item
   \<and> (price item = NoPrice \<or> (\<exists>x. price item = Price x \<and> x \<le> 0)) \<longrightarrow>
     (pay_account b \<noteq> AccountAbsent \<and> pay_account b \<noteq> AccountString [] \<longrightarrow>
        pay_POST env eps merchant (Json b) s = (InvalidProductPrice, s))
     \<and> (pay_account b = AccountAbsent \<or> pay_account b = AccountString [] \<longrightarrow>
        pay_POST env eps merchant (Json b) s = (MissingAccountOrProduct, s))
     \<and> pay_status (fst (pay_POST env eps merchant (Json b) s)) = 400
     \<and> snd (pay_POST env eps merchant (Json b) s) = s"
  by (auto simp: pay_POST_def)

theorem pay_POST_rejects_price_witness:
  "pay_product freeRequest = Some freebie \<and> price freebie = Price 0 \<and> (0::real) \<le> 0
   \<and> pay_account freeRequest \<noteq> AccountAbsent \<and> pay_account freeRequest \<noteq> AccountString []
   \<and> pay_POST devnet RPC_ENDPOINTS MERCHANT_WALLET (Json freeRequest) idle
       = (InvalidProductPrice, idle)"
proof -
  have a: "pay_product freeRequest = Some freebie" "price freebie = Price 0"
    "pay_account freeRequest \<noteq> AccountAbsent" "pay_account freeRequest \<noteq> AccountString []"
    by (simp_all add: freeRequest_def freebie_def buyerWallet_def codeUnits_def)
  from pay_POST_rejects_price [of freeRequest freebie devnet RPC_ENDPOINTS MERCHANT_WALLET idle] a
  show ?thesis by simp
qed

lemma fetchLoop_asks_connection:
  "\<exists>ext n. trace (snd (fetchLoop env eps c g a s)) = trace s @ ext
         \<and> filter isFetch ext = replicate n (GetParsedTransaction (endpointOf c) g)
         \<and> n \<le> maxRetries - a"
proof (induction "maxRetries - a" arbitrary: a s)
  case 0
  then show ?case by (simp add: fetchLoop_done)
next
  case (Suc k)
  then have lt: "a < maxRetries" and k: "k = maxRetries - (a + 1)" by auto
  let ?f = "GetParsedTransaction (endpointOf c) g"
  have one: "\<exists>ext n. trace s @ ?f # e1 = trace s @ ext
      \<and> filter isFetch ext = replicate n ?f \<and> n \<le> maxRetries - a"
    if "filter isFetch e1 = []" for e1
    using that lt by (intro exI [of _ "?f # e1"] exI [of _ 1]) simp
  have more: "\<exists>ext n. trace s @ ?f # e1 @ e2 = trace s @ ext
      \<and> filter isFetch ext = replicate n ?f \<and> n \<le> maxRetries - a"
    if "filter isFetch e1 = []" "filter isFetch e2 = replicate j ?f" "j \<le> maxRetries - (a + 1)"
    for e1 e2 j
    using that lt by (intro exI [of _ "?f # e1 @ e2"] exI [of _ "Suc j"]) simp
  show ?case
  proof (cases "getParsedTransaction env (trace s) (endpointOf c) g")
    case Throws
    show ?thesis
    proof (cases "a < maxRetries - 1")
      case False
      with lt Throws one [of "[]"] show ?thesis
        by (simp add: fetchLoop_failed_last issue_def)
    next
      case True
      obtain nc s2 where sel: "getWorkingConnection env eps (invalidate (issue ?f s)) = (nc, s2)"
        by (cases "getWorkingConnection env eps (invalidate (issue ?f s))")
      from getWorkingConnection_no_fetch [of env eps "invalidate (issue ?f s)"] sel
      obtain e1 where e1: "trace s2 = (trace s @ [?f]) @ e1" "filter isFetch e1 = []"
        by (auto simp: invalidate_def issue_def)
      show ?thesis
      proof (cases nc)
        case None
        with True Throws sel e1 one [OF e1(2)] show ?thesis
          by (simp add: fetchLoop_failed)
      next
        case (Some newConnection)
        from Suc.hyps(1) [OF k, of s2] obtain e2 j where
          "trace (snd (fetchLoop env eps c g (a + 1) s2)) = trace s2 @ e2"
          "filter isFetch e2 = replicate j ?f" "j \<le> maxRetries - (a + 1)" by auto
        with True Throws sel e1 Some more [OF e1(2), of e2 j] show ?thesis
          by (simp add: fetchLoop_failed)
      qed
    qed
  next
    case (Returns r)
    show ?thesis
    proof (cases r)
      case None
      from Suc.hyps(1) [OF k, of "issue ?f s"] obtain e2 j where
        "trace (snd (fetchLoop env eps c g (a + 1) (issue ?f s))) = trace (issue ?f s) @ e2"
        "filter isFetch e2 = replicate j ?f" "j \<le> maxRetries - (a + 1)" by auto
      with lt Returns None more [of "[]" e2 j] show ?thesis
        by (simp add: fetchLoop_notFound issue_def)
    next
      case (Some tx)
      with lt Returns one [of "[]"] show ?thesis
        by (simp add: fetchLoop_found issue_def)
    qed
  qed
qed

lemma fetchLoop_getTx_asks_connection:
  "\<exists>ext n. trace (snd (fetchLoop_getTx env eps c g a s)) = trace s @ ext
         \<and> filter isFetch ext = replicate n (GetParsedTransaction (endpointOf c) g)
         \<and> n \<le> maxRetries - a"
proof (induction "maxRetries - a" arbitrary: a s)
  case 0
  then show ?case by (simp add: fetchLoop_getTx_done)
next
  case (Suc k)
  then have lt: "a < maxRetries" and k: "k = maxRetries - (a + 1)" by auto
  let ?f = "GetParsedTransaction (endpointOf c) g"
  have one: "\<exists>ext n. trace s @ ?f # e1 = trace s @ ext
      \<and> filter isFetch ext = replicate n ?f \<and> n \<le> maxRetries - a"
    if "filter isFetch e1 = []" for e1
    using that lt by (intro exI [of _ "?f # e1"] exI [of _ 1]) simp
  have more: "\<exists>ext n. trace s @ ?f # e1 @ e2 = trace s @ ext
      \<and> filter isFetch ext = replicate n ?f \<and> n \<le> maxRetries - a"
    if "filter isFetch e1 = []" "filter isFetch e2 = replicate j ?f" "j \<le> maxRetries - (a + 1)"
    for e1 e2 j
    using that lt by (intro exI [of _ "?f # e1 @ e2"] exI [of _ "Suc j"]) simp
  show ?case
  proof (cases "getParsedTransaction env (trace s) (endpointOf c) g")
    case Throws
    show ?thesis
    proof (cases "a < maxRetries - 1")
      case False
      with lt Throws one [of "[]"] show ?thesis
        by (simp add: fetchLoop_getTx_failed_last issue_def)
    next
      case True
      obtain nc s2 where
        sel: "getWorkingConnection_getTx env eps (invalidate (issue ?f s)) = (nc, s2)"
        by (cases "getWorkingConnection_getTx env eps (invalidate (issue ?f s))")
      from getWorkingConnection_getTx_no_fetch [of env eps "invalidate (issue ?f s)"] sel
      obtain e1 where e1: "trace s2 = (trace s @ [?f]) @ e1" "filter isFetch e1 = []"
        by (auto simp: invalidate_def issue_def)
      show ?thesis
      proof (cases nc)
        case None
        with True Throws sel e1 one [OF e1(2)] show ?thesis
          by (simp add: fetchLoop_getTx_failed)
      next
        case (Some newConnection)
        from Suc.hyps(1) [OF k, of s2] obtain e2 j where
          "trace (snd (fetchLoop_getTx env eps c g (a + 1) s2)) = trace s2 @ e2"
          "filter isFetch e2 = replicate j ?f" "j \<le> maxRetries - (a + 1)" by auto
        with True Throws sel e1 Some more [OF e1(2), of e2 j] show ?thesis
          by (simp add: fetchLoop_getTx_failed)
      qed
    qed
  next
    case (Returns r)
    show ?thesis
    proof (cases r)
      case None
      from Suc.hyps(1) [OF k, of "issue ?f s"] obtain e2 j where
        "trace (snd (fetchLoop_getTx env eps c g (a + 1) (issue ?f s))) = trace (issue ?f s) @ e2"
        "filter isFetch e2 = replicate j ?f" "j \<le> maxRetries - (a + 1)" by auto
      with lt Returns None more [of "[]" e2 j] show ?thesis
        by (simp add: fetchLoop_getTx_notFound issue_def)
    next
      case (Some tx)
      with lt Returns one [of "[]"] show ?thesis
        by (simp add: fetchLoop_getTx_found issue_def)
    qed
  qed
qed

text \<open>
  Every attempt of a fetch loop asks the connection that the handler acquired before the
  loop. The connection that the selector returns after a rejected attempt is compared with
  \<^verbatim>\<open>null\<close> and dropped, so a retry goes to the same endpoint even when another one has
  been cached in between.
\<close>

theorem retries_ask_first_connection:
  "(\<exists>ext n. trace (snd (fetchLoop env eps c g 0 s)) = trace s @ ext
       \<and> filter isFetch ext = replicate n (GetParsedTransaction (endpointOf c) g) \<and> n \<le> 3)
   \<and> (\<exists>ext n. trace (snd (fetchLoop_getTx env eps c g 0 s)) = trace s @ ext
       \<and> filter isFetch ext = replicate n (GetParsedTransaction (endpointOf c) g) \<and> n \<le> 3)"
  using fetchLoop_asks_connection [of env eps c g 0 s]
    fetchLoop_getTx_asks_connection [of env eps c g 0 s]
  by (simp add: maxRetries_def)

text \<open>
  A price that is not a whole number of base units makes \<^verbatim>\<open>createTransferInstruction\<close>
  throw: after the two account lookups the initiate-payment route answers 500 and does
  not ask for a block hash.
\<close>

theorem fractional_amount_fails:
  "getWorkingConnection env eps s = (Some c, s1)
   \<and> getAccount env (trace s1) (endpointOf c) (associatedTokenAddress env mintKey user)
       \<noteq> OtherError
   \<and> getAccount env
        (trace s1 @ [GetAccount (endpointOf c) (associatedTokenAddress env mintKey user)])
        (endpointOf c) (associatedTokenAddress env mintKey merchant) \<noteq> OtherError
   \<and> of_int \<lfloor>p * 10 ^ 6\<rfloor> \<noteq> p * 10 ^ 6 \<longrightarrow>
   buildTransaction env eps merchant user mintKey p s =
     (PayInternalServerError,
      s1\<lparr>trace := trace s1 @
         [GetAccount (endpointOf c) (associatedTokenAddress env mintKey user),
          GetAccount (endpointOf c) (associatedTokenAddress env mintKey merchant)]\<rparr>)"
proof
  let ?u = "associatedTokenAddress env mintKey user"
  let ?m = "associatedTokenAddress env mintKey merchant"
  let ?e = "endpointOf c"
  assume h: "getWorkingConnection env eps s = (Some c, s1)
   \<and> getAccount env (trace s1) ?e ?u \<noteq> OtherError
   \<and> getAccount env (trace s1 @ [GetAccount ?e ?u]) ?e ?m \<noteq> OtherError
   \<and> of_int \<lfloor>p * 10 ^ 6\<rfloor> \<noteq> p * 10 ^ 6"
  then have sel: "getWorkingConnection env eps s = (Some c, s1)"
    and ru: "getAccount env (trace s1) ?e ?u \<noteq> OtherError"
    and rm: "getAccount env (trace s1 @ [GetAccount ?e ?u]) ?e ?m \<noteq> OtherError"
    and frac: "of_int \<lfloor>p * 10 ^ 6\<rfloor> \<noteq> p * 10 ^ 6"
    by simp_all
  from ru have
    tu: "tokenAccountExists env c ?u s1
           = (Returns (getAccount env (trace s1) ?e ?u = AccountFound),
              s1\<lparr>trace := trace s1 @ [GetAccount ?e ?u]\<rparr>)"
    by (cases "getAccount env (trace s1) ?e ?u") (simp_all add: tokenAccountExists_def issue_def)
  from rm have
    tm: "tokenAccountExists env c ?m (s1\<lparr>trace := trace s1 @ [GetAccount ?e ?u]\<rparr>)
           = (Returns (getAccount env (trace s1 @ [GetAccount ?e ?u]) ?e ?m = AccountFound),
              s1\<lparr>trace := trace s1 @ [GetAccount ?e ?u, GetAccount ?e ?m]\<rparr>)"
    by (cases "getAccount env (trace s1 @ [GetAccount ?e ?u]) ?e ?m")
       (simp_all add: tokenAccountExists_def issue_def)
  from frac show "buildTransaction env eps merchant user mintKey p s =
     (PayInternalServerError,
      s1\<lparr>trace := trace s1 @ [GetAccount ?e ?u, GetAccount ?e ?m]\<rparr>)"
    unfolding buildTransaction_def sel
    by (simp add: tu tm Let_def)
qed

theorem fractional_amount_fails_witness:
  "pay_POST devnet RPC_ENDPOINTS MERCHANT_WALLET
     (Json \<lparr>pay_account = AccountString (codeUnits buyerWallet),
            pay_product = Some sliver, pay_usdcMint = None\<rparr>) idle
   = (PayInternalServerError,
      connected\<lparr>trace := trace connected @
        [GetAccount ''https://api.devnet.solana.com'' ''ata:7xKX:4zMM'',
         GetAccount ''https://api.devnet.solana.com'' ''ata:86xC:4zMM'']\<rparr>)
   \<and> pay_status PayInternalServerError = 500"
proof -
  let ?e = "''https://api.devnet.solana.com''"
  let ?m1 = "''4zMMC9srt5Ri5X14GAgXhaHii3GnPAEERYPJgZJDncDU''"
  have a: "getAccount devnet h ?e x \<noteq> OtherError" for h x
    by (simp add: devnet_def offline_def)
  have f: "of_int \<lfloor>(1 / 10000000) * 10 ^ 6 :: real\<rfloor> \<noteq> ((1 / 10000000) * 10 ^ 6 :: real)"
    by simp
  have k: "trim (codeUnits buyerWallet) \<noteq> []"
    "parseKey devnet (trim (codeUnits buyerWallet)) = Some buyerWallet"
    by (simp_all add: buyerWallet_text devnet_def offline_def)
  have at: "associatedTokenAddress devnet ?m1 buyerWallet = ''ata:7xKX:4zMM''"
    "associatedTokenAddress devnet ?m1 MERCHANT_WALLET = ''ata:86xC:4zMM''"
    "endpointOf (Connection ?e) = ?e"
    by (simp_all add: devnet_def offline_def buyerWallet_def MERCHANT_WALLET_def)
  from fractional_amount_fails [of devnet RPC_ENDPOINTS idle "Connection ?e" connected ?m1
      buyerWallet MERCHANT_WALLET "1 / 10000000"] devnet_selects(1) a f
  have "buildTransaction devnet RPC_ENDPOINTS MERCHANT_WALLET buyerWallet ?m1 (1 / 10000000) idle
    = (PayInternalServerError,
       connected\<lparr>trace := trace connected @
        [GetAccount ?e ''ata:7xKX:4zMM'', GetAccount ?e ''ata:86xC:4zMM'']\<rparr>)"
    by (simp add: at)
  moreover have "getUsdcMint devnet None = ?m1"
    by (simp add: getUsdcMint_def truthy_def POTENTIAL_USDC_MINTS_def)
  moreover have "(0::real) < 1 / 10000000" by simp
  ultimately show ?thesis
    using pay_POST_valid [OF k, of "1 / 10000000" RPC_ENDPOINTS MERCHANT_WALLET "''Widget''" None idle]
    by (simp add: sliver_def)
qed

text \<open>
  White space beyond ASCII is trimmed as well: an account of a no-break space, an em
  space, a byte order mark and a blank is empty after trimming, and so is a signature of
  an ideographic space and a line separator.
\<close>

theorem unicode_space_trimmed:
  "trim [0xA0, 0x2003, 0xFEFF, 0x20] = []
   \<and> pay_POST devnet RPC_ENDPOINTS MERCHANT_WALLET
       (Json \<lparr>pay_account = AccountString [0xA0, 0x2003, 0xFEFF, 0x20],
              pay_product = Some widget, pay_usdcMint = None\<rparr>) idle
     = (EmptyAccountParameter, idle)
   \<and> getTx_GET devnet RPC_ENDPOINTS (Some [0x3000, 0x2028]) (db_initial, idle)
     = (InvalidSignatureParameter, db_initial, idle)
   \<and> trim ([0x20, 0x9] @ codeUnits ''abc def'' @ [0xA, 0xD]) = codeUnits ''abc def''"
  by (simp add: trim_def isSpace_def pay_POST_def getTx_GET_def widget_def truthy_def
      codeUnits_def)

end
